theory Spec2Isabelle
  imports Complex_Main "HOL-Library.Sublist"
begin

section \<open>ChainGuard risk-scoring engine\<close>

text \<open>
  A shallow embedding of the scoring code of \<^verbatim>\<open>api_server.py\<close>, \<^verbatim>\<open>backend.py\<close> and
  the batch page of \<^verbatim>\<open>app.py\<close>. Python integers are modelled as \<^typ>\<open>int\<close>, dictionaries
  with a fixed set of keys as records, and library calls whose result the code cannot
  predict (the builtin \<^verbatim>\<open>hash\<close>, \<^verbatim>\<open>hashlib.sha256\<close>, number formatting and parsing, the
  local time zone, the trained models) as parameters.

  A finite Python float is modelled as the real number it denotes, and every float
  operation of the scoring paths (the pattern scorer, the rule-based analyzer, the
  ensemble path) as the exact operation followed by the rounding \<open>fl\<close> to the nearest
  binary64 number. A decimal literal \<open>c\<close> of the source is \<open>fl c\<close>. The weighted sums of
  the ensemble's models and the statistics of the address profiles are kept over the reals.
\<close>

subsection \<open>Python numerics\<close>

text \<open>\<^verbatim>\<open>int(x)\<close> and numpy's \<^verbatim>\<open>astype(int)\<close> on a float: truncation towards zero.\<close>

definition py_int :: "real \<Rightarrow> int" where
  "py_int x = (if 0 \<le> x then \<lfloor>x\<rfloor> else \<lceil>x\<rceil>)"

text \<open>\<^verbatim>\<open>round(x)\<close> with no digits: the nearest integer, ties to the even one.\<close>

definition py_round :: "real \<Rightarrow> int" where
  "py_round x =
     (let f = \<lfloor>x\<rfloor>; d = x - of_int f
      in if d < 1 / 2 then f else if 1 / 2 < d then f + 1 else if even f then f else f + 1)"

text \<open>
  The decimal rounding of \<^verbatim>\<open>round(x, n)\<close>, on the exact value of \<open>x\<close>; the float that
  \<^verbatim>\<open>round(x, n)\<close> returns is the nearest binary64 number to it.
\<close>

definition py_round_digits :: "real \<Rightarrow> nat \<Rightarrow> real" where
  "py_round_digits x n = of_int (py_round (x * 10 ^ n)) / 10 ^ n"

subsection \<open>Binary64 arithmetic\<close>

text \<open>
  The exponent of the binade of \<open>x\<close>, not below the exponent of the subnormal numbers,
  and the rounding of a real number to the nearest number with a 53-bit significand at
  that exponent, ties to the even significand (IEEE 754 \<^emph>\<open>roundTiesToEven\<close>). Overflow
  is not part of \<open>fl\<close>: the largest binary64 number is below \<open>2 ^ 1024\<close>, and a result
  that would round beyond it is tested for where the code can reach it.
\<close>

definition float_exponent :: "real \<Rightarrow> int" where
  "float_exponent x = max \<lfloor>log 2 \<bar>x\<bar>\<rfloor> (- 1022)"

definition fl :: "real \<Rightarrow> real" where
  "fl x = (if x = 0 then 0
           else let u = 2 powi (float_exponent x - 52) in of_int (py_round (x / u)) * u)"

text \<open>The float operations \<^verbatim>\<open>x + y\<close>, \<^verbatim>\<open>x - y\<close>, \<^verbatim>\<open>x * y\<close> and \<^verbatim>\<open>x / y\<close>.\<close>

definition fadd :: "real \<Rightarrow> real \<Rightarrow> real" where
  "fadd x y = fl (x + y)"

definition fsub :: "real \<Rightarrow> real \<Rightarrow> real" where
  "fsub x y = fl (x - y)"

definition fmul :: "real \<Rightarrow> real \<Rightarrow> real" where
  "fmul x y = fl (x * y)"

definition fdiv :: "real \<Rightarrow> real \<Rightarrow> real" where
  "fdiv x y = fl (x / y)"

text \<open>Whether a real number rounds beyond the largest binary64 number (to infinity).\<close>

definition overflows :: "real \<Rightarrow> bool" where
  "overflows x = (\<bar>x\<bar> \<ge> 2 ^ 1024 - 2 ^ 970)"

text \<open>
  A Python float that may not be finite: the value of \<^verbatim>\<open>float(s)\<close> for a text such as
  \<^verbatim>\<open>inf\<close> or \<^verbatim>\<open>nan\<close>, or of a table cell.
\<close>

datatype pyfloat = Finite real | PosInf | NegInf | NaN

text \<open>The comparisons \<^verbatim>\<open>v > c\<close>, \<^verbatim>\<open>v < c\<close> and \<^verbatim>\<open>v >= c\<close> with a finite \<open>c\<close>.\<close>

fun f_gt :: "pyfloat \<Rightarrow> real \<Rightarrow> bool" where
  "f_gt (Finite x) c = (x > c)"
| "f_gt PosInf c = True"
| "f_gt NegInf c = False"
| "f_gt NaN c = False"

fun f_lt :: "pyfloat \<Rightarrow> real \<Rightarrow> bool" where
  "f_lt (Finite x) c = (x < c)"
| "f_lt PosInf c = False"
| "f_lt NegInf c = True"
| "f_lt NaN c = False"

fun f_ge :: "pyfloat \<Rightarrow> real \<Rightarrow> bool" where
  "f_ge (Finite x) c = (x \<ge> c)"
| "f_ge PosInf c = True"
| "f_ge NegInf c = False"
| "f_ge NaN c = False"

subsection \<open>The centralized risk classifier (api\_server.get\_risk\_level\_and\_action)\<close>

text \<open>
  The dictionary the classifier returns. The description strings of the source start with
  a pictograph, which is left out here; the rest of each string is as in the source.
\<close>

record risk_info =
  level :: string
  action :: string
  threat_level :: string
  description :: string
  triggers_alert :: bool

text \<open>
  The classifier is called with an integer score on the ensemble path and with a float on
  the rule-based batch path, so the model is polymorphic in the ordered number type.
\<close>

definition get_risk_level_and_action :: "'a::linordered_idom \<Rightarrow> risk_info" where
  "get_risk_level_and_action risk_score =
     (if risk_score \<ge> 80 then
        \<lparr>level = ''BLOCKED'', action = ''Block'', threat_level = ''HIGH'',
         description = ''CRITICAL - Block Transaction Immediately'', triggers_alert = False\<rparr>
      else if risk_score \<ge> 65 then
        \<lparr>level = ''SUSPICIOUS'', action = ''Alert'', threat_level = ''MEDIUM'',
         description = ''HIGH RISK - Flag for Investigation'', triggers_alert = True\<rparr>
      else
        \<lparr>level = ''APPROVED'', action = ''Approve'', threat_level = ''LOW'',
         description = ''LOW RISK - Allow Transaction'', triggers_alert = False\<rparr>)"

subsection \<open>Python strings\<close>

text \<open>\<^verbatim>\<open>str.lower\<close> on ASCII text.\<close>

definition py_lower_char :: "char \<Rightarrow> char" where
  "py_lower_char c =
     (case map_of (zip ''ABCDEFGHIJKLMNOPQRSTUVWXYZ'' ''abcdefghijklmnopqrstuvwxyz'') c of
        Some l \<Rightarrow> l
      | None \<Rightarrow> c)"

definition py_lower :: "string \<Rightarrow> string" where
  "py_lower s = map py_lower_char s"

text \<open>\<^verbatim>\<open>sub in s\<close>: \<open>sub\<close> occurs in \<open>s\<close> as a contiguous substring.\<close>

fun py_in :: "string \<Rightarrow> string \<Rightarrow> bool" where
  "py_in sub [] = (sub = [])"
| "py_in sub (c # cs) = (prefix sub (c # cs) \<or> py_in sub cs)"

text \<open>\<^verbatim>\<open>str.strip\<close>: leading and trailing white space removed.\<close>

definition py_isspace :: "char \<Rightarrow> bool" where
  "py_isspace c =
     (c \<in> set [CHR 0x09, CHR 0x0A, CHR 0x0B, CHR 0x0C, CHR 0x0D,
                CHR 0x1C, CHR 0x1D, CHR 0x1E, CHR 0x1F, CHR 0x20])"

definition py_strip :: "string \<Rightarrow> string" where
  "py_strip s = rev (dropWhile py_isspace (rev (dropWhile py_isspace s)))"

text \<open>\<^verbatim>\<open>str(n)\<close> of an integer.\<close>

fun str_nat :: "nat \<Rightarrow> string" where
  "str_nat n =
     (if n < 10 then [''0123456789'' ! n] else str_nat (n div 10) @ [''0123456789'' ! (n mod 10)])"

declare str_nat.simps [simp del]

definition str_int :: "int \<Rightarrow> string" where
  "str_int i = (if i < 0 then ''-'' @ str_nat (nat (- i)) else str_nat (nat i))"

subsection \<open>Library calls taken as parameters\<close>

text \<open>
  \<^item> \<open>py_hash\<close>: the builtin \<^verbatim>\<open>hash\<close> on strings (salted per process);
  \<^item> \<open>str_float\<close>: \<^verbatim>\<open>str\<close> of a finite number;
  \<^item> \<open>parse_float\<close>: \<^verbatim>\<open>float\<close> of a string, \<open>None\<close> when it raises ValueError;
  \<^item> \<open>fromtimestamp_hour\<close>: \<^verbatim>\<open>datetime.fromtimestamp(t).hour\<close> in the local time zone,
    \<open>None\<close> when \<^verbatim>\<open>datetime.fromtimestamp(t)\<close> raises (a time stamp out of the platform's
    range);
  \<^item> \<open>sha256_hexdigest\<close>: \<^verbatim>\<open>hashlib.sha256(s.encode()).hexdigest()\<close>.
\<close>

record runtime =
  py_hash :: "string \<Rightarrow> int"
  str_float :: "real \<Rightarrow> string"
  parse_float :: "string \<Rightarrow> pyfloat option"
  fromtimestamp_hour :: "int \<Rightarrow> int option"
  sha256_hexdigest :: "string \<Rightarrow> string"

subsection \<open>The pattern scorer (backend.predict\_with\_risk)\<close>

text \<open>
  A transaction row as the scorer reads it. Both callers (the streaming loop and the batch
  page, after its column check) pass rows that have every one of these columns, so the
  test \<^verbatim>\<open>'TimeStamp' in row\<close> of the source is always true. The value is a Python float
  or a 64-bit integer of the table.
\<close>

record tx_data =
  TxHash :: string
  BlockHeight :: int
  TimeStamp :: int
  From :: string
  To :: string
  Value :: real

text \<open>The columns the scorer adds to each row.\<close>

record prediction =
  p_fraud :: real
  risk_score :: int
  label :: string
  p_action :: string

definition has_repeated_pattern :: "string \<Rightarrow> bool" where
  "has_repeated_pattern addr = (py_in ''0000'' addr \<or> py_in ''1111'' addr \<or> py_in ''ffff'' addr)"

text \<open>\<^verbatim>\<open>if c: risk_score += pts\<close> for a decimal literal \<open>pts\<close>.\<close>

definition bump :: "bool \<Rightarrow> real \<Rightarrow> real \<Rightarrow> real" where
  "bump c pts risk = (if c then fadd risk (fl pts) else risk)"

text \<open>
  The body of the loop over the rows, in two parts. First the points of the value and
  address patterns and the hash-derived jitter (the statements up to
  \<^verbatim>\<open>risk_score += base_randomness\<close>). The value is divided as a float (an integer of
  the table is converted first); \<^verbatim>\<open>round(value_eth)\<close> is an integer, which the
  subtraction converts back to the float of the same value.
\<close>

definition pattern_points :: "runtime \<Rightarrow> 'a tx_data_scheme \<Rightarrow> real" where
  "pattern_points rt row =
     (let value_eth = fdiv (fl (Value row)) (10 ^ 18);
          s1 = (if value_eth > 100 then fadd 0 (fl 0.4)
                else if value_eth > 50 then fadd 0 (fl 0.25)
                else if value_eth > 10 then fadd 0 (fl 0.1) else 0);
          s2 = bump (\<bar>fsub value_eth (of_int (py_round value_eth))\<bar> < fl 0.001) 0.3 s1;
          s3 = bump (value_eth < fl 0.001) 0.2 s2;
          s4 = bump (py_lower (From row) = py_lower (To row)) 0.5 s3;
          from_addr = py_lower (From row);
          to_addr = py_lower (To row);
          s5 = bump (has_repeated_pattern from_addr) 0.15 s4;
          s6 = bump (has_repeated_pattern to_addr) 0.15 s5;
          s7 = bump (suffix ''0000'' from_addr \<or> suffix ''0000'' to_addr) 0.1 s6;
          base_randomness =
            fdiv (of_int (py_hash rt (from_addr @ to_addr @ str_float rt (Value row)) mod 100)) 1000
      in fadd s7 base_randomness)"

text \<open>
  Then the hour of the day, the clamp, the second jitter and the second clamp: the fraud
  probability of the row, \<open>None\<close> when \<^verbatim>\<open>datetime.fromtimestamp\<close> raises.
\<close>

definition row_risk :: "runtime \<Rightarrow> 'a tx_data_scheme \<Rightarrow> real option" where
  "row_risk rt row =
     (case fromtimestamp_hour rt (TimeStamp row) of
        None \<Rightarrow> None
      | Some hour \<Rightarrow>
          (let s9 = bump (hour < 6 \<or> hour > 22) 0.05 (pattern_points rt row);
               clamped = max 0 (min (fl 0.95) s9);
               final_variance = fdiv (of_int (py_hash rt (TxHash row) mod 20 - 10)) 100
           in Some (max 0 (min (fl 0.95) (fadd clamped final_variance)))))"

definition get_fraud_label :: "int \<Rightarrow> string" where
  "get_fraud_label score =
     (if score \<ge> 80 then ''Fraudulent''
      else if score \<ge> 50 then ''Suspicious''
      else ''Normal'')"

text \<open>The action texts, without the pictograph each starts with in the source.\<close>

definition get_action :: "int \<Rightarrow> string" where
  "get_action score =
     (if score \<ge> 80 then ''CRITICAL - Block Transaction Immediately''
      else if score \<ge> 65 then ''HIGH RISK - Flag for Investigation''
      else if score \<ge> 50 then ''SUSPICIOUS - Requires Manual Review''
      else if score \<ge> 30 then ''MEDIUM RISK - Monitor Closely''
      else ''LOW RISK - Normal Activity'')"

text \<open>\<^verbatim>\<open>(probabilities * 100).astype(int)\<close>: the float product, truncated.\<close>

definition predict_row :: "real \<Rightarrow> prediction" where
  "predict_row p =
     (let score = py_int (fmul p 100)
      in \<lparr>p_fraud = p, risk_score = score, label = get_fraud_label score,
          p_action = get_action score\<rparr>)"

text \<open>
  The whole call: one prediction per row, in row order; an exception in any row leaves
  the call (\<open>None\<close>).
\<close>

definition predict_with_risk :: "runtime \<Rightarrow> 'a tx_data_scheme list \<Rightarrow> prediction list option" where
  "predict_with_risk rt df_raw = map_option (map predict_row) (those (map (row_risk rt) df_raw))"

subsection \<open>Tables read from CSV files\<close>

text \<open>
  A pandas cell is a finite number (a float or a 64-bit integer), an infinite float (the
  flag says whether it is positive), a text or the missing value (NaN); a row maps column
  names to cells; a table is its list of column names and its rows in order.
\<close>

datatype cell = Number real | Text string | Missing | Infinity bool

type_synonym row = "string \<rightharpoonup> cell"

record dataframe =
  columns :: "string list"
  rows :: "row list"

text \<open>
  The exceptions of the model. \<open>LibraryError\<close> stands for whatever a call into pandas or
  scikit-learn raises, \<open>NameError\<close> for the use of an unbound local variable.
\<close>

datatype py_error = KeyError | ValueError | ZeroDivisionError | IndexError
  | OverflowError | TypeError | NameError | LibraryError

text \<open>\<^verbatim>\<open>str(x)\<close> of a cell.\<close>

definition str_cell :: "runtime \<Rightarrow> cell \<Rightarrow> string" where
  "str_cell rt c =
     (case c of
        Number x \<Rightarrow> str_float rt x
      | Text s \<Rightarrow> s
      | Missing \<Rightarrow> ''nan''
      | Infinity positive \<Rightarrow> (if positive then ''inf'' else ''-inf''))"

text \<open>\<^verbatim>\<open>k in row and pd.notna(row[k])\<close>, giving the cell when it holds.\<close>

definition present :: "row \<Rightarrow> string \<Rightarrow> cell option" where
  "present r k = (case r k of None \<Rightarrow> None | Some Missing \<Rightarrow> None | Some c \<Rightarrow> Some c)"

text \<open>
  \<^verbatim>\<open>float(x)\<close> of a cell: an integer is converted to the nearest float, a text is parsed.
\<close>

definition float_cell :: "runtime \<Rightarrow> cell \<Rightarrow> py_error + pyfloat" where
  "float_cell rt c =
     (case c of
        Number x \<Rightarrow> Inr (Finite (fl x))
      | Text s \<Rightarrow> (case parse_float rt s of None \<Rightarrow> Inl ValueError | Some v \<Rightarrow> Inr v)
      | Missing \<Rightarrow> Inr NaN
      | Infinity positive \<Rightarrow> Inr (if positive then PosInf else NegInf))"

text \<open>\<^verbatim>\<open>int(v)\<close> of a float: OverflowError on an infinity, ValueError on NaN.\<close>

fun int_of_float :: "pyfloat \<Rightarrow> py_error + int" where
  "int_of_float (Finite x) = Inr (py_int x)"
| "int_of_float PosInf = Inl OverflowError"
| "int_of_float NegInf = Inl OverflowError"
| "int_of_float NaN = Inl ValueError"

text \<open>
  The handler \<^verbatim>\<open>except (ValueError, TypeError)\<close> around the parsing of a field: the two
  exceptions give the default 0, any other one leaves the loop.
\<close>

definition default_on_error :: "py_error + int \<Rightarrow> py_error + int" where
  "default_on_error x =
     (case x of
        Inl e \<Rightarrow> if e = ValueError \<or> e = TypeError then Inr 0 else Inl e
      | Inr n \<Rightarrow> Inr n)"

text \<open>A list of results, or the first exception raised while computing them.\<close>

fun sequence_results :: "('e + 'a) list \<Rightarrow> 'e + 'a list" where
  "sequence_results [] = Inr []"
| "sequence_results (Inl e # _) = Inl e"
| "sequence_results (Inr x # rs) =
     (case sequence_results rs of Inl e \<Rightarrow> Inl e | Inr xs \<Rightarrow> Inr (x # xs))"

subsection \<open>The rule-based batch analyzer (api\_server.CSVFraudAnalyzer.analyze\_transactions)\<close>

text \<open>
  One result dictionary of a batch analysis. The keys that repeat another key
  (\<^verbatim>\<open>transaction_id\<close>, \<^verbatim>\<open>from_address\<close>, \<^verbatim>\<open>to_address\<close>, \<^verbatim>\<open>amount\<close>,
  \<^verbatim>\<open>label\<close>), the echoed block height, time stamp and error flag, and the presentation
  keys (\<^verbatim>\<open>country\<close>, \<^verbatim>\<open>coordinates\<close>, \<^verbatim>\<open>timestamp\<close>, \<^verbatim>\<open>details\<close>,
  \<^verbatim>\<open>confidence\<close>) are not modelled. A key that only one of the two analyzers writes is
  an option.
\<close>

record csv_result =
  r_TxHash :: cell
  r_From :: cell
  r_To :: cell
  r_Value :: pyfloat
  r_risk_score :: int
  r_status :: string
  r_flags :: "string list"
  r_action :: "string option"
  r_threat_level :: "string option"
  r_fraud_probability :: "real option"
  r_is_fraud :: "bool option"
  r_model_type :: "string option"

text \<open>
  What the code cannot compute from the row alone: the Isolation Forest's prediction and
  decision value for the row, the CatBoost class (\<open>None\<close> when CatBoost is unavailable or
  its training failed), and the two random addresses drawn as defaults for a missing
  \<^verbatim>\<open>From\<close> or \<^verbatim>\<open>To\<close> column.
\<close>

record side_inputs =
  iso_prediction :: int
  anomaly_score :: real
  catboost_class :: "int option"
  random_from :: string
  random_to :: string

text \<open>
  The statements of \<^verbatim>\<open>analyze_transactions\<close> before its loops (feature extraction,
  scaling, fitting the Isolation Forest and predicting with it) followed by the training of
  CatBoost, as a function of the table: the side inputs of each row, or \<open>None\<close> when one
  of the statements before the loops raises.
\<close>

type_synonym fitted = "dataframe \<Rightarrow> (nat \<Rightarrow> side_inputs) option"

text \<open>\<^verbatim>\<open>risk_score += pts; flags.append(flag)\<close>, a float addition.\<close>

definition add_points :: "real \<Rightarrow> string \<Rightarrow> real \<times> string list \<Rightarrow> real \<times> string list" where
  "add_points pts flag acc = (fadd (fst acc) pts, snd acc @ [flag])"

text \<open>
  The amount: the first of the columns Value, value, amount that has a value. In the
  second loop the conversion is outside every handler.
\<close>

definition get_amount :: "runtime \<Rightarrow> row \<Rightarrow> py_error + pyfloat" where
  "get_amount rt r =
     (case present r ''Value'' of
        Some c \<Rightarrow> float_cell rt c
      | None \<Rightarrow>
          (case present r ''value'' of
             Some c \<Rightarrow> float_cell rt c
           | None \<Rightarrow>
               (case present r ''amount'' of
                  Some c \<Rightarrow> float_cell rt c
                | None \<Rightarrow> Inr (Finite 0))))"

text \<open>
  The error status. ValueError and TypeError are caught and give 0; the OverflowError of
  \<^verbatim>\<open>int(float(...))\<close> on an infinity is not caught.
\<close>

definition get_is_error :: "runtime \<Rightarrow> row \<Rightarrow> py_error + int" where
  "get_is_error rt r =
     (case present r ''isError'' of
        None \<Rightarrow> Inr 0
      | Some c \<Rightarrow>
          (let error_val = py_strip (py_lower (str_cell rt c))
           in if error_val \<in> set [''1'', ''true'', ''yes'', ''error''] then Inr 1
              else if error_val \<in> set [''0'', ''false'', ''no'', ''success''] then Inr 0
              else default_on_error
                     (case float_cell rt c of Inl e \<Rightarrow> Inl e | Inr v \<Rightarrow> int_of_float v)))"

text \<open>
  \<^verbatim>\<open>int(float(str(row[k]).replace(',', '')))\<close> for the block height and the time stamp,
  under the same handler.
\<close>

definition get_int_field :: "runtime \<Rightarrow> row \<Rightarrow> string \<Rightarrow> py_error + int" where
  "get_int_field rt r k =
     (case present r k of
        None \<Rightarrow> Inr 0
      | Some c \<Rightarrow>
          default_on_error
            (case parse_float rt (filter (\<lambda>ch. ch \<noteq> CHR '','') (str_cell rt c)) of
               None \<Rightarrow> Inl ValueError
             | Some v \<Rightarrow> int_of_float v))"

text \<open>
  \<^verbatim>\<open>amount > 0 and abs(amount - round(amount, 2)) < 0.0001\<close>; on an infinity the
  difference is NaN, which compares false.
\<close>

fun is_round_amount :: "pyfloat \<Rightarrow> bool" where
  "is_round_amount (Finite x) = (x > 0 \<and> \<bar>fsub x (fl (py_round_digits x 2))\<bar> < fl 0.0001)"
| "is_round_amount PosInf = False"
| "is_round_amount NegInf = False"
| "is_round_amount NaN = False"

text \<open>The rule-based points, in the order of the source.\<close>

definition rule_based :: "pyfloat \<Rightarrow> int \<Rightarrow> int \<Rightarrow> real \<times> string list" where
  "rule_based amount is_error block_height =
     (let acc0 = (0, []);
          acc1 = (if f_gt amount 10 then add_points 30 ''Large Amount'' acc0
                  else if f_gt amount 1 then add_points 15 ''Medium Amount'' acc0
                  else acc0);
          acc2 = (if f_lt amount (fl 0.001) then add_points 20 ''Dust Transaction'' acc1 else acc1);
          acc3 = (if is_error = 1 then add_points 40 ''Transaction Error'' acc2 else acc2);
          current_block_approx = 19000000;
          acc4 = (if block_height > 0 then
                    (let block_age = current_block_approx - block_height
                     in if block_age < 100 then add_points 10 ''Recent Block'' acc3
                        else if block_age > 10000000 then add_points 5 ''Old Block'' acc3
                        else acc3)
                  else acc3)
      in if is_round_amount amount then add_points 15 ''Round Amount'' acc4 else acc4)"

text \<open>The points of the two models and the boost for their combined confidence.\<close>

definition ml_based :: "side_inputs \<Rightarrow> real \<times> string list \<Rightarrow> real \<times> string list" where
  "ml_based side acc =
     (let iso = (if iso_prediction side = - 1
                 then (add_points (min 25 (fmul \<bar>anomaly_score side\<bar> 15)) ''Isolation Anomaly'' acc,
                       10 :: int)
                 else (acc, 0));
          cat = (case catboost_class side of
                   None \<Rightarrow> iso
                 | Some cls \<Rightarrow>
                     if cls \<ge> 2
                     then (add_points 20 ''CatBoost High Risk'' (fst iso), snd iso + 15)
                     else if cls = 1
                     then (add_points 10 ''CatBoost Medium Risk'' (fst iso), snd iso + 5)
                     else iso);
          ml_boost = snd cat
      in if ml_boost > 0 then (fadd (fst (fst cat)) (real_of_int (min 15 ml_boost)), snd (fst cat))
         else fst cat)"

text \<open>The address-based points, added after the status has been determined.\<close>

definition address_based :: "string \<Rightarrow> string \<Rightarrow> real \<times> string list \<Rightarrow> real \<times> string list" where
  "address_based from_addr to_addr acc =
     (let acc1 = (if from_addr = to_addr then add_points 25 ''Self Transfer'' acc else acc);
          acc2 = (if count_list from_addr (CHR ''0'') > 20
                  then add_points 10 ''Contract-like From'' acc1 else acc1)
      in if count_list to_addr (CHR ''0'') > 20
         then add_points 10 ''Contract-like To'' acc2 else acc2)"

text \<open>
  The body of the second loop over the rows, for the row with index \<open>idx\<close>, in two
  parts. First the scoring, from the parsed amount, error flag and block height, and the
  result dictionary.
\<close>

definition score_row ::
  "runtime \<Rightarrow> side_inputs \<Rightarrow> nat \<Rightarrow> row \<Rightarrow> pyfloat \<Rightarrow> int \<Rightarrow> int \<Rightarrow> csv_result" where
  "score_row rt side idx r amount is_error block_height =
     (let acc = ml_based side (rule_based amount is_error block_height);
          risk_info = get_risk_level_and_action (fst acc);
          tx_id = (case r ''TxHash'' of None \<Rightarrow> ''tx_'' @ str_nat idx | Some c \<Rightarrow> str_cell rt c);
          from_addr = (case r ''From'' of None \<Rightarrow> random_from side | Some c \<Rightarrow> str_cell rt c);
          to_addr = (case r ''To'' of None \<Rightarrow> random_to side | Some c \<Rightarrow> str_cell rt c);
          final = address_based from_addr to_addr acc
      in \<lparr>r_TxHash = Text tx_id, r_From = Text from_addr, r_To = Text to_addr,
          r_Value = amount,
          r_risk_score = min 100 (py_int (fst final)),
          r_status = level risk_info,
          r_flags = snd final,
          r_action = None,
          r_threat_level = Some (threat_level risk_info),
          r_fraud_probability = None, r_is_fraud = None, r_model_type = None\<rparr>)"

text \<open>
  Then the whole body. Four exceptions leave it: the one \<^verbatim>\<open>float(row['Value'])\<close>
  raises, the OverflowError of an infinite error flag, block height or time stamp, and
  the one \<^verbatim>\<open>datetime.fromtimestamp(timestamp)\<close> raises for a positive time stamp out
  of range, when the result dictionary is built (ValueError, OverflowError or OSError,
  by the size of the time stamp; ValueError stands for the three here).
\<close>

definition analyze_row :: "runtime \<Rightarrow> side_inputs \<Rightarrow> nat \<Rightarrow> row \<Rightarrow> py_error + csv_result" where
  "analyze_row rt side idx r =
     (case get_amount rt r of
        Inl e \<Rightarrow> Inl e
      | Inr amount \<Rightarrow>
     (case get_is_error rt r of
        Inl e \<Rightarrow> Inl e
      | Inr is_error \<Rightarrow>
     (case get_int_field rt r ''BlockHeight'' of
        Inl e \<Rightarrow> Inl e
      | Inr block_height \<Rightarrow>
     (case get_int_field rt r ''TimeStamp'' of
        Inl e \<Rightarrow> Inl e
      | Inr timestamp \<Rightarrow>
          if timestamp > 0 \<and> fromtimestamp_hour rt timestamp = None then Inl ValueError
          else Inr (score_row rt side idx r amount is_error block_height)))))"

text \<open>
  The whole call: the statements before the loops; the first loop
  (\<^verbatim>\<open>_basic_risk_analysis\<close>), which prepares the training labels of CatBoost and catches
  the exceptions of its amount but not the OverflowError of the error flag; the second
  loop. An exception of the training of CatBoost is caught (the class is then \<open>None\<close>).
\<close>

definition analyze_transactions ::
  "runtime \<Rightarrow> fitted \<Rightarrow> dataframe \<Rightarrow> py_error + csv_result list" where
  "analyze_transactions rt fit df =
     (case fit df of
        None \<Rightarrow> Inl LibraryError
      | Some side \<Rightarrow>
          (case sequence_results (map (get_is_error rt) (rows df)) of
             Inl e \<Rightarrow> Inl e
           | Inr basic_results \<Rightarrow>
               sequence_results
                 (map (\<lambda>(idx, r). analyze_row rt (side idx) idx r) (enumerate 0 (rows df)))))"

subsection \<open>The ensemble path (api\_server.predict\_with\_ensemble, analyze\_with\_ensemble\_system)\<close>

text \<open>
  The loaded ensemble: each trained model is the function from a scaled feature vector to
  its fraud probability (\<^verbatim>\<open>predict_proba(X)[:, 1]\<close>, row by row); \<open>featurize\<close> is the
  feature engineering followed by the scaler, \<open>None\<close> when it raises.
\<close>

record 'x ensemble_system =
  is_loaded :: bool
  models :: "(string \<times> ('x \<Rightarrow> real)) list"
  weights :: "string \<rightharpoonup> real"
  threshold :: real
  featurize :: "dataframe \<Rightarrow> 'x list option"

text \<open>
  The loop over the models: \<^verbatim>\<open>ensemble_proba += proba * weights[name]\<close>; a model with
  no weight raises KeyError (\<open>None\<close>).
\<close>

fun ensemble_loop ::
  "(string \<times> ('x \<Rightarrow> real)) list \<Rightarrow> (string \<rightharpoonup> real) \<Rightarrow> 'x list \<Rightarrow> real list \<Rightarrow> real list option" where
  "ensemble_loop [] ws X ensemble_proba = Some ensemble_proba"
| "ensemble_loop ((name, model) # ms) ws X ensemble_proba =
     (case ws name of
        None \<Rightarrow> None
      | Some w \<Rightarrow> ensemble_loop ms ws X (map2 (+) ensemble_proba (map (\<lambda>x. model x * w) X)))"

text \<open>The columns the feature engineering indexes; a missing one raises KeyError.\<close>

definition feature_columns :: "string list" where
  "feature_columns = [''Value'', ''BlockHeight'', ''isError'', ''From'', ''To'', ''TimeStamp'']"

text \<open>
  The prediction of the ensemble: \<open>None\<close> when it is not loaded or an exception is
  caught, else the binary predictions and the probabilities, one per row.
\<close>

definition predict_with_ensemble ::
  "'x ensemble_system \<Rightarrow> dataframe \<Rightarrow> (bool list \<times> real list) option" where
  "predict_with_ensemble es df =
     (if \<not> is_loaded es then None
      else if \<not> set feature_columns \<subseteq> set (columns df) then None
      else case featurize es df of
             None \<Rightarrow> None
           | Some X \<Rightarrow>
               if length X \<noteq> length (rows df) then None
               else (case ensemble_loop (models es) (weights es) X (replicate (length (rows df)) 0) of
                       None \<Rightarrow> None
                     | Some ensemble_proba \<Rightarrow>
                         Some (map (\<lambda>p. p \<ge> threshold es) ensemble_proba, ensemble_proba)))"


text \<open>
  The time flags of a time stamp in seconds (\<^verbatim>\<open>pd.to_datetime(t, unit='s')\<close>, in UTC;
  1 January 1970 was a Thursday, day 3 of the week). Outside the range pandas represents
  the call raises and the code passes; a missing time stamp gives no flag.
\<close>

definition hour_flags :: "real \<Rightarrow> string list" where
  "hour_flags t =
     (if \<bar>t\<bar> > 9223372036 then []
      else let secs = \<lfloor>t\<rfloor>;
               hour = secs div 3600 mod 24;
               dayofweek = (secs div 86400 + 3) mod 7
           in (if hour \<in> set [2, 3, 4, 5] then [''Suspicious Hour''] else [])
              @ (if dayofweek \<ge> 5 then [''Weekend Transaction''] else []))"

definition time_flags :: "runtime \<Rightarrow> row \<Rightarrow> string list" where
  "time_flags rt r =
     (case r ''TimeStamp'' of
        Some (Number t) \<Rightarrow> hour_flags t
      | Some (Text s) \<Rightarrow> (case parse_float rt s of Some (Finite t) \<Rightarrow> hour_flags t | _ \<Rightarrow> [])
      | _ \<Rightarrow> [])"

text \<open>
  \<^verbatim>\<open>value_eth == round(value_eth, 0) and value_eth >= 1\<close>; the rounding of a finite
  float to no decimals is a float.
\<close>

fun is_whole_amount :: "pyfloat \<Rightarrow> bool" where
  "is_whole_amount (Finite x) = (x = fl (py_round_digits x 0) \<and> x \<ge> 1)"
| "is_whole_amount PosInf = True"
| "is_whole_amount NegInf = False"
| "is_whole_amount NaN = False"

text \<open>The flags of a row, in the order the source appends them.\<close>

definition ensemble_flags :: "runtime \<Rightarrow> row \<Rightarrow> pyfloat \<Rightarrow> bool \<Rightarrow> real \<Rightarrow> string list" where
  "ensemble_flags rt r value_eth is_fraud fraud_prob =
     (let flags1 = (if r ''isError'' = Some (Number 1) then [''Transaction Error''] else []);
          flags2 = (if f_gt value_eth 100 then [''Large Amount'']
                    else if f_lt value_eth (fl 0.001) then [''Dust Transaction''] else []);
          flags3 = (if is_whole_amount value_eth then [''Round Amount''] else []);
          flags4 = time_flags rt r;
          flags5 = (if r ''From'' = r ''To'' \<and> r ''From'' \<noteq> Some Missing
                    then [''Self Transaction''] else []);
          flags6 = (if is_fraud then [''Ensemble High Risk''] else []);
          flags7 = (if fraud_prob > fl 0.8 then [''High Confidence Fraud''] else [])
      in flags1 @ flags2 @ flags3 @ flags4 @ flags5 @ flags6 @ flags7)"

text \<open>
  \<^verbatim>\<open>float(row['Value'])\<close> followed by the guess of the unit: a value above 1000 is taken
  to be in Wei.
\<close>

definition ensemble_value :: "runtime \<Rightarrow> row \<Rightarrow> py_error + pyfloat" where
  "ensemble_value rt r =
     (case r ''Value'' of
        None \<Rightarrow> Inl KeyError
      | Some c \<Rightarrow>
          (case float_cell rt c of
             Inl e \<Rightarrow> Inl e
           | Inr (Finite raw_value) \<Rightarrow>
               Inr (Finite (if raw_value > 1000 then fdiv raw_value (10 ^ 18) else raw_value))
           | Inr v \<Rightarrow> Inr v))"

text \<open>
  The body of the loop over the rows, given the row's binary prediction and probability.
  The risk score is the float product truncated; \<^verbatim>\<open>int\<close> raises when the product is
  infinite. Reading a column the table does not have raises KeyError.
\<close>

definition ensemble_row :: "runtime \<Rightarrow> row \<Rightarrow> bool \<Rightarrow> real \<Rightarrow> py_error + csv_result" where
  "ensemble_row rt r is_fraud fraud_prob =
     (case ensemble_value rt r of
        Inl e \<Rightarrow> Inl e
      | Inr value_eth \<Rightarrow>
          if overflows (fraud_prob * 100) then Inl OverflowError
          else
            (let score = py_int (fmul fraud_prob 100);
                 risk_info = get_risk_level_and_action score;
                 flags = ensemble_flags rt r value_eth is_fraud fraud_prob
             in case (r ''TxHash'', r ''From'', r ''To'') of
                  (Some tx_hash, Some from_addr, Some to_addr) \<Rightarrow>
                    if r ''BlockHeight'' = None \<or> r ''TimeStamp'' = None then Inl KeyError
                    else Inr \<lparr>r_TxHash = tx_hash, r_From = from_addr, r_To = to_addr,
                              r_Value = value_eth,
                              r_risk_score = score,
                              r_status = level risk_info,
                              r_flags = flags,
                              r_action = Some (action risk_info),
                              r_threat_level = None,
                              r_fraud_probability = Some fraud_prob,
                              r_is_fraud = Some is_fraud,
                              r_model_type = Some ''Advanced Ensemble''\<rparr>
                | _ \<Rightarrow> Inl KeyError))"

text \<open>
  The whole call: the ensemble's results, or the rule-based analyzer's when the ensemble
  gives no prediction or a row raises.
\<close>

definition analyze_with_ensemble_system ::
  "runtime \<Rightarrow> 'x ensemble_system \<Rightarrow> fitted \<Rightarrow> dataframe \<Rightarrow> py_error + csv_result list" where
  "analyze_with_ensemble_system rt es fit df =
     (case predict_with_ensemble es df of
        None \<Rightarrow> analyze_transactions rt fit df
      | Some (ensemble_pred, ensemble_proba) \<Rightarrow>
          (case sequence_results
                  (map (\<lambda>(r, is_fraud, p). ensemble_row rt r is_fraud p)
                       (zip (rows df) (zip ensemble_pred ensemble_proba))) of
             Inl e \<Rightarrow> analyze_transactions rt fit df
           | Inr results \<Rightarrow> Inr results))"

subsection \<open>The streaming path: scoring one transaction (api\_server.process\_transaction\_data)\<close>

text \<open>The dictionary the monitoring loop builds for one transaction of a block.\<close>

record stream_tx = tx_data +
  Value_Wei :: int

text \<open>
  The scored transaction: \<^verbatim>\<open>{**tx_data, 'fraud_probability': ..., 'risk_score': ...,
  'label': ..., 'action': ..., 'timestamp': ...}\<close>. The keys \<^verbatim>\<open>risk_score\<close>,
  \<^verbatim>\<open>label\<close> and \<^verbatim>\<open>action\<close> carry the prefix \<open>tx_\<close> here.
\<close>

record tx_result = stream_tx +
  fraud_probability :: real
  tx_risk_score :: int
  tx_label :: string
  tx_action :: string
  timestamp :: string

text \<open>
  \<open>now\<close> is the reading of the clock (\<^verbatim>\<open>datetime.now().isoformat()\<close>). An exception
  of the scorer is caught and gives \<open>None\<close>.
\<close>

definition process_transaction_data :: "runtime \<Rightarrow> string \<Rightarrow> stream_tx \<Rightarrow> tx_result option" where
  "process_transaction_data rt now tx =
     (case predict_with_risk rt [tx] of
        None \<Rightarrow> None
      | Some df_result \<Rightarrow>
          (case df_result of
             [] \<Rightarrow> None
           | pr # _ \<Rightarrow>
               Some \<lparr>TxHash = TxHash tx, BlockHeight = BlockHeight tx, TimeStamp = TimeStamp tx,
                     From = From tx, To = To tx, Value = Value tx, Value_Wei = Value_Wei tx,
                     fraud_probability = p_fraud pr,
                     tx_risk_score = risk_score pr,
                     tx_label = label pr,
                     tx_action = p_action pr,
                     timestamp = now\<rparr>))"

subsection \<open>Address profiles (api\_server.update\_node\_analysis)\<close>

text \<open>
  A row of the table \<^verbatim>\<open>node_analysis\<close>, keyed by the address. The sums and the
  quotients of the statistics are over the reals.
\<close>

record node_row =
  total_transactions :: int
  fraud_transactions :: int
  fraud_percentage :: real
  total_value :: real
  fraud_value :: real
  node_risk_score :: real
  first_seen :: string
  last_seen :: string
  is_flagged :: bool

definition null_address :: string where
  "null_address = ''0x0000000000000000000000000000000000000000''"

text \<open>
  The body of the loop over the two addresses. \<open>Inr\<close> is the table after the statement;
  \<open>Inl\<close> is the exception that leaves the loop (a division by zero).
\<close>

definition update_address ::
  "string \<Rightarrow> tx_result \<Rightarrow> (string \<rightharpoonup> node_row) \<Rightarrow> string \<Rightarrow> py_error + (string \<rightharpoonup> node_row)" where
  "update_address now tx db address =
     (if address = [] \<or> address = null_address then Inr db
      else
        (let is_fraud = (tx_label tx = ''Fraudulent'');
             tx_value = Value tx / 10 ^ 18
         in case db address of
              Some result \<Rightarrow>
                (let new_total_tx = total_transactions result + 1;
                     new_fraud_tx = fraud_transactions result + (if is_fraud then 1 else 0);
                     new_total_val = total_value result + tx_value;
                     new_fraud_val = fraud_value result + (if is_fraud then tx_value else 0)
                 in if new_total_tx = 0 then Inl ZeroDivisionError
                    else
                      (let pct = (of_int new_fraud_tx / of_int new_total_tx) * 100;
                           score = min 100 (pct * 0.4
                                     + min 100 ((of_int new_fraud_tx / 10) * 100) * 0.3
                                     + min 100 ((new_total_val / 1000) * 100) * 0.2
                                     + min 100 ((of_int new_total_tx / 100) * 100) * 0.1) / 100
                       in Inr (db(address \<mapsto>
                                 result\<lparr>total_transactions := new_total_tx,
                                        fraud_transactions := new_fraud_tx,
                                        fraud_percentage := pct,
                                        total_value := new_total_val,
                                        fraud_value := new_fraud_val,
                                        node_risk_score := score,
                                        last_seen := now\<rparr>))))
            | None \<Rightarrow>
                Inr (db(address \<mapsto>
                       \<lparr>total_transactions = 1,
                        fraud_transactions = (if is_fraud then 1 else 0),
                        fraud_percentage = (if is_fraud then 100 else 0),
                        total_value = tx_value,
                        fraud_value = (if is_fraud then tx_value else 0),
                        node_risk_score = (if is_fraud then 0.5 else 0.1),
                        first_seen = now, last_seen = now, is_flagged = False\<rparr>))))"

text \<open>
  The whole call: the sender, then the receiver. The changes are committed after the
  loop, so an exception leaves the table as it was.
\<close>

definition update_node_analysis ::
  "string \<Rightarrow> tx_result \<Rightarrow> (string \<rightharpoonup> node_row) \<Rightarrow> (string \<rightharpoonup> node_row)" where
  "update_node_analysis now tx db =
     (case update_address now tx db (From tx) of
        Inl e \<Rightarrow> db
      | Inr db1 \<Rightarrow>
          (case update_address now tx db1 (To tx) of
             Inl e \<Rightarrow> db
           | Inr db2 \<Rightarrow> db2))"

subsection \<open>The monitoring loop (api\_server.monitoring\_loop)\<close>

text \<open>
  An entry of the high-risk list or of an alert: a scored transaction of the stream, or a
  result of a batch analysis.
\<close>

datatype scored_tx = Streamed tx_result | Analyzed csv_result

record alert =
  alert_tx :: scored_tx
  alert_type :: string
  alert_time :: string
  alert_reason :: string
  alert_source :: "string option"

text \<open>The module's global state, with the two tables of the database.\<close>

record monitor_state =
  processed_tx_hashes :: "string set"
  transaction_queue :: "tx_result list"
  live_transactions :: "tx_result list"
  fraud_history :: "real list"
  high_risk_transactions :: "scored_tx list"
  suspicious_alerts :: "alert list"
  total_processed :: int
  total_fraud :: int
  transactions :: "string \<rightharpoonup> tx_result"
  node_analysis :: "string \<rightharpoonup> node_row"

text \<open>The state when the module has been loaded.\<close>

definition initial_state :: monitor_state where
  "initial_state =
     \<lparr>processed_tx_hashes = {}, transaction_queue = [], live_transactions = [],
      fraud_history = [], high_risk_transactions = [], suspicious_alerts = [],
      total_processed = 0, total_fraud = 0, transactions = Map.empty, node_analysis = Map.empty\<rparr>"

text \<open>\<^verbatim>\<open>xs.insert(0, x); if len(xs) > cap: xs.pop()\<close>\<close>

definition insert_newest :: "nat \<Rightarrow> 'a \<Rightarrow> 'a list \<Rightarrow> 'a list" where
  "insert_newest cap x xs = (let ys = x # xs in if length ys > cap then butlast ys else ys)"

text \<open>\<^verbatim>\<open>xs.append(x); if len(xs) > cap: xs.pop(0)\<close>\<close>

definition append_fifo :: "nat \<Rightarrow> 'a \<Rightarrow> 'a list \<Rightarrow> 'a list" where
  "append_fifo cap x xs = (let ys = xs @ [x] in if length ys > cap then tl ys else ys)"

text \<open>
  A transaction of a block as the chain client returns it (the hash as hex text, the value
  an unsigned 256-bit integer, which the division converts to a float).
\<close>

record raw_tx =
  raw_hash :: string
  raw_from :: string
  raw_to :: string
  raw_value :: int

record block =
  block_number :: int
  block_timestamp :: int
  block_transactions :: "raw_tx list"

definition make_tx_data :: "block \<Rightarrow> raw_tx \<Rightarrow> stream_tx" where
  "make_tx_data b tx =
     (let tx_hash = (if prefix ''0x'' (raw_hash tx) then raw_hash tx else ''0x'' @ raw_hash tx);
          value_wei = raw_value tx;
          value_eth = fdiv (fl (of_int value_wei)) (10 ^ 18)
      in \<lparr>TxHash = tx_hash, BlockHeight = block_number b, TimeStamp = block_timestamp b,
          From = raw_from tx, To = raw_to tx, Value = value_eth, Value_Wei = value_wei\<rparr>)"

text \<open>\<^verbatim>\<open>save_transaction_to_db\<close>: the transaction is stored under its hash, then the
  address profiles are updated.\<close>

definition save_transaction_to_db :: "string \<Rightarrow> tx_result \<Rightarrow> monitor_state \<Rightarrow> monitor_state" where
  "save_transaction_to_db now result s =
     s\<lparr>transactions := (transactions s)(TxHash result \<mapsto> result),
       node_analysis := update_node_analysis now result (node_analysis s)\<rparr>"

text \<open>
  The body of the loop over the sampled transactions of a block: a hash already processed
  is skipped; otherwise the transaction is scored and, when scoring gave a result, its hash
  is recorded, the result is queued and saved.
\<close>

definition process_tx :: "runtime \<Rightarrow> string \<Rightarrow> monitor_state \<Rightarrow> stream_tx \<Rightarrow> monitor_state" where
  "process_tx rt now s tx =
     (let tx_hash = TxHash tx
      in if tx_hash \<in> processed_tx_hashes s then s
         else (case process_transaction_data rt now tx of
                 None \<Rightarrow> s
               | Some result \<Rightarrow>
                   save_transaction_to_db now result
                     (s\<lparr>processed_tx_hashes := insert tx_hash (processed_tx_hashes s),
                        transaction_queue := transaction_queue s @ [result]\<rparr>)))"

definition process_block :: "runtime \<Rightarrow> string \<Rightarrow> monitor_state \<Rightarrow> block \<Rightarrow> monitor_state" where
  "process_block rt now s b =
     (let sample_size = min 5 (length (block_transactions b))
      in foldl (\<lambda>s tx. process_tx rt now s (make_tx_data b tx)) s
               (take sample_size (block_transactions b)))"

text \<open>The alert dictionary built for a queued transaction in the suspicious range.\<close>

definition stream_alert :: "string \<Rightarrow> tx_result \<Rightarrow> alert" where
  "stream_alert now tx =
     \<lparr>alert_tx = Streamed tx, alert_type = ''SUSPICIOUS'', alert_time = now,
      alert_reason = ''Risk score '' @ str_int (tx_risk_score tx)
                     @ ''% in suspicious range (65-80%)'',
      alert_source = None\<rparr>"

text \<open>The body of the loop that empties the queue, for one queued transaction.\<close>

definition consume :: "string \<Rightarrow> monitor_state \<Rightarrow> tx_result \<Rightarrow> monitor_state" where
  "consume now s tx =
     (let s1 = s\<lparr>live_transactions := insert_newest 1000 tx (live_transactions s),
                 fraud_history := append_fifo 1000 (fraud_probability tx) (fraud_history s),
                 total_processed := total_processed s + 1,
                 total_fraud := total_fraud s + (if tx_label tx = ''Fraudulent'' then 1 else 0)\<rparr>
      in if tx_risk_score tx \<ge> 80 then
           s1\<lparr>high_risk_transactions :=
                 insert_newest 100 (Streamed tx) (high_risk_transactions s1)\<rparr>
         else if tx_risk_score tx \<ge> 65 then
           s1\<lparr>suspicious_alerts :=
                 insert_newest 200 (stream_alert now tx) (suspicious_alerts s1)\<rparr>
         else s1)"

definition drain_queue :: "string \<Rightarrow> monitor_state \<Rightarrow> monitor_state" where
  "drain_queue now s = foldl (consume now) (s\<lparr>transaction_queue := []\<rparr>) (transaction_queue s)"

text \<open>The cleanup of the processed hashes at the end of an iteration.\<close>

definition cleanup :: "monitor_state \<Rightarrow> monitor_state" where
  "cleanup s =
     (if card (processed_tx_hashes s) > 5000
      then s\<lparr>processed_tx_hashes :=
               (if live_transactions s = [] then {}
                else set (map TxHash (take 2500 (live_transactions s))))\<rparr>
      else s)"

text \<open>
  One iteration of the loop on the blocks it fetched: the blocks are processed, the queue
  is emptied, the hashes are cleaned up.
\<close>

definition monitoring_iteration ::
  "runtime \<Rightarrow> string \<Rightarrow> block list \<Rightarrow> monitor_state \<Rightarrow> monitor_state" where
  "monitoring_iteration rt now blocks s =
     cleanup (drain_queue now (foldl (process_block rt now) s blocks))"

subsection \<open>The batch endpoint (api\_server.analyze\_csv)\<close>

text \<open>
  The counts of \<^verbatim>\<open>generate_report\<close>'s summary (the other parts of the report are
  statistics of the same results and are not modelled).
\<close>

record report =
  rep_total :: nat
  rep_blocked :: nat
  rep_flagged :: nat
  rep_approved :: nat

definition generate_report :: "csv_result list \<Rightarrow> report" where
  "generate_report results =
     \<lparr>rep_total = length results,
      rep_blocked = length (filter (\<lambda>r. r_risk_score r \<ge> 80) results),
      rep_flagged = length (filter (\<lambda>r. 65 \<le> r_risk_score r \<and> r_risk_score r < 80) results),
      rep_approved = length (filter (\<lambda>r. r_risk_score r < 65) results)\<rparr>"

text \<open>
  An uploaded file: its name and the table \<^verbatim>\<open>pd.read_csv\<close> makes of it, \<open>None\<close> when
  \<^verbatim>\<open>pd.read_csv\<close> raises.
\<close>

record upload =
  filename :: string
  content :: "dataframe option"

text \<open>
  The response, as the endpoint hands it to \<^verbatim>\<open>jsonify\<close>: an error message with its
  HTTP status, or the results and the report. The message of status 500 is followed in the
  source by the text of the exception.
\<close>

datatype response = Failure string nat | Success "csv_result list" report

text \<open>The body of the loop that turns the results into alerts.\<close>

definition csv_alert :: "string \<Rightarrow> csv_result \<Rightarrow> alert" where
  "csv_alert now tx =
     \<lparr>alert_tx = Analyzed tx, alert_type = ''SUSPICIOUS_CSV'', alert_time = now,
      alert_reason = ''CSV Analysis: Risk score '' @ str_int (r_risk_score tx)
                     @ ''% in suspicious range (65-80%)'',
      alert_source = Some ''CSV_ANALYSIS''\<rparr>"

definition csv_alerts :: "string \<Rightarrow> monitor_state \<Rightarrow> csv_result \<Rightarrow> monitor_state" where
  "csv_alerts now s tx =
     (let score = r_risk_score tx
      in if score \<ge> 80 then
           s\<lparr>high_risk_transactions := insert_newest 100 (Analyzed tx) (high_risk_transactions s)\<rparr>
         else if score \<ge> 65 then
           s\<lparr>suspicious_alerts :=
                insert_newest 200 (csv_alert now tx) (suspicious_alerts s)\<rparr>
         else s)"

text \<open>
  The loop over the results. After the alert of a result in the suspicious range has been
  inserted, the loop logs the first ten characters of the result's transaction id, which
  raises TypeError when the id is not a text (on the ensemble path the id is the cell of
  the table). The loop gives the exception, if any, and the state it has reached.
\<close>

fun is_text :: "cell \<Rightarrow> bool" where
  "is_text (Text s) = True"
| "is_text (Number x) = False"
| "is_text Missing = False"
| "is_text (Infinity positive) = False"

fun alert_loop :: "string \<Rightarrow> monitor_state \<Rightarrow> csv_result list \<Rightarrow> py_error option \<times> monitor_state" where
  "alert_loop now s [] = (None, s)"
| "alert_loop now s (tx # results) =
     (if r_risk_score tx < 80 \<and> r_risk_score tx \<ge> 65 \<and> \<not> is_text (r_TxHash tx)
      then (Some TypeError, csv_alerts now s tx)
      else alert_loop now (csv_alerts now s tx) results)"

text \<open>
  The endpoint on the request's file (\<open>None\<close>: the request has no file). Reading the
  file is inside the handler of the whole endpoint, which answers with status 500;
  \<^verbatim>\<open>pd.read_csv\<close> raises on a file without columns, so the test \<^verbatim>\<open>df.empty\<close> is
  reached only by a table with columns, and holds when it has no row. \<open>catboost\<close> says
  whether the CatBoost-enhanced analyzer exists; it is an instance of the same class as
  the standard one. An exception of the selected analysis is caught and the rule-based
  analyzer is called (again); an exception of that call, or of the loop over the results,
  is answered with status 500.
\<close>

definition analyze_csv ::
  "runtime \<Rightarrow> 'x ensemble_system \<Rightarrow> bool \<Rightarrow> fitted \<Rightarrow> string \<Rightarrow>
   upload option \<Rightarrow> monitor_state \<Rightarrow> response \<times> monitor_state" where
  "analyze_csv rt es catboost fit now file s =
     (case file of
        None \<Rightarrow> (Failure ''No file uploaded'' 400, s)
      | Some f \<Rightarrow>
          if filename f = [] then (Failure ''No file selected'' 400, s)
          else if \<not> suffix ''.csv'' (filename f) then (Failure ''Please upload a CSV file'' 400, s)
          else
            (case content f of
               None \<Rightarrow> (Failure ''Analysis failed'' 500, s)
             | Some df \<Rightarrow>
                 if columns df = [] then (Failure ''Analysis failed'' 500, s)
                 else if rows df = [] then (Failure ''CSV file is empty'' 400, s)
                 else
                   (let primary =
                          (if is_loaded es then analyze_with_ensemble_system rt es fit df
                           else if catboost then analyze_transactions rt fit df
                           else analyze_transactions rt fit df);
                        results = (case primary of
                                     Inl e \<Rightarrow> analyze_transactions rt fit df
                                   | Inr rs \<Rightarrow> Inr rs)
                    in case results of
                         Inl e \<Rightarrow> (Failure ''Analysis failed'' 500, s)
                       | Inr rs \<Rightarrow>
                           (case alert_loop now s rs of
                              (Some e, s') \<Rightarrow> (Failure ''Analysis failed'' 500, s')
                            | (None, s') \<Rightarrow> (Success rs (generate_report rs), s')))))"

subsection \<open>Sequences of insertions into the alert buffers\<close>

text \<open>
  The two places that write the buffers: the queue loop of the monitoring thread, for a
  queued transaction, and the alert loop of the batch endpoint, for a result. An event
  carries the reading of the clock at that moment.
\<close>

datatype event = Queued string tx_result | Batch string csv_result

fun apply_event :: "monitor_state \<Rightarrow> event \<Rightarrow> monitor_state" where
  "apply_event s (Queued now tx) = consume now s tx"
| "apply_event s (Batch now r) = csv_alerts now s r"

text \<open>What an event inserts into each buffer (nothing, or one element).\<close>

fun live_entry :: "event \<Rightarrow> tx_result list" where
  "live_entry (Queued now tx) = [tx]"
| "live_entry (Batch now r) = []"

fun high_risk_entry :: "event \<Rightarrow> scored_tx list" where
  "high_risk_entry (Queued now tx) = (if tx_risk_score tx \<ge> 80 then [Streamed tx] else [])"
| "high_risk_entry (Batch now r) = (if r_risk_score r \<ge> 80 then [Analyzed r] else [])"

fun alert_entry :: "event \<Rightarrow> alert list" where
  "alert_entry (Queued now tx) =
     (if 65 \<le> tx_risk_score tx \<and> tx_risk_score tx < 80 then [stream_alert now tx] else [])"
| "alert_entry (Batch now r) =
     (if 65 \<le> r_risk_score r \<and> r_risk_score r < 80 then [csv_alert now r] else [])"

subsection \<open>Examples\<close>

text \<open>A scored transaction with a given risk score.\<close>

definition sample_result :: "int \<Rightarrow> tx_result" where
  "sample_result score =
     \<lparr>TxHash = ''0xab'', BlockHeight = 1, TimeStamp = 0, From = ''0x01'', To = ''0x02'',
      Value = 0, Value_Wei = 0,
      fraud_probability = of_int score / 100, tx_risk_score = score,
      tx_label = get_fraud_label score, tx_action = get_action score, timestamp = ''t''\<rparr>"

text \<open>
  A row of a table with every column the ensemble reads: a transfer of value 0 to oneself
  on 3 November 2023 at 08:26:40 UTC, a Friday.
\<close>

definition sample_row :: row where
  "sample_row =
     [''TxHash'' \<mapsto> Text ''0xab'', ''BlockHeight'' \<mapsto> Number 18500000,
      ''TimeStamp'' \<mapsto> Number 1699000000, ''From'' \<mapsto> Text ''0x01'', ''To'' \<mapsto> Text ''0x01'',
      ''Value'' \<mapsto> Number 0, ''isError'' \<mapsto> Number 0]"

definition sample_table :: dataframe where
  "sample_table =
     \<lparr>columns = [''TxHash'', ''BlockHeight'', ''TimeStamp'', ''From'', ''To'', ''Value'', ''isError''],
      rows = [sample_row]\<rparr>"

text \<open>
  Two loaded ensembles of one model of weight 1 (the features are not looked at): the
  first gives every row the probability 1, the second the probability 0.
\<close>

definition sample_ensemble_system :: "unit ensemble_system" where
  "sample_ensemble_system =
     \<lparr>is_loaded = True, models = [(''model'', \<lambda>x. 1)], weights = [''model'' \<mapsto> 1],
      threshold = 1 / 2, featurize = (\<lambda>df. Some (map (\<lambda>r. ()) (rows df)))\<rparr>"

definition sample_calm_system :: "unit ensemble_system" where
  "sample_calm_system =
     \<lparr>is_loaded = True, models = [(''model'', \<lambda>x. 0)], weights = [''model'' \<mapsto> 1],
      threshold = 1 / 2, featurize = (\<lambda>df. Some (map (\<lambda>r. ()) (rows df)))\<rparr>"

text \<open>The results of the two ensembles for the row.\<close>

definition sample_ensemble_result :: csv_result where
  "sample_ensemble_result =
     \<lparr>r_TxHash = Text ''0xab'', r_From = Text ''0x01'', r_To = Text ''0x01'',
      r_Value = Finite 0, r_risk_score = 100, r_status = ''BLOCKED'',
      r_flags = [''Dust Transaction'', ''Self Transaction'', ''Ensemble High Risk'',
                 ''High Confidence Fraud''],
      r_action = Some ''Block'', r_threat_level = None,
      r_fraud_probability = Some 1, r_is_fraud = Some True,
      r_model_type = Some ''Advanced Ensemble''\<rparr>"

definition sample_low_result :: csv_result where
  "sample_low_result =
     \<lparr>r_TxHash = Text ''0xab'', r_From = Text ''0x01'', r_To = Text ''0x01'',
      r_Value = Finite 0, r_risk_score = 0, r_status = ''APPROVED'',
      r_flags = [''Dust Transaction'', ''Self Transaction''],
      r_action = Some ''Approve'', r_threat_level = None,
      r_fraud_probability = Some 0, r_is_fraud = Some False,
      r_model_type = Some ''Advanced Ensemble''\<rparr>"

text \<open>
  An uploaded table without the columns \<open>BlockHeight\<close> and \<open>TimeStamp\<close>, its one row
  a transfer of value 0 to oneself; and the same table with a column \<open>isError\<close> that
  says \<open>yes\<close>.
\<close>

definition sample_short_row :: row where
  "sample_short_row =
     [''TxHash'' \<mapsto> Text ''0xab'', ''From'' \<mapsto> Text ''0x01'', ''To'' \<mapsto> Text ''0x01'',
      ''Value'' \<mapsto> Number 0]"

definition sample_short_table :: dataframe where
  "sample_short_table =
     \<lparr>columns = [''TxHash'', ''From'', ''To'', ''Value''], rows = [sample_short_row]\<rparr>"

definition sample_upload :: upload where
  "sample_upload = \<lparr>filename = ''batch.csv'', content = Some sample_short_table\<rparr>"

definition sample_flagged_row :: row where
  "sample_flagged_row = sample_short_row(''isError'' \<mapsto> Text ''yes'')"

definition sample_flagged_table :: dataframe where
  "sample_flagged_table =
     \<lparr>columns = [''TxHash'', ''From'', ''To'', ''Value'', ''isError''],
      rows = [sample_flagged_row]\<rparr>"

text \<open>
  Side inputs of a row that neither model flags, and a fit that gives them to every row
  of every table.
\<close>

definition sample_side :: side_inputs where
  "sample_side =
     \<lparr>iso_prediction = 1, anomaly_score = 0, catboost_class = None,
      random_from = ''0xaa'', random_to = ''0xbb''\<rparr>"

definition sample_fit :: fitted where
  "sample_fit = (\<lambda>df. Some (\<lambda>idx. sample_side))"

text \<open>The rule-based analyzer's results for the two rows.\<close>

definition sample_fallback_result :: csv_result where
  "sample_fallback_result =
     \<lparr>r_TxHash = Text ''0xab'', r_From = Text ''0x01'', r_To = Text ''0x01'',
      r_Value = Finite 0, r_risk_score = 45, r_status = ''APPROVED'',
      r_flags = [''Dust Transaction'', ''Self Transfer''],
      r_action = None, r_threat_level = Some ''LOW'',
      r_fraud_probability = None, r_is_fraud = None, r_model_type = None\<rparr>"

definition sample_flagged_result :: csv_result where
  "sample_flagged_result =
     \<lparr>r_TxHash = Text ''0xab'', r_From = Text ''0x01'', r_To = Text ''0x01'',
      r_Value = Finite 0, r_risk_score = 85, r_status = ''APPROVED'',
      r_flags = [''Dust Transaction'', ''Transaction Error'', ''Self Transfer''],
      r_action = None, r_threat_level = Some ''LOW'',
      r_fraud_probability = None, r_is_fraud = None, r_model_type = None\<rparr>"

text \<open>The value of a text of decimal digits.\<close>

definition digits_value :: "string \<Rightarrow> nat" where
  "digits_value s = foldl (\<lambda>n c. 10 * n + (of_char c - 48)) 0 s"

text \<open>
  The whole number that a text denotes: decimal digits, after an optional minus sign and
  before an optional \<open>.0\<close>.
\<close>

definition parse_whole :: "string \<Rightarrow> int option" where
  "parse_whole s =
     (let negative = prefix ''-'' s;
          body = (if negative then drop 1 s else s);
          digits = (if suffix ''.0'' body then take (length body - 2) body else body)
      in if digits \<noteq> [] \<and> list_all (\<lambda>c. c \<in> set ''0123456789'') digits
         then Some (if negative then - int (digits_value digits) else int (digits_value digits))
         else None)"

text \<open>
  A runtime for the examples: a process in the time zone UTC. Its salted hash is 0 here;
  the code uses only the remainders of a hash modulo 100 and modulo 20, so this is a process
  whose hashes of the strings of the examples are multiples of 100. It prints a float that
  is a whole number as Python does (\<open>0.0\<close>), parses the texts of whole numbers and the
  texts \<open>inf\<close>, \<open>-inf\<close> and \<open>nan\<close>, and converts the time stamps of the years 1 to
  9999. The examples print no other number, parse no text and compute no digest.
\<close>

definition sample_runtime :: runtime where
  "sample_runtime =
     \<lparr>py_hash = (\<lambda>s. 0),
      str_float = (\<lambda>x. str_int \<lfloor>x\<rfloor> @ ''.0''),
      parse_float =
        (\<lambda>s. case parse_whole s of
                Some n \<Rightarrow> Some (Finite (fl (of_int n)))
              | None \<Rightarrow>
                  if s = ''inf'' then Some PosInf
                  else if s = ''-inf'' then Some NegInf
                  else if s = ''nan'' then Some NaN
                  else None),
      fromtimestamp_hour =
        (\<lambda>t. if - 62135596800 \<le> t \<and> t \<le> 253402300799 then Some (t div 3600 mod 24) else None),
      sha256_hexdigest = (\<lambda>s. s)\<rparr>"

text \<open>
  A block of 14 November 2023 at 12:00:00 UTC with one transaction of value 0, and a
  second block whose transaction is a transfer to oneself.
\<close>

definition sample_raw :: raw_tx where
  "sample_raw = \<lparr>raw_hash = ''ab'', raw_from = ''0x01'', raw_to = ''0x02'', raw_value = 0\<rparr>"

definition sample_block :: block where
  "sample_block =
     \<lparr>block_number = 50000000, block_timestamp = 1699963200, block_transactions = [sample_raw]\<rparr>"

definition sample_self_raw :: raw_tx where
  "sample_self_raw = \<lparr>raw_hash = ''cd'', raw_from = ''0x01'', raw_to = ''0x01'', raw_value = 0\<rparr>"

definition sample_self_block :: block where
  "sample_self_block =
     \<lparr>block_number = 50000001, block_timestamp = 1699963202,
      block_transactions = [sample_self_raw]\<rparr>"

text \<open>
  The two transactions as the runtime above scores them at time \<open>t\<close>. The probabilities
  are the binary64 numbers that Python prints as 0.4 and 0.85.
\<close>

definition sample_scored :: tx_result where
  "sample_scored =
     \<lparr>TxHash = ''0xab'', BlockHeight = 50000000, TimeStamp = 1699963200,
      From = ''0x01'', To = ''0x02'', Value = 0, Value_Wei = 0,
      fraud_probability = 3602879701896397 / 2 ^ 53,
      tx_risk_score = 40, tx_label = ''Normal'',
      tx_action = ''MEDIUM RISK - Monitor Closely'', timestamp = ''t''\<rparr>"

definition sample_self_scored :: tx_result where
  "sample_self_scored =
     \<lparr>TxHash = ''0xcd'', BlockHeight = 50000001, TimeStamp = 1699963202,
      From = ''0x01'', To = ''0x01'', Value = 0, Value_Wei = 0,
      fraud_probability = 7656119366529843 / 2 ^ 53,
      tx_risk_score = 85, tx_label = ''Fraudulent'',
      tx_action = ''CRITICAL - Block Transaction Immediately'', timestamp = ''t''\<rparr>"

text \<open>The profile of an address seen once, in a harmless transaction of value 0.\<close>

definition sample_profile :: node_row where
  "sample_profile =
     \<lparr>total_transactions = 1, fraud_transactions = 0, fraud_percentage = 0,
      total_value = 0, fraud_value = 0, node_risk_score = 0.1,
      first_seen = ''t'', last_seen = ''t'', is_flagged = False\<rparr>"

subsection \<open>Privacy hashing (backend.hash\_identifier, apply\_privacy\_hashing)\<close>

definition hash_identifier :: "runtime \<Rightarrow> string \<Rightarrow> string \<Rightarrow> string" where
  "hash_identifier rt x salt = take 16 (sha256_hexdigest rt (x @ salt))"

definition chainguard_salt :: string where
  "chainguard_salt = ''chainguard_salt''"

text \<open>\<^verbatim>\<open>lambda x: hash_identifier(str(x))\<close>, applied to a cell; the result is a text.\<close>

definition hash_cell :: "runtime \<Rightarrow> cell \<Rightarrow> cell" where
  "hash_cell rt x = Text (hash_identifier rt (str_cell rt x) chainguard_salt)"

text \<open>
  The body of the loop over the columns to hash: a column of the table has each of its
  cells replaced; any other name leaves the table as it is.
\<close>

definition hash_column :: "runtime \<Rightarrow> dataframe \<Rightarrow> string \<Rightarrow> dataframe" where
  "hash_column rt df_private col =
     (if col \<in> set (columns df_private) then
        df_private\<lparr>rows :=
          map (\<lambda>r. case r col of None \<Rightarrow> r | Some x \<Rightarrow> r(col \<mapsto> hash_cell rt x))
              (rows df_private)\<rparr>
      else df_private)"

definition apply_privacy_hashing :: "runtime \<Rightarrow> dataframe \<Rightarrow> string list \<Rightarrow> dataframe" where
  "apply_privacy_hashing rt df columns_to_hash = foldl (hash_column rt) df columns_to_hash"

subsection \<open>The batch page (app.show\_csv\_scoring)\<close>

definition required_cols :: "string list" where
  "required_cols = [''TxHash'', ''BlockHeight'', ''TimeStamp'', ''From'', ''To'', ''Value'']"

text \<open>
  A row of the uploaded table as the pattern scorer reads it; \<open>None\<close> when the scorer
  raises on it (a value or a time stamp that is not a number). The scorer does not read
  the block height.
\<close>

definition row_to_tx :: "runtime \<Rightarrow> row \<Rightarrow> tx_data option" where
  "row_to_tx rt r =
     (case (r ''TxHash'', r ''From'', r ''To'', r ''Value'', r ''TimeStamp'') of
        (Some h, Some f, Some t, Some (Number v), Some (Number ts)) \<Rightarrow>
          Some \<lparr>TxHash = str_cell rt h,
                BlockHeight = (case r ''BlockHeight'' of Some (Number b) \<Rightarrow> \<lfloor>b\<rfloor> | _ \<Rightarrow> 0),
                TimeStamp = \<lfloor>ts\<rfloor>, From = str_cell rt f, To = str_cell rt t, Value = v\<rparr>
      | _ \<Rightarrow> None)"

text \<open>\<^verbatim>\<open>df.iloc[i:i+batch_size]\<close> for \<open>i\<close> in steps of the batch size.\<close>

function chunks :: "nat \<Rightarrow> 'a list \<Rightarrow> 'a list list" where
  "chunks n xs = (if n = 0 \<or> xs = [] then [] else take n xs # chunks n (drop n xs))"
  by pat_completeness auto
termination
  by (relation "measure (\<lambda>(n, xs). length xs)") auto

declare chunks.simps [simp del]

text \<open>
  The outcome of the page for an uploaded table that \<^verbatim>\<open>pd.read_csv\<close> has read: the
  upload is rejected with the missing columns; or the page's handler reports an exception
  (\<open>Failed\<close>); or the preview is shown; or, after the button, the rows are scored batch
  by batch, and the page shows the scored rows (none: the page says that no transaction
  could be processed).
\<close>

datatype page = Rejected "string list" | Failed | Preview | Scored "(row \<times> prediction) list"

text \<open>One batch: the scored rows, or \<open>None\<close> when the scorer raises.\<close>

definition score_batch :: "runtime \<Rightarrow> row list \<Rightarrow> (row \<times> prediction) list option" where
  "score_batch rt batch_df =
     (case those (map (row_to_tx rt) batch_df) of
        None \<Rightarrow> None
      | Some txs \<Rightarrow>
          (case predict_with_risk rt txs of
             None \<Rightarrow> None
           | Some batch_results \<Rightarrow> Some (zip batch_df batch_results)))"

text \<open>
  The loop over the batches. The handler of a batch's exception formats
  \<^verbatim>\<open>batch_num\<close>, which is bound only when the progress is shown: with the progress the
  batch is reported and skipped, without it the handler raises NameError, which leaves
  the loop (\<open>None\<close>).
\<close>

fun score_batches :: "runtime \<Rightarrow> bool \<Rightarrow> row list list \<Rightarrow> (row \<times> prediction) list option" where
  "score_batches rt show_progress [] = Some []"
| "score_batches rt show_progress (batch_df # batches) =
     (case score_batch rt batch_df of
        None \<Rightarrow> if show_progress then score_batches rt show_progress batches else None
      | Some batch_results \<Rightarrow>
          map_option ((@) batch_results) (score_batches rt show_progress batches))"

text \<open>
  The page. \<open>preview_ok\<close> says whether the statistics of the preview (the range of the
  time stamps as dates, the range of the values) can be computed; they are computed after
  the column check and before the button is looked at, inside the page's handler.
\<close>

definition show_csv_scoring ::
  "runtime \<Rightarrow> dataframe \<Rightarrow> bool \<Rightarrow> nat \<Rightarrow> bool \<Rightarrow> bool \<Rightarrow> page" where
  "show_csv_scoring rt df_raw preview_ok batch_size show_progress process_clicked =
     (let missing_cols = filter (\<lambda>col. col \<notin> set (columns df_raw)) required_cols
      in if missing_cols \<noteq> [] then Rejected missing_cols
         else if \<not> preview_ok then Failed
         else if \<not> process_clicked then Preview
         else (case score_batches rt show_progress (chunks batch_size (rows df_raw)) of
                 None \<Rightarrow> Failed
               | Some all_results \<Rightarrow> Scored all_results))"

section \<open>Helper facts\<close>

subsection \<open>Rounding\<close>

lemma py_round_of_int: "py_round (of_int n) = n"
  by (simp add: py_round_def)

lemma py_round_bounds: "\<lfloor>x\<rfloor> \<le> py_round x" "py_round x \<le> \<lfloor>x\<rfloor> + 1"
  by (simp_all add: py_round_def Let_def)

lemma py_round_ge: "of_int n \<le> x \<Longrightarrow> n \<le> py_round x"
proof -
  assume "of_int n \<le> x"
  then have "n \<le> \<lfloor>x\<rfloor>" by (simp add: le_floor_iff)
  with py_round_bounds(1) [of x] show ?thesis by linarith
qed

lemma py_round_le: "x \<le> of_int n \<Longrightarrow> py_round x \<le> n"
proof (cases "x = of_int n")
  case True
  then show ?thesis by (simp add: py_round_of_int)
next
  case False
  assume "x \<le> of_int n"
  with False have "x < of_int n" by simp
  then have "\<lfloor>x\<rfloor> < n" by (simp add: floor_less_iff)
  with py_round_bounds(2) [of x] show ?thesis by linarith
qed

lemma py_round_mono: "x \<le> y \<Longrightarrow> py_round x \<le> py_round y"
proof (cases "\<lfloor>x\<rfloor> = \<lfloor>y\<rfloor>")
  case False
  assume "x \<le> y"
  then have "\<lfloor>x\<rfloor> \<le> \<lfloor>y\<rfloor>" by (rule floor_mono)
  with False have "\<lfloor>x\<rfloor> + 1 \<le> \<lfloor>y\<rfloor>" by simp
  with py_round_bounds(2) [of x] py_round_bounds(1) [of y] show ?thesis by linarith
next
  case True
  assume "x \<le> y"
  then have "x - of_int \<lfloor>x\<rfloor> \<le> y - of_int \<lfloor>y\<rfloor>" using True by simp
  then show ?thesis unfolding py_round_def Let_def True by auto
qed

lemma powr_powi: "(2 :: real) powr of_int k = 2 powi k"
  by (rule powr_real_of_int') simp_all

lemma powr_powi_Suc: "(2 :: real) powr (of_int k + 1) = 2 powi (k + 1)"
  using powr_powi [of "k + 1"] by simp

lemma powi_two_add: "(2 :: real) powi a * 2 powi b = 2 powi (a + b)"
  by (simp add: power_int_add)

lemma powi_two_diff: "(2 :: real) powi a / 2 powi b = 2 powi (a - b)"
  by (simp add: power_int_diff)

lemma float_exponent_eq:
  assumes "2 powi e \<le> \<bar>x\<bar>" and "\<bar>x\<bar> < 2 powi (e + 1)" and "- 1022 \<le> e"
  shows "float_exponent x = e"
proof -
  have pos: "0 < \<bar>x\<bar>" using assms(1) by (smt (verit) zero_less_power_int)
  have "\<lfloor>log 2 \<bar>x\<bar>\<rfloor> = e"
  proof (rule floor_unique)
    have "2 powr of_int e \<le> \<bar>x\<bar>" using assms(1) by (simp only: powr_powi)
    then show "of_int e \<le> log 2 \<bar>x\<bar>" using pos by (simp add: le_log_iff)
    have "\<bar>x\<bar> < 2 powr (of_int e + 1)" using assms(2) by (simp only: powr_powi_Suc)
    then show "log 2 \<bar>x\<bar> < of_int e + 1" using pos by (simp add: log_less_iff)
  qed
  with assms(3) show ?thesis by (simp add: float_exponent_def)
qed

lemma fl_eval:
  assumes "2 powi e \<le> \<bar>x\<bar>" and "\<bar>x\<bar> < 2 powi (e + 1)" and "- 1022 \<le> e"
  shows "fl x = of_int (py_round (x / 2 powi (e - 52))) * 2 powi (e - 52)"
proof -
  have "x \<noteq> 0" using assms(1) by (smt (verit) zero_less_power_int)
  then show ?thesis by (simp add: fl_def Let_def float_exponent_eq [OF assms])
qed


lemma py_round_minus: "py_round (- x) = - py_round x"
proof (cases "x = of_int \<lfloor>x\<rfloor>")
  case True
  then obtain n where "x = of_int n" ..
  then show ?thesis by (simp add: py_round_of_int flip: of_int_minus)
next
  case False
  then have f: "\<lfloor>- x\<rfloor> = - \<lfloor>x\<rfloor> - 1"
    by (metis ceiling_altdef ceiling_def minus_diff_eq diff_minus_eq_add add.commute uminus_add_conv_diff minus_minus)
  show ?thesis unfolding py_round_def Let_def f by auto
qed

lemma float_exponent_upper:
  assumes "x \<noteq> 0"
  shows "\<bar>x\<bar> < 2 powi (float_exponent x + 1)"
proof -
  have pos: "0 < \<bar>x\<bar>" using assms by simp
  have "log 2 \<bar>x\<bar> < of_int \<lfloor>log 2 \<bar>x\<bar>\<rfloor> + 1" by linarith
  also have "\<dots> \<le> of_int (float_exponent x) + 1" by (simp add: float_exponent_def)
  finally have "log 2 \<bar>x\<bar> < of_int (float_exponent x) + 1" .
  then have "\<bar>x\<bar> < 2 powr (of_int (float_exponent x) + 1)"
    using pos by (simp add: log_less_iff)
  then show ?thesis by (simp only: powr_powi_Suc)
qed

lemma float_exponent_lower:
  assumes "x \<noteq> 0" and "- 1022 < float_exponent x"
  shows "2 powi float_exponent x \<le> \<bar>x\<bar>"
proof -
  have pos: "0 < \<bar>x\<bar>" using assms by simp
  from assms(2) have e: "float_exponent x = \<lfloor>log 2 \<bar>x\<bar>\<rfloor>" by (simp add: float_exponent_def max_def split: if_splits)
  have "of_int (float_exponent x) \<le> log 2 \<bar>x\<bar>" unfolding e by simp
  then have "2 powr of_int (float_exponent x) \<le> \<bar>x\<bar>" using pos by (simp add: le_log_iff)
  then show ?thesis by (simp only: powr_powi)
qed

lemma float_exponent_mono:
  assumes "x \<noteq> 0" and "\<bar>x\<bar> \<le> \<bar>y\<bar>"
  shows "float_exponent x \<le> float_exponent y"
proof -
  have "log 2 \<bar>x\<bar> \<le> log 2 \<bar>y\<bar>" using assms by simp
  then have "\<lfloor>log 2 \<bar>x\<bar>\<rfloor> \<le> \<lfloor>log 2 \<bar>y\<bar>\<rfloor>" by (rule floor_mono)
  then show ?thesis by (simp add: float_exponent_def)
qed

lemma fl_minus: "fl (- x) = - fl x"
  by (simp add: fl_def Let_def float_exponent_def py_round_minus)

lemma fl_nonneg: "0 \<le> x \<Longrightarrow> 0 \<le> fl x"
proof -
  assume "0 \<le> x"
  then have "0 \<le> x / 2 powi (float_exponent x - 52)" by simp
  then have "0 \<le> py_round (x / 2 powi (float_exponent x - 52))"
    using py_round_ge [of 0] by simp
  then show ?thesis by (simp add: fl_def Let_def)
qed

lemma fl_mono_pos:
  assumes "0 < x" and "x \<le> y"
  shows "fl x \<le> fl y"
proof -
  let ?ex = "float_exponent x" and ?ey = "float_exponent y"
  let ?ux = "2 powi (?ex - 52) :: real" and ?uy = "2 powi (?ey - 52) :: real"
  have x0: "x \<noteq> 0" and y0: "y \<noteq> 0" and ax: "\<bar>x\<bar> = x" and ay: "\<bar>y\<bar> = y" using assms by simp_all
  have ux: "0 < ?ux" and uy: "0 < ?uy" by simp_all
  have flx: "fl x = of_int (py_round (x / ?ux)) * ?ux" using x0 by (simp add: fl_def Let_def)
  have fly: "fl y = of_int (py_round (y / ?uy)) * ?uy" using y0 by (simp add: fl_def Let_def)
  have le: "?ex \<le> ?ey" using x0 assms by (intro float_exponent_mono) simp_all
  show ?thesis
  proof (cases "?ex = ?ey")
    case True
    have "x / ?ux \<le> y / ?ux" using assms ux by (simp add: divide_right_mono)
    then have "py_round (x / ?ux) \<le> py_round (y / ?ux)" by (rule py_round_mono)
    then have "of_int (py_round (x / ?ux)) * ?ux \<le> of_int (py_round (y / ?ux)) * ?ux"
      using ux by (simp add: mult_right_mono)
    then show ?thesis unfolding flx fly True .
  next
    case False
    with le have lt: "?ex + 1 \<le> ?ey" by simp
    have ex: "- 1022 \<le> ?ex" by (simp add: float_exponent_def)
    with lt have "- 1022 < ?ey" by simp
    from float_exponent_lower [OF y0 this] have ylow: "2 powi ?ey \<le> y" using ay by simp
    have "x < 2 powi (?ex + 1)" using float_exponent_upper [OF x0] ax by simp
    then have "x / ?ux \<le> 2 powi (?ex + 1) / ?ux" using ux by (simp add: divide_right_mono)
    also have "2 powi (?ex + 1) / ?ux = (2 powi 53 :: real)"
      by (simp only: powi_two_diff) simp
    finally have "x / ?ux \<le> of_int (2 ^ 53)" by simp
    then have "py_round (x / ?ux) \<le> 2 ^ 53" by (rule py_round_le)
    then have "of_int (py_round (x / ?ux)) * ?ux \<le> of_int (2 ^ 53) * ?ux"
      using ux by (intro mult_right_mono) simp_all
    also have "of_int (2 ^ 53) * ?ux = (2 powi 53 :: real) * ?ux" by simp
    also have "\<dots> = 2 powi (53 + (?ex - 52))" by (rule powi_two_add)
    also have "53 + (?ex - 52) = ?ex + 1" by simp
    finally have a: "fl x \<le> 2 powi (?ex + 1)" unfolding flx .
    have "(2 powi 52 :: real) = 2 powi ?ey / ?uy"
      by (simp only: powi_two_diff) simp
    also have "\<dots> \<le> y / ?uy" using ylow uy by (simp add: divide_right_mono)
    finally have "of_int (2 ^ 52) \<le> y / ?uy" by simp
    then have "2 ^ 52 \<le> py_round (y / ?uy)" by (rule py_round_ge)
    then have "(2 powi 52 :: real) \<le> of_int (py_round (y / ?uy))" by simp
    then have "(2 powi 52 :: real) * ?uy \<le> of_int (py_round (y / ?uy)) * ?uy"
      using uy by (rule mult_right_mono [OF _ less_imp_le])
    moreover have "(2 powi 52 :: real) * ?uy = 2 powi (52 + (?ey - 52))" by (rule powi_two_add)
    moreover have "52 + (?ey - 52) = ?ey" by simp
    ultimately have b: "2 powi ?ey \<le> fl y" unfolding fly by (simp only:)
    have "(2 :: real) powi (?ex + 1) \<le> 2 powi ?ey" using lt by (intro power_int_increasing) simp_all
    with a b show ?thesis by linarith
  qed
qed

lemma fl_zero: "fl 0 = 0"
  by (simp add: fl_def)

lemma fl_mono: "x \<le> y \<Longrightarrow> fl x \<le> fl y"
proof -
  assume le: "x \<le> y"
  consider "0 < x" | "x \<le> 0" "0 \<le> y" | "y < 0" by linarith
  then show ?thesis
  proof cases
    case 1
    then show ?thesis using le by (rule fl_mono_pos)
  next
    case 2
    from 2(1) have "0 \<le> fl (- x)" by (intro fl_nonneg) simp
    then have "fl x \<le> 0" by (simp add: fl_minus)
    moreover from 2(2) have "0 \<le> fl y" by (rule fl_nonneg)
    ultimately show ?thesis by simp
  next
    case 3
    then have "0 < - y" "- y \<le> - x" using le by simp_all
    then have "fl (- y) \<le> fl (- x)" by (rule fl_mono_pos)
    then show ?thesis by (simp add: fl_minus)
  qed
qed

lemma fl_of_int:
  assumes "\<bar>n\<bar> < 2 ^ 53"
  shows "fl (of_int n) = of_int n"
proof (cases "n = 0")
  case True
  then show ?thesis by (simp add: fl_zero)
next
  case False
  let ?x = "of_int n :: real"
  let ?e = "float_exponent ?x"
  have x0: "?x \<noteq> 0" using False by simp
  have one: "1 \<le> \<bar>?x\<bar>" using False by (simp flip: of_int_abs)
  then have "0 \<le> log 2 \<bar>?x\<bar>" by simp
  then have e0: "0 \<le> ?e" by (simp add: float_exponent_def)
  then have "- 1022 < ?e" by simp
  from float_exponent_lower [OF x0 this] have "2 powi ?e \<le> \<bar>?x\<bar>" .
  also have "\<bar>?x\<bar> < 2 powi 53" using assms by (simp flip: of_int_abs)
  finally have "(2 :: real) powi ?e < 2 powi 53" .
  then have "?e < 53" by (smt (verit) power_int_increasing)
  then have e52: "?e \<le> 52" by simp
  have "?x / 2 powi (?e - 52) = ?x * 2 powi (52 - ?e)"
    by (simp add: power_int_diff power_int_minus field_simps)
  also have "\<dots> = ?x * 2 ^ nat (52 - ?e)"
    using e52 by (simp add: power_int_def)
  also have "\<dots> = of_int (n * 2 ^ nat (52 - ?e))" by simp
  finally have q: "?x / 2 powi (?e - 52) = of_int (n * 2 ^ nat (52 - ?e))" .
  have "fl ?x = of_int (n * 2 ^ nat (52 - ?e)) * 2 powi (?e - 52)"
    using x0 by (simp only: fl_def Let_def q py_round_of_int if_False)
  also have "\<dots> = ?x * (2 ^ nat (52 - ?e) * 2 powi (?e - 52))" by simp
  also have "(2 ^ nat (52 - ?e) * 2 powi (?e - 52) :: real) = 2 powi (52 - ?e) * 2 powi (?e - 52)"
    using e52 by (simp add: power_int_def)
  also have "\<dots> = 1" by (simp only: powi_two_add) simp
  finally show ?thesis by simp
qed

lemma fl_ge_int: "of_int n \<le> x \<Longrightarrow> \<bar>n\<bar> < 2 ^ 53 \<Longrightarrow> of_int n \<le> fl x"
  using fl_mono [of "of_int n" x] by (simp add: fl_of_int)

lemma fl_le_int: "x \<le> of_int n \<Longrightarrow> \<bar>n\<bar> < 2 ^ 53 \<Longrightarrow> fl x \<le> of_int n"
  using fl_mono [of x "of_int n"] by (simp add: fl_of_int)


lemma fl_floor_le: "\<bar>x\<bar> < 2 ^ 52 \<Longrightarrow> of_int \<lfloor>x\<rfloor> \<le> fl x"
proof (rule fl_ge_int)
  assume a: "\<bar>x\<bar> < 2 ^ 52"
  show "of_int \<lfloor>x\<rfloor> \<le> x" by simp
  from a have "- (2 ^ 52) < x" "x < 2 ^ 52" by (simp_all add: abs_less_iff)
  then have "- (2 ^ 52) \<le> \<lfloor>x\<rfloor>" "\<lfloor>x\<rfloor> < 2 ^ 52"
    by (simp_all add: le_floor_iff floor_less_iff)
  moreover have "(2 :: int) ^ 53 = 2 * 2 ^ 52" "(0 :: int) < 2 ^ 52" by simp_all
  ultimately show "\<bar>\<lfloor>x\<rfloor>\<bar> < 2 ^ 53" by linarith
qed

lemma fl_le_ceiling: "\<bar>x\<bar> < 2 ^ 52 \<Longrightarrow> fl x \<le> of_int \<lceil>x\<rceil>"
proof (rule fl_le_int)
  assume a: "\<bar>x\<bar> < 2 ^ 52"
  show "x \<le> of_int \<lceil>x\<rceil>" by simp
  from a have "- (2 ^ 52) < x" "x < 2 ^ 52" by (simp_all add: abs_less_iff)
  then have "- (2 ^ 52) < \<lceil>x\<rceil>" "\<lceil>x\<rceil> \<le> 2 ^ 52"
    by (simp_all add: less_ceiling_iff ceiling_le_iff)
  moreover have "(2 :: int) ^ 53 = 2 * 2 ^ 52" "(0 :: int) < 2 ^ 52" by simp_all
  ultimately show "\<bar>\<lceil>x\<rceil>\<bar> < 2 ^ 53" by linarith
qed

text \<open>The binary64 numbers of the decimal literals of the source.\<close>

lemma fl_literals:
  "fl 0.95 = 8556839292003942 / 2 ^ 53"
  "fl 0.8 = 3602879701896397 / 2 ^ 52"
  "fl 0.5 = 1 / 2"
  "fl 0.3 = 5404319552844595 / 2 ^ 54"
  "fl 0.2 = 3602879701896397 / 2 ^ 54"
  "fl 0.001 = 1152921504606847 / 2 ^ 60"
proof -
  show "fl 0.95 = 8556839292003942 / 2 ^ 53"
    by (subst fl_eval [where e = "- 1"]) (simp_all add: py_round_def Let_def)
  show "fl 0.8 = 3602879701896397 / 2 ^ 52"
    by (subst fl_eval [where e = "- 1"]) (simp_all add: py_round_def Let_def)
  show "fl 0.5 = 1 / 2"
    by (subst fl_eval [where e = "- 1"]) (simp_all add: py_round_def Let_def)
  show "fl 0.3 = 5404319552844595 / 2 ^ 54"
    by (subst fl_eval [where e = "- 2"]) (simp_all add: py_round_def Let_def)
  show "fl 0.2 = 3602879701896397 / 2 ^ 54"
    by (subst fl_eval [where e = "- 3"]) (simp_all add: py_round_def Let_def)
  show "fl 0.001 = 1152921504606847 / 2 ^ 60"
    by (subst fl_eval [where e = "- 10"]) (simp_all add: py_round_def Let_def)
qed

lemma fl_ceiling_095: "fl 0.95 \<le> 0.95" "0 \<le> fl 0.95" "1 / 2 \<le> fl 0.95"
  unfolding fl_literals by simp_all

lemma fl_dust_pos: "0 < fl 0.001"
  unfolding fl_literals by simp

lemma fl_confidence: "fl 0.8 < 1" "0 \<le> fl 0.8"
  unfolding fl_literals by simp_all

lemma fl_values:
  "fl (1 / 2) = 1 / 2"
  "fl (3 / 10) = 5404319552844595 / 18014398509481984"
  "fl (1 / 5) = 3602879701896397 / 18014398509481984"
  "fl (1 / 1000) = 1152921504606847 / 1152921504606846976"
  "fl (19 / 20) = 4278419646001971 / 4503599627370496"
  "fl (4 / 5) = 3602879701896397 / 4503599627370496"
  "fl (1 / 10) = 3602879701896397 / 36028797018963968"
  "fl (5404319552844595 / 18014398509481984) = 5404319552844595 / 18014398509481984"
  "fl (14411518807585587 / 36028797018963968) = 3602879701896397 / 9007199254740992"
  "fl (90071992547409925 / 2251799813685248) = 40"
  "fl 1 = 1"
  "fl (30624477466119371 / 36028797018963968) = 7656119366529843 / 9007199254740992"
  "fl (191402984163246075 / 2251799813685248) = 85"
proof -
  show "fl (1 / 2) = 1 / 2"
    by (subst fl_eval [where e = "- 1"]) (simp_all add: py_round_def Let_def)
  show "fl (3 / 10) = 5404319552844595 / 18014398509481984"
    by (subst fl_eval [where e = "- 2"]) (simp_all add: py_round_def Let_def)
  show "fl (1 / 5) = 3602879701896397 / 18014398509481984"
    by (subst fl_eval [where e = "- 3"]) (simp_all add: py_round_def Let_def)
  show "fl (1 / 1000) = 1152921504606847 / 1152921504606846976"
    by (subst fl_eval [where e = "- 10"]) (simp_all add: py_round_def Let_def)
  show "fl (19 / 20) = 4278419646001971 / 4503599627370496"
    by (subst fl_eval [where e = "- 1"]) (simp_all add: py_round_def Let_def)
  show "fl (4 / 5) = 3602879701896397 / 4503599627370496"
    by (subst fl_eval [where e = "- 1"]) (simp_all add: py_round_def Let_def)
  show "fl (1 / 10) = 3602879701896397 / 36028797018963968"
    by (subst fl_eval [where e = "- 4"]) (simp_all add: py_round_def Let_def)
  show "fl (5404319552844595 / 18014398509481984) = 5404319552844595 / 18014398509481984"
    by (subst fl_eval [where e = "- 2"]) (simp_all add: py_round_def Let_def)
  show "fl (14411518807585587 / 36028797018963968) = 3602879701896397 / 9007199254740992"
    by (subst fl_eval [where e = "- 2"]) (simp_all add: py_round_def Let_def)
  show "fl (90071992547409925 / 2251799813685248) = 40"
    by (subst fl_eval [where e = "5"]) (simp_all add: py_round_def Let_def)
  show "fl 1 = 1"
    by (subst fl_eval [where e = "0"]) (simp_all add: py_round_def Let_def)
  show "fl (30624477466119371 / 36028797018963968) = 7656119366529843 / 9007199254740992"
    by (subst fl_eval [where e = "- 1"]) (simp_all add: py_round_def Let_def)
  show "fl (191402984163246075 / 2251799813685248) = 85"
    by (subst fl_eval [where e = "6"]) (simp_all add: py_round_def Let_def)
qed

subsection \<open>The clamp\<close>

lemma py_int_nonneg: "0 \<le> x \<Longrightarrow> py_int x = \<lfloor>x\<rfloor>"
  by (simp add: py_int_def)

lemma clamp_bounds:
  fixes x c :: real
  assumes "0 \<le> c"
  shows "0 \<le> max 0 (min c x)" and "max 0 (min c x) \<le> c"
  using assms by (simp_all add: max_def min_def)

lemma row_risk_clamped:
  assumes "row_risk rt row = Some p"
  shows "\<exists>z. p = max 0 (min (fl 0.95) z)"
proof (cases "fromtimestamp_hour rt (TimeStamp row)")
  case None
  with assms show ?thesis
    unfolding row_risk_def by (simp only: option.case option.distinct)
next
  case (Some hour)
  from assms show ?thesis
    unfolding row_risk_def Let_def Some option.case option.inject
    by (rule exI [where P = "\<lambda>z. p = max 0 (min (fl 0.95) z)", OF sym])
qed

lemma row_risk_bounds:
  assumes "row_risk rt row = Some p"
  shows "0 \<le> p \<and> p \<le> 0.95"
proof -
  from row_risk_clamped [OF assms] obtain z :: real where p: "p = max 0 (min (fl 0.95) z)" ..
  from clamp_bounds [OF fl_ceiling_095(2), of z] have "0 \<le> p" "p \<le> fl 0.95"
    unfolding p by blast+
  with fl_ceiling_095(1) show ?thesis by linarith
qed

lemma those_map_Some:
  "those (map f xs) = Some ys \<Longrightarrow> length ys = length xs \<and> (\<forall>i < length xs. f (xs ! i) = Some (ys ! i))"
proof (induction xs arbitrary: ys)
  case Nil
  then show ?case by simp
next
  case (Cons x xs)
  from Cons.prems obtain y ys' where y: "f x = Some y" and ys': "those (map f xs) = Some ys'"
    and eq: "ys = y # ys'"
    by (auto split: option.splits)
  from Cons.IH [OF ys'] have ih: "length ys' = length xs" "\<forall>i < length xs. f (xs ! i) = Some (ys' ! i)"
    by simp_all
  show ?case
  proof (intro conjI allI impI)
    show "length ys = length (x # xs)" using eq ih by simp
  next
    fix i assume "i < length (x # xs)"
    then show "f ((x # xs) ! i) = Some (ys ! i)"
      using y eq ih by (cases i) simp_all
  qed
qed

subsection \<open>Bounded buffers\<close>

lemma insert_newest_take:
  "length xs \<le> cap \<Longrightarrow> insert_newest cap x xs = take cap (x # xs)"
  by (cases "length xs = cap") (simp_all add: insert_newest_def butlast_conv_take)

lemma foldl_insert_newest:
  "length xs \<le> cap \<Longrightarrow> foldl (\<lambda>acc y. insert_newest cap y acc) xs ys = take cap (rev ys @ xs)"
proof (induction ys arbitrary: xs)
  case Nil
  then show ?case by simp
next
  case (Cons y ys)
  have step: "insert_newest cap y xs = take cap (y # xs)"
    using Cons.prems by (rule insert_newest_take)
  have "length (take cap (y # xs)) \<le> cap" by simp
  from Cons.IH [OF this]
  have "foldl (\<lambda>acc y. insert_newest cap y acc) (take cap (y # xs)) ys
        = take cap (rev ys @ take cap (y # xs))" .
  also have "\<dots> = take cap (rev ys @ y # xs)"
    by (simp add: take_append)
  finally show ?case by (simp add: step)
qed

lemma append_fifo_drop:
  assumes "length xs \<le> cap"
  shows "append_fifo cap x xs = drop (length (xs @ [x]) - cap) (xs @ [x])"
proof (cases "length xs = cap")
  case True
  then have "length (xs @ [x]) - cap = Suc 0" by simp
  moreover have "drop (Suc 0) (xs @ [x]) = tl (xs @ [x])" by (simp only: drop_Suc drop_0)
  moreover have "length (xs @ [x]) > cap" using True by simp
  ultimately show ?thesis by (simp only: append_fifo_def Let_def if_True)
next
  case False
  with assms show ?thesis by (simp add: append_fifo_def Let_def)
qed

lemma lastn_append:
  fixes xs ys :: "'a list" and cap :: nat
  defines "k \<equiv> length xs - cap"
  shows "drop (length (drop k xs @ ys) - cap) (drop k xs @ ys)
         = drop (length (xs @ ys) - cap) (xs @ ys)"
proof -
  have k: "k \<le> length xs" by (simp add: k_def)
  then have eq: "drop k xs @ ys = drop k (xs @ ys)" by simp
  have idx: "length (drop k (xs @ ys)) - cap + k = length (xs @ ys) - cap"
    by (simp add: k_def)
  show ?thesis unfolding eq drop_drop idx ..
qed

lemma foldl_append_fifo:
  "foldl (\<lambda>acc y. append_fifo cap y acc) xs ys = drop (length (xs @ ys) - cap) (xs @ ys)"
  if "length xs \<le> cap"
proof (induction ys rule: rev_induct)
  case Nil
  with that show ?case by simp
next
  case (snoc y ys)
  let ?zs = "drop (length (xs @ ys) - cap) (xs @ ys)"
  have "length ?zs \<le> cap" by simp
  from append_fifo_drop [OF this, of y]
  have "append_fifo cap y ?zs = drop (length (?zs @ [y]) - cap) (?zs @ [y])" .
  also have "\<dots> = drop (length ((xs @ ys) @ [y]) - cap) ((xs @ ys) @ [y])"
    by (rule lastn_append)
  finally show ?case using snoc.IH by simp
qed


subsection \<open>The queue loop\<close>

lemma consume_live:
  "live_transactions (consume now s tx) = insert_newest 1000 tx (live_transactions s)"
  by (simp add: consume_def Let_def)

lemma consume_history:
  "fraud_history (consume now s tx) = append_fifo 1000 (fraud_probability tx) (fraud_history s)"
  by (simp add: consume_def Let_def)

lemma consume_high_risk:
  "high_risk_transactions (consume now s tx) =
     (if tx_risk_score tx \<ge> 80 then insert_newest 100 (Streamed tx) (high_risk_transactions s)
      else high_risk_transactions s)"
  by (simp add: consume_def Let_def)

lemma consume_suspicious:
  "suspicious_alerts (consume now s tx) =
     (if 65 \<le> tx_risk_score tx \<and> tx_risk_score tx < 80
      then insert_newest 200 (stream_alert now tx) (suspicious_alerts s)
      else suspicious_alerts s)"
  by (simp add: consume_def Let_def)

lemma consume_counters:
  "total_processed (consume now s tx) = total_processed s + 1"
  "total_fraud (consume now s tx) = total_fraud s + (if tx_label tx = ''Fraudulent'' then 1 else 0)"
  by (simp_all add: consume_def Let_def)

lemma consume_frame:
  "processed_tx_hashes (consume now s tx) = processed_tx_hashes s"
  "transaction_queue (consume now s tx) = transaction_queue s"
  "transactions (consume now s tx) = transactions s"
  "node_analysis (consume now s tx) = node_analysis s"
  by (simp_all add: consume_def Let_def)

lemma foldl_consume_live:
  "live_transactions (foldl (consume now) s txs)
     = foldl (\<lambda>acc y. insert_newest 1000 y acc) (live_transactions s) txs"
  by (induction txs arbitrary: s) (simp_all add: consume_live)

lemma foldl_consume_history:
  "fraud_history (foldl (consume now) s txs)
     = foldl (\<lambda>acc y. append_fifo 1000 y acc) (fraud_history s) (map fraud_probability txs)"
  by (induction txs arbitrary: s) (simp_all add: consume_history)

lemma foldl_consume_high_risk:
  "high_risk_transactions (foldl (consume now) s txs)
     = foldl (\<lambda>acc y. insert_newest 100 y acc) (high_risk_transactions s)
         (map Streamed (filter (\<lambda>tx. tx_risk_score tx \<ge> 80) txs))"
  by (induction txs arbitrary: s) (simp_all add: consume_high_risk)

lemma foldl_consume_suspicious:
  "suspicious_alerts (foldl (consume now) s txs)
     = foldl (\<lambda>acc y. insert_newest 200 y acc) (suspicious_alerts s)
         (map (stream_alert now) (filter (\<lambda>tx. 65 \<le> tx_risk_score tx \<and> tx_risk_score tx < 80) txs))"
  by (induction txs arbitrary: s) (simp_all add: consume_suspicious)

lemma foldl_consume_counters:
  "total_processed (foldl (consume now) s txs) = total_processed s + int (length txs)"
  "total_fraud (foldl (consume now) s txs)
     = total_fraud s + int (length (filter (\<lambda>tx. tx_label tx = ''Fraudulent'') txs))"
  by (induction txs arbitrary: s) (simp_all add: consume_counters)

lemma foldl_consume_frame:
  "processed_tx_hashes (foldl (consume now) s txs) = processed_tx_hashes s"
  "transactions (foldl (consume now) s txs) = transactions s"
  "node_analysis (foldl (consume now) s txs) = node_analysis s"
  "transaction_queue (foldl (consume now) s txs) = transaction_queue s"
  by (induction txs arbitrary: s) (simp_all add: consume_frame)

subsection \<open>Sequences of events\<close>

lemma csv_alerts_fields:
  "live_transactions (csv_alerts now s r) = live_transactions s"
  "fraud_history (csv_alerts now s r) = fraud_history s"
  "high_risk_transactions (csv_alerts now s r) =
     (if r_risk_score r \<ge> 80 then insert_newest 100 (Analyzed r) (high_risk_transactions s)
      else high_risk_transactions s)"
  "suspicious_alerts (csv_alerts now s r) =
     (if 65 \<le> r_risk_score r \<and> r_risk_score r < 80
      then insert_newest 200 (csv_alert now r) (suspicious_alerts s)
      else suspicious_alerts s)"
  by (simp_all add: csv_alerts_def Let_def)

lemma events_live:
  "live_transactions (foldl apply_event s evs)
     = foldl (\<lambda>acc y. insert_newest 1000 y acc) (live_transactions s) (concat (map live_entry evs))"
proof (induction evs arbitrary: s)
  case Nil
  show ?case by simp
next
  case (Cons ev evs)
  show ?case by (cases ev) (simp_all add: Cons.IH consume_live csv_alerts_fields)
qed

lemma events_history:
  "fraud_history (foldl apply_event s evs)
     = foldl (\<lambda>acc y. append_fifo 1000 y acc) (fraud_history s)
         (map fraud_probability (concat (map live_entry evs)))"
proof (induction evs arbitrary: s)
  case Nil
  show ?case by simp
next
  case (Cons ev evs)
  show ?case by (cases ev) (simp_all add: Cons.IH consume_history csv_alerts_fields)
qed

lemma events_high_risk:
  "high_risk_transactions (foldl apply_event s evs)
     = foldl (\<lambda>acc y. insert_newest 100 y acc) (high_risk_transactions s)
         (concat (map high_risk_entry evs))"
proof (induction evs arbitrary: s)
  case Nil
  show ?case by simp
next
  case (Cons ev evs)
  show ?case by (cases ev) (simp_all add: Cons.IH consume_high_risk csv_alerts_fields)
qed

lemma events_suspicious:
  "suspicious_alerts (foldl apply_event s evs)
     = foldl (\<lambda>acc y. insert_newest 200 y acc) (suspicious_alerts s)
         (concat (map alert_entry evs))"
proof (induction evs arbitrary: s)
  case Nil
  show ?case by simp
next
  case (Cons ev evs)
  show ?case by (cases ev) (simp_all add: Cons.IH consume_suspicious csv_alerts_fields)
qed

lemma newest_first_full:
  assumes "length xs \<le> cap" and "cap < length ys" and "0 < cap"
  shows "length (foldl (\<lambda>acc y. insert_newest cap y acc) xs ys) = cap"
    and "hd (foldl (\<lambda>acc y. insert_newest cap y acc) xs ys) = last ys"
proof -
  have eq: "foldl (\<lambda>acc y. insert_newest cap y acc) xs ys = take cap (rev ys @ xs)"
    using assms(1) by (rule foldl_insert_newest)
  show "length (foldl (\<lambda>acc y. insert_newest cap y acc) xs ys) = cap"
    using assms(2) by (simp add: eq)
  from assms(2) have "ys \<noteq> []" by auto
  then obtain zs z where ys: "ys = zs @ [z]" by (cases ys rule: rev_cases) auto
  from assms(3) obtain n where "cap = Suc n" by (cases cap) auto
  then have "hd (take cap (rev ys @ xs)) = last ys"
    by (simp add: ys)
  then show "hd (foldl (\<lambda>acc y. insert_newest cap y acc) xs ys) = last ys"
    by (simp only: eq)
qed

lemma fifo_full:
  assumes "length xs \<le> cap" and "cap < length ys"
  shows "foldl (\<lambda>acc y. append_fifo cap y acc) xs ys = drop (length ys - cap) ys"
proof -
  have "foldl (\<lambda>acc y. append_fifo cap y acc) xs ys = drop (length (xs @ ys) - cap) (xs @ ys)"
    using assms(1) by (rule foldl_append_fifo)
  also have "\<dots> = drop (length ys - cap) ys"
    using assms(2) by simp
  finally show ?thesis .
qed

lemma concat_replicate_single: "concat (replicate n [x]) = replicate n x"
  by (induction n) simp_all

lemma concat_replicate_Nil: "concat (replicate n []) = []"
  by (induction n) simp_all

subsection \<open>The deduplicator\<close>

lemma process_transaction_data_hash:
  "process_transaction_data rt now tx = Some res \<Longrightarrow> TxHash res = TxHash tx"
  by (auto simp: process_transaction_data_def split: option.splits list.splits)

lemma process_transaction_data_clock:
  "(process_transaction_data rt now tx = None) = (process_transaction_data rt now' tx = None)"
  by (auto simp: process_transaction_data_def split: option.splits list.splits)

lemma process_tx_seen:
  "TxHash tx \<in> processed_tx_hashes s \<Longrightarrow> process_tx rt now s tx = s"
  by (simp add: process_tx_def)

lemma process_tx_failed:
  "process_transaction_data rt now tx = None \<Longrightarrow> process_tx rt now s tx = s"
  by (simp add: process_tx_def Let_def)

lemma process_tx_new:
  assumes "TxHash tx \<notin> processed_tx_hashes s" and "process_transaction_data rt now tx = Some res"
  shows "process_tx rt now s tx =
           save_transaction_to_db now res
             (s\<lparr>processed_tx_hashes := insert (TxHash tx) (processed_tx_hashes s),
                transaction_queue := transaction_queue s @ [res]\<rparr>)"
  using assms by (simp add: process_tx_def)

lemma save_fields:
  "processed_tx_hashes (save_transaction_to_db now res s) = processed_tx_hashes s"
  "transaction_queue (save_transaction_to_db now res s) = transaction_queue s"
  "live_transactions (save_transaction_to_db now res s) = live_transactions s"
  "fraud_history (save_transaction_to_db now res s) = fraud_history s"
  "high_risk_transactions (save_transaction_to_db now res s) = high_risk_transactions s"
  "suspicious_alerts (save_transaction_to_db now res s) = suspicious_alerts s"
  "total_processed (save_transaction_to_db now res s) = total_processed s"
  "total_fraud (save_transaction_to_db now res s) = total_fraud s"
  by (simp_all add: save_transaction_to_db_def)

lemma process_tx_hash_recorded:
  assumes "process_transaction_data rt now tx = Some res"
  shows "TxHash tx \<in> processed_tx_hashes (process_tx rt now s tx)"
proof (cases "TxHash tx \<in> processed_tx_hashes s")
  case True
  then show ?thesis by (simp add: process_tx_seen)
next
  case False
  then show ?thesis by (simp add: process_tx_new [OF False assms] save_fields)
qed

lemma process_tx_idem:
  "process_tx rt now' (process_tx rt now s tx) tx = process_tx rt now s tx"
proof (cases "process_transaction_data rt now tx")
  case None
  then have "process_transaction_data rt now' tx = None"
    using process_transaction_data_clock [of rt now tx now'] by simp
  with None show ?thesis by (simp add: process_tx_failed)
next
  case (Some res)
  from process_tx_hash_recorded [OF Some] show ?thesis by (rule process_tx_seen)
qed

lemma drain_queue_fields:
  "transaction_queue (drain_queue now s) = []"
  "processed_tx_hashes (drain_queue now s) = processed_tx_hashes s"
  "total_processed (drain_queue now s) = total_processed s + int (length (transaction_queue s))"
  "total_fraud (drain_queue now s) = total_fraud s
     + int (length (filter (\<lambda>tx. tx_label tx = ''Fraudulent'') (transaction_queue s)))"
  "live_transactions (drain_queue now s)
     = foldl (\<lambda>acc y. insert_newest 1000 y acc) (live_transactions s) (transaction_queue s)"
  "fraud_history (drain_queue now s)
     = foldl (\<lambda>acc y. append_fifo 1000 y acc) (fraud_history s)
         (map fraud_probability (transaction_queue s))"
  by (simp_all add: drain_queue_def foldl_consume_frame foldl_consume_counters
        foldl_consume_live foldl_consume_history)

lemma drain_queue_empty: "transaction_queue s = [] \<Longrightarrow> drain_queue now s = s"
  by (simp add: drain_queue_def)

lemma cleanup_fields:
  "transaction_queue (cleanup s) = transaction_queue s"
  "live_transactions (cleanup s) = live_transactions s"
  "fraud_history (cleanup s) = fraud_history s"
  "total_processed (cleanup s) = total_processed s"
  "total_fraud (cleanup s) = total_fraud s"
  by (simp_all add: cleanup_def)

lemma cleanup_idem: "cleanup (cleanup s) = cleanup s"
proof (cases "card (processed_tx_hashes s) > 5000")
  case False
  then show ?thesis by (simp add: cleanup_def)
next
  case True
  have "card (set (map TxHash (take 2500 (live_transactions s)))) \<le> 2500"
    by (rule order_trans [OF card_length]) simp
  then have "\<not> card (set (map TxHash (take 2500 (live_transactions s)))) > 5000" by simp
  with True show ?thesis by (auto simp add: cleanup_def)
qed

lemma insert_newest_Cons: "0 < cap \<Longrightarrow> \<exists>ys. insert_newest cap x xs = x # ys"
  by (cases xs) (auto simp: insert_newest_def Let_def)


lemma single_block:
  "block_transactions b = [raw] \<Longrightarrow> process_block rt now s b = process_tx rt now s (make_tx_data b raw)"
  by (simp add: process_block_def)

lemma iteration_single:
  assumes "block_transactions b = [raw]"
  shows "monitoring_iteration rt now [b] s
           = cleanup (drain_queue now (process_tx rt now s (make_tx_data b raw)))"
  by (simp add: monitoring_iteration_def single_block [OF assms])

lemma iteration_noop:
  assumes q: "transaction_queue s = []"
    and c: "cleanup s = s"
    and h: "TxHash tx \<in> processed_tx_hashes s \<or> process_transaction_data rt now tx = None"
  shows "cleanup (drain_queue now (process_tx rt now s tx)) = s"
proof -
  from h have "process_tx rt now s tx = s"
    by (auto simp: process_tx_seen process_tx_failed)
  then show ?thesis using q c by (simp add: drain_queue_empty)
qed

lemma iteration_twice:
  assumes b: "block_transactions b = [raw]"
    and new: "TxHash (make_tx_data b raw) \<notin> processed_tx_hashes s"
  shows "monitoring_iteration rt now' [b] (monitoring_iteration rt now [b] s)
           = monitoring_iteration rt now [b] s"
proof -
  let ?tx = "make_tx_data b raw"
  let ?s1 = "cleanup (drain_queue now (process_tx rt now s ?tx))"
  have q: "transaction_queue ?s1 = []"
    by (simp add: cleanup_fields drain_queue_fields)
  have c: "cleanup ?s1 = ?s1" by (rule cleanup_idem)
  have h: "TxHash ?tx \<in> processed_tx_hashes ?s1 \<or> process_transaction_data rt now' ?tx = None"
  proof (cases "process_transaction_data rt now ?tx")
    case None
    then show ?thesis using process_transaction_data_clock [of rt now ?tx now'] by simp
  next
    case (Some res)
    let ?s0 = "process_tx rt now s ?tx"
    have s0: "?s0 = save_transaction_to_db now res
             (s\<lparr>processed_tx_hashes := insert (TxHash ?tx) (processed_tx_hashes s),
                transaction_queue := transaction_queue s @ [res]\<rparr>)"
      using new Some by (rule process_tx_new)
    have rec: "TxHash ?tx \<in> processed_tx_hashes (drain_queue now ?s0)"
      using process_tx_hash_recorded [OF Some] by (simp add: drain_queue_fields)
    have "live_transactions (drain_queue now ?s0)
            = insert_newest 1000 res
                (foldl (\<lambda>acc y. insert_newest 1000 y acc) (live_transactions s) (transaction_queue s))"
      by (simp add: drain_queue_fields s0 save_fields)
    then obtain ys where live: "live_transactions (drain_queue now ?s0) = res # ys"
      using insert_newest_Cons [of 1000 res] by (metis zero_less_numeral)
    have "TxHash ?tx \<in> processed_tx_hashes ?s1"
      using rec live process_transaction_data_hash [OF Some]
      by (simp add: cleanup_def)
    then show ?thesis ..
  qed
  have "cleanup (drain_queue now' (process_tx rt now' ?s1 ?tx)) = ?s1"
    using q c h by (rule iteration_noop)
  then show ?thesis by (simp only: iteration_single [OF b])
qed

subsection \<open>The sample transactions\<close>

lemma sample_runtime_simps:
  "py_hash sample_runtime x = 0"
  "fromtimestamp_hour sample_runtime t =
     (if - 62135596800 \<le> t \<and> t \<le> 253402300799 then Some (t div 3600 mod 24) else None)"
  by (simp_all add: sample_runtime_def)

lemma sample_tx_data:
  "make_tx_data sample_block sample_raw =
     \<lparr>TxHash = ''0xab'', BlockHeight = 50000000, TimeStamp = 1699963200,
      From = ''0x01'', To = ''0x02'', Value = 0, Value_Wei = 0\<rparr>"
  "make_tx_data sample_self_block sample_self_raw =
     \<lparr>TxHash = ''0xcd'', BlockHeight = 50000001, TimeStamp = 1699963202,
      From = ''0x01'', To = ''0x01'', Value = 0, Value_Wei = 0\<rparr>"
  by (simp_all add: make_tx_data_def sample_block_def sample_raw_def sample_self_block_def
      sample_self_raw_def Let_def fdiv_def fl_zero)

lemma py_round_zero: "py_round 0 = 0"
  by (simp add: py_round_def)

lemma sample_pattern_points:
  "pattern_points sample_runtime
     \<lparr>TxHash = ''0xab'', BlockHeight = 50000000, TimeStamp = 1699963200,
      From = ''0x01'', To = ''0x02'', Value = 0, Value_Wei = 0\<rparr> = 1 / 2"
  "pattern_points sample_runtime
     \<lparr>TxHash = ''0xcd'', BlockHeight = 50000001, TimeStamp = 1699963202,
      From = ''0x01'', To = ''0x01'', Value = 0, Value_Wei = 0\<rparr> = 1"
  by (simp_all add: pattern_points_def Let_def bump_def fadd_def fsub_def fdiv_def fl_zero
      py_round_zero sample_runtime_simps py_lower_def py_lower_char_def has_repeated_pattern_def
      suffix_to_prefix fl_values)

lemma sample_row_risk:
  "row_risk sample_runtime
     \<lparr>TxHash = ''0xab'', BlockHeight = 50000000, TimeStamp = 1699963200,
      From = ''0x01'', To = ''0x02'', Value = 0, Value_Wei = 0\<rparr>
     = Some (3602879701896397 / 2 ^ 53)"
  "row_risk sample_runtime
     \<lparr>TxHash = ''0xcd'', BlockHeight = 50000001, TimeStamp = 1699963202,
      From = ''0x01'', To = ''0x01'', Value = 0, Value_Wei = 0\<rparr>
     = Some (7656119366529843 / 2 ^ 53)"
  by (simp_all add: row_risk_def Let_def sample_pattern_points sample_runtime_simps bump_def
      fadd_def fdiv_def fl_minus fl_values)

lemma sample_products:
  "py_int (fmul (3602879701896397 / 2 ^ 53) 100) = 40"
  "py_int (fmul (7656119366529843 / 2 ^ 53) 100) = 85"
  by (simp_all add: fmul_def fl_values py_int_def)

lemma sample_scoring:
  "process_transaction_data sample_runtime ''t'' (make_tx_data sample_block sample_raw)
     = Some sample_scored"
  by (simp add: process_transaction_data_def predict_with_risk_def sample_tx_data
      sample_row_risk predict_row_def fmul_def fl_values py_int_def get_fraud_label_def
      get_action_def sample_scored_def)

lemma sample_self_scoring:
  "process_transaction_data sample_runtime ''t'' (make_tx_data sample_self_block sample_self_raw)
     = Some sample_self_scored"
  by (simp add: process_transaction_data_def predict_with_risk_def sample_tx_data
      sample_row_risk predict_row_def fmul_def fl_values py_int_def get_fraud_label_def
      get_action_def sample_self_scored_def)


subsection \<open>Hashing a column\<close>

lemma hash_column_columns: "columns (hash_column rt df c) = columns df"
  by (simp add: hash_column_def)

lemma hash_column_rows:
  "rows (hash_column rt df c)
     = map (\<lambda>r k. if k = c \<and> c \<in> set (columns df) then map_option (hash_cell rt) (r k) else r k)
           (rows df)"
proof (cases "c \<in> set (columns df)")
  case False
  then show ?thesis by (simp add: hash_column_def)
next
  case True
  have "(case r c of None \<Rightarrow> r | Some x \<Rightarrow> r(c \<mapsto> hash_cell rt x))
          = (\<lambda>k. if k = c then map_option (hash_cell rt) (r k) else r k)" for r :: row
    by (rule ext) (simp split: option.splits)
  with True show ?thesis by (simp add: hash_column_def)
qed

lemma apply_privacy_hashing_columns:
  "columns (apply_privacy_hashing rt df cols) = columns df"
  unfolding apply_privacy_hashing_def
  by (induction cols arbitrary: df) (simp_all add: hash_column_columns)

subsection \<open>Scoring\<close>

lemma predict_row_fields:
  "p_fraud (predict_row p) = p"
  "risk_score (predict_row p) = py_int (fmul p 100)"
  "label (predict_row p) = get_fraud_label (py_int (fmul p 100))"
  "p_action (predict_row p) = get_action (py_int (fmul p 100))"
  by (simp_all add: predict_row_def Let_def)

lemma those_map_set:
  assumes "those (map f xs) = Some ys"
  shows "\<forall>y \<in> set ys. \<exists>x \<in> set xs. f x = Some y"
proof
  fix y assume "y \<in> set ys"
  then obtain i where i: "i < length ys" "ys ! i = y" by (auto simp: in_set_conv_nth)
  from those_map_Some [OF assms] have l: "length ys = length xs"
    and a: "\<forall>i < length xs. f (xs ! i) = Some (ys ! i)" by simp_all
  from i l a have "f (xs ! i) = Some y" by auto
  moreover from i l have "xs ! i \<in> set xs" by simp
  ultimately show "\<exists>x \<in> set xs. f x = Some y" by blast
qed

lemma predict_with_risk_rows:
  fixes df :: "'a tx_data_scheme list"
  assumes "predict_with_risk rt df = Some ps"
  shows "length ps = length df"
    and "\<forall>pr \<in> set ps. \<exists>p. 0 \<le> p \<and> p \<le> 0.95 \<and> pr = predict_row p"
proof -
  from assms obtain qs where qs: "those (map (row_risk rt) df) = Some qs" and ps: "ps = map predict_row qs"
    by (auto simp: predict_with_risk_def)
  from those_map_Some [OF qs] ps show "length ps = length df" by simp
  show "\<forall>pr \<in> set ps. \<exists>p. 0 \<le> p \<and> p \<le> 0.95 \<and> pr = predict_row p"
  proof
    fix pr assume "pr \<in> set ps"
    then obtain q where q: "q \<in> set qs" "pr = predict_row q" using ps by auto
    from those_map_set [OF qs] q(1) obtain x :: "'a tx_data_scheme" where "row_risk rt x = Some q"
      by blast
    from row_risk_bounds [OF this] q(2) show "\<exists>p. 0 \<le> p \<and> p \<le> 0.95 \<and> pr = predict_row p"
      by blast
  qed
qed

lemma process_transaction_data_fields:
  assumes "process_transaction_data rt now tx = Some res"
  shows "\<exists>p. 0 \<le> p \<and> p \<le> 0.95 \<and> fraud_probability res = p
            \<and> tx_risk_score res = py_int (fmul p 100)
            \<and> tx_label res = get_fraud_label (py_int (fmul p 100))"
proof -
  from assms obtain ps pr where ps: "predict_with_risk rt [tx] = Some (pr # ps)"
    and res: "fraud_probability res = p_fraud pr" "tx_risk_score res = risk_score pr"
       "tx_label res = label pr"
    by (auto simp: process_transaction_data_def split: option.splits list.splits)
  from predict_with_risk_rows(2) [OF ps] obtain p where "0 \<le> p" "p \<le> 0.95" "pr = predict_row p"
    by auto
  then show ?thesis using res by (auto simp: predict_row_fields)
qed

lemma ensemble_row_fields:
  assumes "ensemble_row rt r is_fraud p = Inr res"
  shows "r_risk_score res = py_int (fmul p 100)"
    and "r_status res = level (get_risk_level_and_action (py_int (fmul p 100)))"
    and "r_fraud_probability res = Some p"
    and "\<exists>v. ensemble_value rt r = Inr v \<and> r_Value res = v
           \<and> r_flags res = ensemble_flags rt r v is_fraud p"
    and "\<not> overflows (p * 100)"
  using assms
  by (auto simp: ensemble_row_def Let_def split: sum.splits option.splits if_splits)

subsection \<open>The rule-based analyzer\<close>

lemma fl_numeral: "(numeral k :: int) < 2 ^ 53 \<Longrightarrow> fl (numeral k) = numeral k"
  using fl_of_int [of "numeral k"] by simp

lemma fadd_ge:
  assumes "of_int n \<le> x" and "0 \<le> y" and "\<bar>n\<bar> < 2 ^ 53"
  shows "of_int n \<le> fadd x y"
  unfolding fadd_def using assms by (intro fl_ge_int) simp_all

lemma fadd_ge_add:
  assumes "of_int n \<le> x" and "of_int m \<le> y" and "\<bar>n + m\<bar> < 2 ^ 53"
  shows "of_int (n + m) \<le> fadd x y"
  unfolding fadd_def using assms by (intro fl_ge_int) simp_all

lemma fmul_nonneg: "0 \<le> x \<Longrightarrow> 0 \<le> y \<Longrightarrow> 0 \<le> fmul x y"
  unfolding fmul_def by (intro fl_nonneg) simp

lemma add_points_keeps:
  assumes "of_int n \<le> fst acc" and "0 \<le> pts" and "\<bar>n\<bar> < 2 ^ 53"
  shows "of_int n \<le> fst (add_points pts flag acc)"
    and "set (snd acc) \<subseteq> set (snd (add_points pts flag acc))"
    and "flag \<in> set (snd (add_points pts flag acc))"
  using fadd_ge [OF assms] by (simp_all add: add_points_def subset_iff)

lemma rule_based_dust:
  "20 \<le> fst (rule_based (Finite 0) is_error block_height)
   \<and> ''Dust Transaction'' \<in> set (snd (rule_based (Finite 0) is_error block_height))"
proof -
  define P where "P acc \<longleftrightarrow> 20 \<le> fst acc \<and> ''Dust Transaction'' \<in> set (snd acc)"
    for acc :: "real \<times> string list"
  have keep: "P (add_points pts flag acc)" if "P acc" "0 \<le> pts" for pts flag acc
  proof -
    from that have "of_int 20 \<le> fst acc" by (simp add: P_def)
    from add_points_keeps(1,2) [OF this that(2), of flag] that(1) show ?thesis
      by (auto simp: P_def)
  qed
  have start: "P (add_points 20 ''Dust Transaction'' (0, []))"
    by (simp add: P_def add_points_def fadd_def fl_numeral)
  have "P (rule_based (Finite 0) is_error block_height)"
    unfolding rule_based_def Let_def
    using start keep fl_dust_pos by simp
  then show ?thesis by (simp add: P_def)
qed

lemma ml_based_mono:
  assumes "of_int n \<le> fst acc" and "\<bar>n\<bar> < 2 ^ 53"
  shows "of_int n \<le> fst (ml_based side acc)"
    and "set (snd acc) \<subseteq> set (snd (ml_based side acc))"
proof -
  define P where "P a \<longleftrightarrow> of_int n \<le> fst a \<and> set (snd acc) \<subseteq> set (snd a)"
    for a :: "real \<times> string list"
  have keep: "P (add_points pts flag a)" if "P a" "0 \<le> pts" for pts flag a
  proof -
    from that have "of_int n \<le> fst a" by (simp add: P_def)
    from add_points_keeps(1,2) [OF this that(2) assms(2), of flag] that(1) show ?thesis
      by (auto simp: P_def)
  qed
  have boost: "P (fadd (fst a) (real_of_int (min 15 b)), snd a)" if "P a" "0 < b" for a and b :: int
  proof -
    from that have "of_int n \<le> fst a" by (simp add: P_def)
    moreover from that(2) have "0 \<le> real_of_int (min 15 b)" by simp
    ultimately have "of_int n \<le> fadd (fst a) (real_of_int (min 15 b))"
      using assms(2) by (rule fadd_ge)
    with that(1) show ?thesis by (simp add: P_def)
  qed
  define m where "m = min 25 (fmul \<bar>anomaly_score side\<bar> 15)"
  have m0: "0 \<le> m" unfolding m_def using fmul_nonneg [of "\<bar>anomaly_score side\<bar>" 15] by simp
  have P0: "P acc" using assms(1) by (simp add: P_def)
  have "P (ml_based side acc)"
    unfolding ml_based_def Let_def m_def [symmetric]
    using P0 keep boost m0 by (auto split: option.splits)
  then show "of_int n \<le> fst (ml_based side acc)" "set (snd acc) \<subseteq> set (snd (ml_based side acc))"
    by (simp_all add: P_def)
qed

lemma address_based_self:
  assumes "of_int n \<le> fst acc" and "\<bar>n + 25\<bar> < 2 ^ 53"
  shows "of_int (n + 25) \<le> fst (address_based a a acc)"
    and "''Self Transfer'' \<in> set (snd (address_based a a acc))"
    and "set (snd acc) \<subseteq> set (snd (address_based a a acc))"
proof -
  let ?acc1 = "add_points 25 ''Self Transfer'' acc"
  have "of_int (n + 25) \<le> fadd (fst acc) 25"
    using assms by (intro fadd_ge_add) simp_all
  then have a1: "of_int (n + 25) \<le> fst ?acc1" by (simp add: add_points_def)
  have f1: "''Self Transfer'' \<in> set (snd ?acc1)" "set (snd acc) \<subseteq> set (snd ?acc1)"
    by (auto simp: add_points_def)
  define P where "P x \<longleftrightarrow> of_int (n + 25) \<le> fst x \<and> ''Self Transfer'' \<in> set (snd x)
      \<and> set (snd acc) \<subseteq> set (snd x)" for x :: "real \<times> string list"
  have keep: "P (add_points pts flag x)" if "P x" "0 \<le> pts" for pts flag x
  proof -
    from that have "of_int (n + 25) \<le> fst x" by (simp add: P_def)
    from add_points_keeps(1,2) [OF this that(2) assms(2), of flag] that(1) show ?thesis
      by (auto simp: P_def)
  qed
  have "P ?acc1" using a1 f1 by (simp add: P_def)
  then have "P (address_based a a acc)"
    unfolding address_based_def Let_def using keep by simp
  then show "of_int (n + 25) \<le> fst (address_based a a acc)"
    "''Self Transfer'' \<in> set (snd (address_based a a acc))"
    "set (snd acc) \<subseteq> set (snd (address_based a a acc))"
    by (simp_all add: P_def)
qed

lemma address_based_flags:
  "set (snd (address_based a b acc))
     \<subseteq> set (snd acc) \<union> {''Self Transfer'', ''Contract-like From'', ''Contract-like To''}"
  by (auto simp: address_based_def Let_def add_points_def)

lemma py_int_ge: "of_int n \<le> x \<Longrightarrow> 0 \<le> n \<Longrightarrow> n \<le> py_int x"
  by (simp add: py_int_def le_floor_iff)

lemma score_row_fields:
  "r_flags (score_row rt side idx r amount e b) =
     snd (address_based
            (case r ''From'' of None \<Rightarrow> random_from side | Some c \<Rightarrow> str_cell rt c)
            (case r ''To'' of None \<Rightarrow> random_to side | Some c \<Rightarrow> str_cell rt c)
            (ml_based side (rule_based amount e b)))"
  "r_risk_score (score_row rt side idx r amount e b) =
     min 100 (py_int (fst (address_based
            (case r ''From'' of None \<Rightarrow> random_from side | Some c \<Rightarrow> str_cell rt c)
            (case r ''To'' of None \<Rightarrow> random_to side | Some c \<Rightarrow> str_cell rt c)
            (ml_based side (rule_based amount e b)))))"
  "r_status (score_row rt side idx r amount e b) =
     level (get_risk_level_and_action (fst (ml_based side (rule_based amount e b))))"
  "r_Value (score_row rt side idx r amount e b) = amount"
  by (simp_all add: score_row_def Let_def)

lemma analyze_row_Inr:
  "analyze_row rt side idx r = Inr res \<longleftrightarrow>
     (\<exists>amount e b t. get_amount rt r = Inr amount \<and> get_is_error rt r = Inr e
        \<and> get_int_field rt r ''BlockHeight'' = Inr b \<and> get_int_field rt r ''TimeStamp'' = Inr t
        \<and> (0 < t \<longrightarrow> fromtimestamp_hour rt t \<noteq> None)
        \<and> res = score_row rt side idx r amount e b)"
  by (auto simp: analyze_row_def split: sum.splits)

lemma score_row_self_dust:
  assumes "r ''From'' = Some a" and "r ''To'' = Some a"
  shows "''Dust Transaction'' \<in> set (r_flags (score_row rt side idx r (Finite 0) e b))"
    and "''Self Transfer'' \<in> set (r_flags (score_row rt side idx r (Finite 0) e b))"
    and "45 \<le> r_risk_score (score_row rt side idx r (Finite 0) e b)"
proof -
  let ?rb = "rule_based (Finite 0) e b"
  let ?ml = "ml_based side ?rb"
  let ?fin = "address_based (str_cell rt a) (str_cell rt a) ?ml"
  have rb: "of_int 20 \<le> fst ?rb" "''Dust Transaction'' \<in> set (snd ?rb)"
    using rule_based_dust [of e b] by simp_all
  have ml: "of_int 20 \<le> fst ?ml" "set (snd ?rb) \<subseteq> set (snd ?ml)"
    by (rule ml_based_mono [OF rb(1)], simp)+
  have fin: "of_int (20 + 25) \<le> fst ?fin" "''Self Transfer'' \<in> set (snd ?fin)"
    "set (snd ?ml) \<subseteq> set (snd ?fin)"
    by (rule address_based_self [OF ml(1)], simp)+
  from fin(1) have "45 \<le> py_int (fst ?fin)" by (intro py_int_ge) simp_all
  then have score: "45 \<le> min 100 (py_int (fst ?fin))" by simp
  from rb(2) ml(2) fin(3) have dust: "''Dust Transaction'' \<in> set (snd ?fin)" by blast
  show "''Dust Transaction'' \<in> set (r_flags (score_row rt side idx r (Finite 0) e b))"
    "''Self Transfer'' \<in> set (r_flags (score_row rt side idx r (Finite 0) e b))"
    "45 \<le> r_risk_score (score_row rt side idx r (Finite 0) e b)"
    unfolding score_row_fields assms option.case using dust fin(2) score by blast+
qed

subsection \<open>The sample rows on the rule-based analyzer\<close>

lemma sample_short_row_simps:
  "sample_short_row ''TxHash'' = Some (Text ''0xab'')"
  "sample_short_row ''From'' = Some (Text ''0x01'')"
  "sample_short_row ''To'' = Some (Text ''0x01'')"
  "sample_short_row ''Value'' = Some (Number 0)"
  "sample_short_row ''BlockHeight'' = None"
  "sample_short_row ''TimeStamp'' = None"
  "sample_short_row ''isError'' = None"
  by (simp_all add: sample_short_row_def)

lemma sample_flagged_row_simps:
  "sample_flagged_row ''TxHash'' = Some (Text ''0xab'')"
  "sample_flagged_row ''From'' = Some (Text ''0x01'')"
  "sample_flagged_row ''To'' = Some (Text ''0x01'')"
  "sample_flagged_row ''Value'' = Some (Number 0)"
  "sample_flagged_row ''BlockHeight'' = None"
  "sample_flagged_row ''TimeStamp'' = None"
  "sample_flagged_row ''isError'' = Some (Text ''yes'')"
  by (simp_all add: sample_flagged_row_def sample_short_row_def)

lemma sample_amount:
  "get_amount rt sample_short_row = Inr (Finite 0)"
  "get_amount rt sample_flagged_row = Inr (Finite 0)"
  by (simp_all add: get_amount_def present_def sample_short_row_simps sample_flagged_row_simps
      float_cell_def fl_zero)

lemma sample_is_error:
  "get_is_error rt sample_short_row = Inr 0"
  "get_is_error rt sample_flagged_row = Inr 1"
  by (simp_all add: get_is_error_def present_def sample_short_row_simps sample_flagged_row_simps
      str_cell_def py_strip_def py_isspace_def py_lower_def py_lower_char_def Let_def)

lemma sample_int_fields:
  "get_int_field rt sample_short_row ''BlockHeight'' = Inr 0"
  "get_int_field rt sample_short_row ''TimeStamp'' = Inr 0"
  "get_int_field rt sample_flagged_row ''BlockHeight'' = Inr 0"
  "get_int_field rt sample_flagged_row ''TimeStamp'' = Inr 0"
  by (simp_all add: get_int_field_def present_def sample_short_row_simps sample_flagged_row_simps)

lemma sample_rule_based:
  "rule_based (Finite 0) 0 0 = (20, [''Dust Transaction''])"
  "rule_based (Finite 0) 1 0 = (60, [''Dust Transaction'', ''Transaction Error''])"
  using fl_dust_pos
  by (simp_all add: rule_based_def Let_def add_points_def fadd_def fl_numeral)

lemma sample_ml_based: "ml_based sample_side acc = acc"
  by (simp add: ml_based_def sample_side_def Let_def)

lemma sample_address_based:
  "address_based ''0x01'' ''0x01'' (20, fs) = (45, fs @ [''Self Transfer''])"
  "address_based ''0x01'' ''0x01'' (60, fs) = (85, fs @ [''Self Transfer''])"
  by (simp_all add: address_based_def Let_def add_points_def fadd_def fl_numeral)

lemma sample_py_int: "py_int 45 = 45" "py_int 85 = 85"
  by (simp_all add: py_int_def)

lemma sample_levels:
  "level (get_risk_level_and_action (20 :: real)) = ''APPROVED''"
  "threat_level (get_risk_level_and_action (20 :: real)) = ''LOW''"
  "level (get_risk_level_and_action (60 :: real)) = ''APPROVED''"
  "threat_level (get_risk_level_and_action (60 :: real)) = ''LOW''"
  by (simp_all add: get_risk_level_and_action_def)

lemma sample_score_row:
  "score_row rt sample_side 0 sample_short_row (Finite 0) 0 0 = sample_fallback_result"
  "score_row rt sample_side 0 sample_flagged_row (Finite 0) 1 0 = sample_flagged_result"
  unfolding score_row_def Let_def sample_rule_based sample_ml_based sample_short_row_simps
    sample_flagged_row_simps option.case str_cell_def cell.case sample_address_based
    fst_conv snd_conv sample_levels sample_fallback_result_def sample_flagged_result_def
  by (simp_all add: sample_py_int)

lemma sample_fallback:
  "analyze_row rt sample_side 0 sample_short_row = Inr sample_fallback_result"
  by (simp add: analyze_row_def sample_amount sample_is_error sample_int_fields sample_score_row)

lemma sample_flagged:
  "analyze_row rt sample_side 0 sample_flagged_row = Inr sample_flagged_result"
  by (simp add: analyze_row_def sample_amount sample_is_error sample_int_fields sample_score_row)

subsection \<open>The sample row on the ensemble path\<close>

lemma sample_row_simps:
  "sample_row ''TxHash'' = Some (Text ''0xab'')"
  "sample_row ''From'' = Some (Text ''0x01'')"
  "sample_row ''To'' = Some (Text ''0x01'')"
  "sample_row ''Value'' = Some (Number 0)"
  "sample_row ''BlockHeight'' = Some (Number 18500000)"
  "sample_row ''TimeStamp'' = Some (Number 1699000000)"
  "sample_row ''isError'' = Some (Number 0)"
  by (simp_all add: sample_row_def)

lemma sample_time_flags: "time_flags rt sample_row = []"
  by (simp add: time_flags_def sample_row_simps hour_flags_def Let_def)

lemma sample_ensemble_value: "ensemble_value rt sample_row = Inr (Finite 0)"
  by (simp add: ensemble_value_def sample_row_simps float_cell_def fl_zero)

lemma sample_ensemble_flags:
  "ensemble_flags rt sample_row (Finite 0) True 1
     = [''Dust Transaction'', ''Self Transaction'', ''Ensemble High Risk'', ''High Confidence Fraud'']"
  "ensemble_flags rt sample_row (Finite 0) False 0 = [''Dust Transaction'', ''Self Transaction'']"
  using fl_dust_pos fl_confidence
  by (simp_all add: ensemble_flags_def sample_row_simps sample_time_flags Let_def)

lemma no_overflow:
  assumes "\<bar>x\<bar> \<le> 2 ^ 53"
  shows "\<not> overflows x"
proof -
  have "(2 :: real) ^ 970 \<le> 2 ^ 1023" by (rule power_increasing) simp_all
  moreover have "(2 :: real) ^ 1024 = 2 * 2 ^ 1023" by simp
  moreover have "(2 :: real) ^ 53 < 2 ^ 1023" by (rule power_strict_increasing) simp_all
  ultimately have "\<bar>x\<bar> < 2 ^ 1024 - 2 ^ 970" using assms by linarith
  then show ?thesis by (simp only: overflows_def not_le)
qed

lemma sample_ensemble_score:
  "py_int (fmul 1 100) = 100" "py_int (fmul 0 100) = 0"
  "\<not> overflows (1 * 100)" "\<not> overflows (0 * 100)"
proof -
  show "py_int (fmul 1 100) = 100" "py_int (fmul 0 100) = 0"
    by (simp_all add: fmul_def fl_numeral fl_zero py_int_def)
  show "\<not> overflows (1 * 100)" by (rule no_overflow) simp
  show "\<not> overflows (0 * 100)" by (rule no_overflow) simp
qed

lemma sample_no_overflow: "\<not> overflows 100" "\<not> overflows 0"
  by (rule no_overflow, simp)+

lemma sample_ensemble:
  "ensemble_row rt sample_row True 1 = Inr sample_ensemble_result"
  "ensemble_row rt sample_row False 0 = Inr sample_low_result"
  unfolding ensemble_row_def sample_ensemble_value sum.case Let_def sample_ensemble_score
    sample_ensemble_flags sample_row_simps sample_ensemble_result_def sample_low_result_def
  by (simp_all add: get_risk_level_and_action_def sample_no_overflow)

lemma ensemble_flags_self_dust:
  assumes "r ''From'' = Some a" and "r ''To'' = Some a" and "a \<noteq> Missing"
  shows "''Dust Transaction'' \<in> set (ensemble_flags rt r (Finite 0) is_fraud p)
       \<and> ''Self Transaction'' \<in> set (ensemble_flags rt r (Finite 0) is_fraud p)"
  using assms fl_dust_pos by (simp add: ensemble_flags_def Let_def)

subsection \<open>Tiers\<close>

lemma level_iff:
  fixes x :: "'a::linordered_idom"
  shows "level (get_risk_level_and_action x) = ''BLOCKED'' \<longleftrightarrow> 80 \<le> x"
    and "level (get_risk_level_and_action x) = ''SUSPICIOUS'' \<longleftrightarrow> 65 \<le> x \<and> x < 80"
    and "level (get_risk_level_and_action x) = ''APPROVED'' \<longleftrightarrow> x < 65"
  by (auto simp: get_risk_level_and_action_def)

lemma ensemble_row_status:
  assumes "ensemble_row rt r is_fraud p = Inr res"
  shows "r_status res = level (get_risk_level_and_action (r_risk_score res))"
  by (simp add: ensemble_row_fields(1,2) [OF assms])

lemma process_transaction_data_label:
  assumes "process_transaction_data rt now tx = Some res"
  shows "tx_label res = get_fraud_label (tx_risk_score res)"
  using process_transaction_data_fields [OF assms] by auto

subsection \<open>Address profiles\<close>

lemma risk_formula_bounds:
  fixes a b c d :: real
  assumes "0 \<le> a" "0 \<le> b" "0 \<le> c" "0 \<le> d"
  shows "0 \<le> min 100 (a * 0.4 + min 100 b * 0.3 + min 100 c * 0.2 + min 100 d * 0.1) / 100"
    and "min 100 (a * 0.4 + min 100 b * 0.3 + min 100 c * 0.2 + min 100 d * 0.1) / 100 \<le> 1"
proof -
  define X where "X = a * 0.4 + min 100 b * 0.3 + min 100 c * 0.2 + min 100 d * 0.1"
  have mb: "0 \<le> min 100 b" "0 \<le> min 100 c" "0 \<le> min 100 d"
    using assms by simp_all
  have X0: "0 \<le> X"
    unfolding X_def using assms(1) mb
    by (intro add_nonneg_nonneg mult_nonneg_nonneg) simp_all
  define m where "m = min 100 X"
  have m: "0 \<le> m" "m \<le> 100" using X0 by (simp_all add: m_def)
  from m have "0 \<le> m / 100" "m / 100 \<le> 1" by simp_all
  then show "0 \<le> min 100 (a * 0.4 + min 100 b * 0.3 + min 100 c * 0.2 + min 100 d * 0.1) / 100"
    and "min 100 (a * 0.4 + min 100 b * 0.3 + min 100 c * 0.2 + min 100 d * 0.1) / 100 \<le> 1"
    unfolding m_def X_def by simp_all
qed

lemma update_address_skip:
  "address = [] \<or> address = null_address \<Longrightarrow> update_address now tx db address = Inr db"
  by (auto simp: update_address_def)

lemma update_address_new:
  assumes "address \<noteq> []" "address \<noteq> null_address" "db address = None"
  shows "update_address now tx db address =
     Inr (db(address \<mapsto>
            \<lparr>total_transactions = 1,
             fraud_transactions = (if tx_label tx = ''Fraudulent'' then 1 else 0),
             fraud_percentage = (if tx_label tx = ''Fraudulent'' then 100 else 0),
             total_value = Value tx / 10 ^ 18,
             fraud_value = (if tx_label tx = ''Fraudulent'' then Value tx / 10 ^ 18 else 0),
             node_risk_score = (if tx_label tx = ''Fraudulent'' then 0.5 else 0.1),
             first_seen = now, last_seen = now, is_flagged = False\<rparr>))"
  unfolding update_address_def Let_def using assms by (simp only: option.case if_False simp_thms)

lemma update_address_existing:
  assumes "address \<noteq> []" "address \<noteq> null_address" "db address = Some row"
    and "total_transactions row + 1 \<noteq> 0"
  shows "update_address now tx db address =
     Inr (db(address \<mapsto>
            row\<lparr>total_transactions := total_transactions row + 1,
                fraud_transactions := fraud_transactions row + (if tx_label tx = ''Fraudulent'' then 1 else 0),
                fraud_percentage :=
                  (of_int (fraud_transactions row + (if tx_label tx = ''Fraudulent'' then 1 else 0))
                    / of_int (total_transactions row + 1)) * 100,
                total_value := total_value row + Value tx / 10 ^ 18,
                fraud_value := fraud_value row + (if tx_label tx = ''Fraudulent'' then Value tx / 10 ^ 18 else 0),
                node_risk_score :=
                  min 100
                    ((of_int (fraud_transactions row + (if tx_label tx = ''Fraudulent'' then 1 else 0))
                        / of_int (total_transactions row + 1)) * 100 * 0.4
                     + min 100 ((of_int (fraud_transactions row + (if tx_label tx = ''Fraudulent'' then 1 else 0)) / 10) * 100) * 0.3
                     + min 100 (((total_value row + Value tx / 10 ^ 18) / 1000) * 100) * 0.2
                     + min 100 ((of_int (total_transactions row + 1) / 100) * 100) * 0.1) / 100,
                last_seen := now\<rparr>))"
  unfolding update_address_def Let_def using assms by (simp only: option.case if_False simp_thms)

lemma update_existing_fields:
  assumes "address \<noteq> []" "address \<noteq> null_address" "db address = Some row"
    and "0 \<le> total_transactions row"
  shows "\<exists>row'. update_address now tx db address = Inr (db(address \<mapsto> row'))
      \<and> total_transactions row' = total_transactions row + 1
      \<and> fraud_transactions row' =
           fraud_transactions row + (if tx_label tx = ''Fraudulent'' then 1 else 0)
      \<and> total_value row' = total_value row + Value tx / 10 ^ 18
      \<and> fraud_percentage row' =
           of_int (fraud_transactions row') / of_int (total_transactions row') * 100
      \<and> node_risk_score row' =
           min 100 (fraud_percentage row' * 0.4
                    + min 100 (of_int (fraud_transactions row') / 10 * 100) * 0.3
                    + min 100 (total_value row' / 1000 * 100) * 0.2
                    + min 100 (of_int (total_transactions row') / 100 * 100) * 0.1) / 100
      \<and> first_seen row' = first_seen row \<and> last_seen row' = now
      \<and> (0 \<le> fraud_transactions row \<and> 0 \<le> total_value row + Value tx / 10 ^ 18 \<longrightarrow>
            0 \<le> node_risk_score row' \<and> node_risk_score row' \<le> 1)"
proof -
  let ?f = "fraud_transactions row + (if tx_label tx = ''Fraudulent'' then 1 else 0)"
  let ?t = "total_transactions row + 1"
  let ?v = "total_value row + Value tx / 10 ^ 18"
  let ?pct = "(of_int ?f / of_int ?t) * 100 :: real"
  let ?score = "min 100 (?pct * 0.4 + min 100 ((of_int ?f / 10) * 100) * 0.3
                 + min 100 ((?v / 1000) * 100) * 0.2
                 + min 100 ((of_int ?t / 100) * 100) * 0.1) / 100"
  let ?row' = "row\<lparr>total_transactions := ?t, fraud_transactions := ?f, fraud_percentage := ?pct,
                 total_value := ?v,
                 fraud_value := fraud_value row + (if tx_label tx = ''Fraudulent'' then Value tx / 10 ^ 18 else 0),
                 node_risk_score := ?score, last_seen := now\<rparr>"
  from assms(4) have t: "?t \<noteq> 0" "0 < ?t" by simp_all
  have eq: "update_address now tx db address = Inr (db(address \<mapsto> ?row'))"
    using assms(1-3) t(1) by (rule update_address_existing)
  have sel: "total_transactions ?row' = ?t" "fraud_transactions ?row' = ?f" "total_value ?row' = ?v"
    "fraud_percentage ?row' = ?pct" "node_risk_score ?row' = ?score"
    "first_seen ?row' = first_seen row" "last_seen ?row' = now"
    by simp_all
  have bounds: "0 \<le> ?score \<and> ?score \<le> 1"
    if nn: "0 \<le> fraud_transactions row \<and> 0 \<le> ?v"
  proof -
    from nn have f0: "0 \<le> ?f" by simp
    from f0 t(2) have a: "0 \<le> ?pct" by simp
    from f0 have b: "(0 :: real) \<le> (of_int ?f / 10) * 100" by simp
    from nn have c: "0 \<le> (?v / 1000) * 100" by simp
    from t(2) have d: "(0 :: real) \<le> (of_int ?t / 100) * 100" by simp
    from risk_formula_bounds [OF a b c d] show ?thesis by (rule conjI)
  qed
  show ?thesis
    apply (rule exI [of _ ?row'])
    apply (intro conjI impI)
            apply (rule eq)
           apply (simp_all only: sel)
    apply (rule bounds [THEN conjunct1], assumption)
    apply (rule bounds [THEN conjunct2], assumption)
    done
qed

lemma streaming_label_blocked:
  assumes "process_transaction_data rt now stx = Some tx"
  shows "tx_label tx = ''Fraudulent'' \<longleftrightarrow>
         level (get_risk_level_and_action (tx_risk_score tx)) = ''BLOCKED''"
  unfolding process_transaction_data_label [OF assms] level_iff
  by (simp add: get_fraud_label_def)

lemma sample_result_fields:
  "tx_label (sample_result 90) = ''Fraudulent''" "tx_label (sample_result 70) = ''Suspicious''"
  "Value (sample_result s) = 0" "From (sample_result s) = ''0x01''" "To (sample_result s) = ''0x02''"
  "tx_risk_score (sample_result s) = s"
  by (simp_all add: sample_result_def get_fraud_label_def)

subsection \<open>The ensemble\<close>



lemma predict_with_ensemble_Some:
  assumes "predict_with_ensemble es df = Some (preds, probas)"
  shows "\<exists>X. length X = length (rows df)
           \<and> ensemble_loop (models es) (weights es) X (replicate (length (rows df)) 0) = Some probas"
    and "preds = map (\<lambda>q. q \<ge> threshold es) probas"
  using assms
  by (auto simp: predict_with_ensemble_def split: if_splits option.splits)


lemma sample_ensemble_prediction:
  "predict_with_ensemble sample_ensemble_system sample_table = Some ([True], [1])"
  "predict_with_ensemble sample_calm_system sample_table = Some ([False], [0])"
  by (simp_all add: predict_with_ensemble_def sample_ensemble_system_def sample_calm_system_def
      sample_table_def feature_columns_def)

subsection \<open>Batch analysis\<close>

lemma sequence_results_length:
  "sequence_results xs = Inr ys \<Longrightarrow> length ys = length xs"
proof (induction xs arbitrary: ys rule: sequence_results.induct)
  case 1
  then show ?case by simp
next
  case (2 e uu)
  then show ?case by simp
next
  case (3 x rs)
  then show ?case by (auto split: sum.splits)
qed

lemma analyze_transactions_length:
  "analyze_transactions rt fit df = Inr rs \<Longrightarrow> length rs = length (rows df)"
  by (auto simp: analyze_transactions_def dest: sequence_results_length
      split: option.splits sum.splits)

lemma ensemble_loop_length:
  "ensemble_loop ms ws X acc = Some out \<Longrightarrow> length acc = length X \<Longrightarrow> length out = length X"
proof (induction ms ws X acc arbitrary: out rule: ensemble_loop.induct)
  case (1 ws X acc)
  then show ?case by simp
next
  case (2 name model ms ws X acc)
  from "2.prems"(1) obtain w where w: "ws name = Some w"
    and rec: "ensemble_loop ms ws X (map2 (+) acc (map (\<lambda>x. model x * w) X)) = Some out"
    by (auto split: option.splits)
  have "length (map2 (+) acc (map (\<lambda>x. model x * w) X)) = length X"
    using "2.prems"(2) by simp
  from "2.IH" [OF w rec this] show ?case .
qed

lemma predict_with_ensemble_length:
  assumes "predict_with_ensemble es df = Some (preds, probas)"
  shows "length probas = length (rows df)" "length preds = length (rows df)"
proof -
  from predict_with_ensemble_Some(1) [OF assms] obtain X where
    X: "length X = length (rows df)"
    and loop: "ensemble_loop (models es) (weights es) X (replicate (length (rows df)) 0) = Some probas"
    by blast
  have "length (replicate (length (rows df)) (0 :: real)) = length X" using X by simp
  from ensemble_loop_length [OF loop this] X show "length probas = length (rows df)" by simp
  then show "length preds = length (rows df)"
    using predict_with_ensemble_Some(2) [OF assms] by simp
qed

lemma analyze_with_ensemble_system_length:
  assumes "analyze_with_ensemble_system rt es fit df = Inr rs"
  shows "length rs = length (rows df)"
proof (cases "predict_with_ensemble es df")
  case None
  with assms show ?thesis
    by (simp add: analyze_with_ensemble_system_def analyze_transactions_length)
next
  case (Some pp)
  obtain preds probas where pp: "pp = (preds, probas)" by (cases pp)
  note len = predict_with_ensemble_length [OF Some [unfolded pp]]
  let ?xs = "map (\<lambda>(r, is_fraud, p). ensemble_row rt r is_fraud p) (zip (rows df) (zip preds probas))"
  show ?thesis
  proof (cases "sequence_results ?xs")
    case (Inl e)
    with assms Some pp show ?thesis
      by (simp add: analyze_with_ensemble_system_def analyze_transactions_length)
  next
    case (Inr ys)
    with assms Some pp have "rs = ys" by (simp add: analyze_with_ensemble_system_def)
    moreover from sequence_results_length [OF Inr] len have "length ys = length (rows df)" by simp
    ultimately show ?thesis by simp
  qed
qed

lemma show_csv_scoring_rejects:
  "(\<exists>missing. show_csv_scoring rt df ok n progress clicked = Rejected missing)
     \<longleftrightarrow> \<not> set required_cols \<subseteq> set (columns df)"
  by (auto simp: show_csv_scoring_def Let_def filter_empty_conv split: option.splits)

lemma show_csv_scoring_missing:
  assumes "show_csv_scoring rt df ok n progress clicked = Rejected missing"
  shows "missing \<noteq> [] \<and> missing = filter (\<lambda>col. col \<notin> set (columns df)) required_cols"
  using assms by (auto simp: show_csv_scoring_def Let_def split: if_splits option.splits)

lemma analyze_csv_rejects:
  assumes "file = None
     \<or> (\<exists>f. file = Some f
           \<and> (filename f = [] \<or> \<not> suffix ''.csv'' (filename f)
                \<or> (\<exists>df. content f = Some df \<and> columns df \<noteq> [] \<and> rows df = [])))"
  shows "\<exists>msg. analyze_csv rt es catboost fit now file s = (Failure msg 400, s)"
  using assms by (auto simp: analyze_csv_def Let_def)

lemma analyze_csv_unreadable:
  assumes "file = Some f" "filename f \<noteq> []" "suffix ''.csv'' (filename f)"
    and "content f = None \<or> (\<exists>df. content f = Some df \<and> columns df = [])"
  shows "analyze_csv rt es catboost fit now file s = (Failure ''Analysis failed'' 500, s)"
  using assms by (auto simp: analyze_csv_def Let_def)

lemma alert_loop_None:
  "alert_loop now s rs = (None, s') \<Longrightarrow> s' = foldl (csv_alerts now) s rs"
  by (induction rs arbitrary: s) (auto split: if_splits)

lemma alert_loop_Some:
  "alert_loop now s rs = (Some e, s') \<Longrightarrow>
     \<exists>bad \<in> set rs. 65 \<le> r_risk_score bad \<and> r_risk_score bad < 80 \<and> \<not> is_text (r_TxHash bad)"
  by (induction rs arbitrary: s) (auto split: if_splits)

lemma alert_loop_texts:
  "\<forall>tx \<in> set rs. is_text (r_TxHash tx) \<Longrightarrow>
     alert_loop now s rs = (None, foldl (csv_alerts now) s rs)"
  by (induction rs arbitrary: s) simp_all

lemma sequence_results_set:
  "sequence_results xs = Inr ys \<Longrightarrow> y \<in> set ys \<Longrightarrow> Inr y \<in> set xs"
proof (induction xs arbitrary: ys rule: sequence_results.induct)
  case 1
  then show ?case by simp
next
  case (2 e uu)
  then show ?case by simp
next
  case (3 x rs)
  then show ?case by (auto split: sum.splits)
qed

lemma analyze_transactions_texts:
  assumes "analyze_transactions rt fit df = Inr rs" and "tx \<in> set rs"
  shows "is_text (r_TxHash tx)"
proof -
  from assms(1) obtain side where
    seq: "sequence_results (map (\<lambda>(idx, r). analyze_row rt (side idx) idx r) (enumerate 0 (rows df)))
            = Inr rs"
    by (auto simp: analyze_transactions_def split: option.splits sum.splits)
  from sequence_results_set [OF seq assms(2)] obtain idx r where
    "analyze_row rt (side idx) idx r = Inr tx" by auto
  then obtain amount e b where "tx = score_row rt (side idx) idx r amount e b"
    unfolding analyze_row_Inr by blast
  then show ?thesis by (simp add: score_row_def Let_def)
qed

lemma analyze_csv_accepted:
  assumes "file = Some f" "filename f \<noteq> []" "suffix ''.csv'' (filename f)"
    "content f = Some df" "columns df \<noteq> []" "rows df \<noteq> []"
  shows "analyze_csv rt es catboost fit now file s =
    (case (case (if is_loaded es then analyze_with_ensemble_system rt es fit df
                 else analyze_transactions rt fit df) of
             Inl e \<Rightarrow> analyze_transactions rt fit df
           | Inr rs \<Rightarrow> Inr rs) of
       Inl e \<Rightarrow> (Failure ''Analysis failed'' 500, s)
     | Inr rs \<Rightarrow>
         (case alert_loop now s rs of
            (Some e, s') \<Rightarrow> (Failure ''Analysis failed'' 500, s')
          | (None, s') \<Rightarrow> (Success rs (generate_report rs), s')))"
  using assms by (simp add: analyze_csv_def Let_def)

lemma alert_loop_outcome:
  assumes "length rs = length (rows df)"
  shows "(case alert_loop now s rs of
            (Some e, s') \<Rightarrow> (Failure ''Analysis failed'' 500, s')
          | (None, s') \<Rightarrow> (Success rs (generate_report rs), s'))
           = (Success rs (generate_report rs), foldl (csv_alerts now) s rs)
       \<or> (\<exists>bad s'. (case alert_loop now s rs of
                       (Some e, s') \<Rightarrow> (Failure ''Analysis failed'' 500, s')
                     | (None, s') \<Rightarrow> (Success rs (generate_report rs), s'))
                      = (Failure ''Analysis failed'' 500, s')
                  \<and> bad \<in> set rs \<and> 65 \<le> r_risk_score bad \<and> r_risk_score bad < 80
                  \<and> \<not> is_text (r_TxHash bad))"
proof (cases "alert_loop now s rs")
  case (Pair err s')
  show ?thesis
  proof (cases err)
    case None
    with Pair alert_loop_None [of now s rs s'] show ?thesis by simp
  next
    case (Some e)
    with Pair alert_loop_Some [of now s rs e s'] show ?thesis by auto
  qed
qed

lemma analyze_csv_outcome:
  assumes "file = Some f" "filename f \<noteq> []" "suffix ''.csv'' (filename f)"
    "content f = Some df" "columns df \<noteq> []" "rows df \<noteq> []"
  shows "(\<exists>rs. analyze_csv rt es catboost fit now file s
               = (Success rs (generate_report rs), foldl (csv_alerts now) s rs)
            \<and> length rs = length (rows df))
       \<or> (analyze_csv rt es catboost fit now file s = (Failure ''Analysis failed'' 500, s)
            \<and> (\<exists>e. analyze_transactions rt fit df = Inl e))
       \<or> (\<exists>rs bad s'. analyze_csv rt es catboost fit now file s
                          = (Failure ''Analysis failed'' 500, s')
            \<and> is_loaded es \<and> analyze_with_ensemble_system rt es fit df = Inr rs
            \<and> bad \<in> set rs \<and> 65 \<le> r_risk_score bad \<and> r_risk_score bad < 80
            \<and> \<not> is_text (r_TxHash bad))"
proof -
  let ?p = "if is_loaded es then analyze_with_ensemble_system rt es fit df
            else analyze_transactions rt fit df"
  note eq = analyze_csv_accepted [OF assms, of rt es catboost fit now s]
  have fallback: ?thesis if rs: "analyze_transactions rt fit df = Inr rs"
    and res: "analyze_csv rt es catboost fit now file s
               = (case alert_loop now s rs of
                    (Some e, s') \<Rightarrow> (Failure ''Analysis failed'' 500, s')
                  | (None, s') \<Rightarrow> (Success rs (generate_report rs), s'))" for rs
  proof -
    from analyze_transactions_texts [OF rs] have "\<forall>tx \<in> set rs. is_text (r_TxHash tx)" by blast
    from alert_loop_texts [OF this] res
    have "analyze_csv rt es catboost fit now file s
            = (Success rs (generate_report rs), foldl (csv_alerts now) s rs)"
      by simp
    with analyze_transactions_length [OF rs] show ?thesis by blast
  qed
  show ?thesis
  proof (cases ?p)
    case (Inr rs)
    with eq have res: "analyze_csv rt es catboost fit now file s
               = (case alert_loop now s rs of
                    (Some e, s') \<Rightarrow> (Failure ''Analysis failed'' 500, s')
                  | (None, s') \<Rightarrow> (Success rs (generate_report rs), s'))"
      by simp
    show ?thesis
    proof (cases "is_loaded es")
      case False
      with Inr have "analyze_transactions rt fit df = Inr rs" by simp
      from fallback [OF this res] show ?thesis .
    next
      case True
      with Inr have ens: "analyze_with_ensemble_system rt es fit df = Inr rs" by simp
      then have len: "length rs = length (rows df)" by (rule analyze_with_ensemble_system_length)
      from alert_loop_outcome [OF len, of now s] res True ens len show ?thesis by auto
    qed
  next
    case (Inl e)
    show ?thesis
    proof (cases "analyze_transactions rt fit df")
      case (Inr rs)
      with Inl eq have res: "analyze_csv rt es catboost fit now file s
               = (case alert_loop now s rs of
                    (Some e, s') \<Rightarrow> (Failure ''Analysis failed'' 500, s')
                  | (None, s') \<Rightarrow> (Success rs (generate_report rs), s'))"
        by simp
      from fallback [OF Inr res] show ?thesis .
    next
      case (Inl e')
      with \<open>?p = Inl e\<close> eq show ?thesis by simp
    qed
  qed
qed

subsection \<open>The sample tables\<close>

lemma sample_fit_simps: "sample_fit df = Some (\<lambda>idx. sample_side)"
  by (simp add: sample_fit_def)

lemma sample_short_analysis:
  "analyze_transactions rt sample_fit sample_short_table = Inr [sample_fallback_result]"
  by (simp add: analyze_transactions_def sample_fit_simps sample_short_table_def
      sample_is_error sample_fallback)

lemma sample_short_no_prediction:
  "predict_with_ensemble es sample_short_table = None"
  by (simp add: predict_with_ensemble_def sample_short_table_def feature_columns_def)

lemma sample_short_ensemble:
  "analyze_with_ensemble_system rt es sample_fit sample_short_table = Inr [sample_fallback_result]"
  by (simp add: analyze_with_ensemble_system_def sample_short_no_prediction sample_short_analysis)

lemma sample_table_rows: "rows sample_table = [sample_row]"
  by (simp add: sample_table_def)

lemma sample_table_ensemble:
  "analyze_with_ensemble_system rt sample_ensemble_system fit sample_table
     = Inr [sample_ensemble_result]"
  "analyze_with_ensemble_system rt sample_calm_system fit sample_table = Inr [sample_low_result]"
  by (simp_all add: analyze_with_ensemble_system_def sample_ensemble_prediction sample_table_rows
      sample_ensemble)

lemma sample_fallback_score: "r_risk_score sample_fallback_result = 45"
  by (simp add: sample_fallback_result_def)

lemma sample_short_report:
  "generate_report [sample_fallback_result]
     = \<lparr>rep_total = 1, rep_blocked = 0, rep_flagged = 0, rep_approved = 1\<rparr>"
  by (simp add: generate_report_def sample_fallback_score)

lemma sample_short_alerts: "alert_loop now s [sample_fallback_result] = (None, s)"
  by (simp add: csv_alerts_def Let_def sample_fallback_score)

lemma sample_upload_simps:
  "filename sample_upload = ''batch.csv''" "content sample_upload = Some sample_short_table"
  "rows sample_short_table = [sample_short_row]"
  "columns sample_short_table = [''TxHash'', ''From'', ''To'', ''Value'']"
  by (simp_all add: sample_upload_def sample_short_table_def)

lemma sample_upload_named: "filename sample_upload \<noteq> []" "suffix ''.csv'' (filename sample_upload)"
  by (simp_all add: sample_upload_simps suffix_to_prefix)

lemma sample_upload_response:
  "analyze_csv rt es catboost sample_fit now (Some sample_upload) s
   = (Success [sample_fallback_result]
        \<lparr>rep_total = 1, rep_blocked = 0, rep_flagged = 0, rep_approved = 1\<rparr>, s)"
  using sample_upload_named
  by (simp add: analyze_csv_def Let_def sample_upload_simps sample_short_ensemble
      sample_short_analysis sample_short_report sample_short_alerts del: alert_loop.simps)

lemma sample_short_missing:
  "filter (\<lambda>col. col \<notin> set (columns sample_short_table)) required_cols
     = [''BlockHeight'', ''TimeStamp'']"
  by (simp add: required_cols_def sample_upload_simps)

lemma sample_short_page:
  "show_csv_scoring rt sample_short_table ok n progress clicked
     = Rejected [''BlockHeight'', ''TimeStamp'']"
  by (simp add: show_csv_scoring_def Let_def sample_short_missing)


subsection \<open>The scaled probability\<close>

lemma floor_fl_bounds:
  assumes "0 \<le> x" and "x < 2 ^ 52"
  shows "\<lfloor>x\<rfloor> \<le> \<lfloor>fl x\<rfloor>" and "\<lfloor>fl x\<rfloor> \<le> \<lfloor>x\<rfloor> + 1"
proof -
  from assms have a: "\<bar>x\<bar> < 2 ^ 52" by simp
  from fl_floor_le [OF a] show "\<lfloor>x\<rfloor> \<le> \<lfloor>fl x\<rfloor>" by (simp add: le_floor_iff)
  have "\<lceil>x\<rceil> \<le> \<lfloor>x\<rfloor> + 1" by linarith
  then have "real_of_int \<lceil>x\<rceil> \<le> real_of_int (\<lfloor>x\<rfloor> + 1)" by (simp only: of_int_le_iff)
  with fl_le_ceiling [OF a] have "fl x \<le> real_of_int (\<lfloor>x\<rfloor> + 1)" by linarith
  then have "\<lfloor>fl x\<rfloor> \<le> \<lfloor>real_of_int (\<lfloor>x\<rfloor> + 1)\<rfloor>" by (rule floor_mono)
  then show "\<lfloor>fl x\<rfloor> \<le> \<lfloor>x\<rfloor> + 1" by (simp only: floor_of_int)
qed

lemma scaled_score:
  assumes "0 \<le> p" and "p \<le> 0.95"
  shows "py_int (fmul p 100) = \<lfloor>fmul p 100\<rfloor>"
    and "\<lfloor>p * 100\<rfloor> \<le> py_int (fmul p 100)"
    and "py_int (fmul p 100) \<le> \<lfloor>p * 100\<rfloor> + 1"
proof -
  from assms(1) show e: "py_int (fmul p 100) = \<lfloor>fmul p 100\<rfloor>"
    by (intro py_int_nonneg fmul_nonneg) simp_all
  then have e': "py_int (fmul p 100) = \<lfloor>fl (p * 100)\<rfloor>" by (simp only: fmul_def)
  from assms have b: "0 \<le> p * 100" "p * 100 < 2 ^ 52" by simp_all
  from floor_fl_bounds(1) [OF b] show "\<lfloor>p * 100\<rfloor> \<le> py_int (fmul p 100)"
    by (simp only: e')
  from floor_fl_bounds(2) [OF b] show "py_int (fmul p 100) \<le> \<lfloor>p * 100\<rfloor> + 1"
    by (simp only: e')
qed

lemma sample_flagged_analysis:
  "analyze_transactions rt sample_fit sample_flagged_table = Inr [sample_flagged_result]"
  by (simp add: analyze_transactions_def sample_fit_simps sample_flagged_table_def
      sample_is_error sample_flagged)

section \<open>Properties\<close>

subsection \<open>Risk classifier\<close>

text \<open>
  C1. The classifier is a total function of the integer score alone: a score of 80 or more
  is BLOCKED, a score from 65 to 79 is SUSPICIOUS, a score below 65 is APPROVED; so 64 is
  APPROVED, 65 and 79 are SUSPICIOUS and 80 is BLOCKED.
\<close>

theorem risk_classifier_tiers:
  fixes score :: int
  shows "level (get_risk_level_and_action score) =
           (if 80 \<le> score then ''BLOCKED''
            else if 65 \<le> score then ''SUSPICIOUS'' else ''APPROVED'')
       \<and> level (get_risk_level_and_action (64 :: int)) = ''APPROVED''
       \<and> level (get_risk_level_and_action (65 :: int)) = ''SUSPICIOUS''
       \<and> level (get_risk_level_and_action (79 :: int)) = ''SUSPICIOUS''
       \<and> level (get_risk_level_and_action (80 :: int)) = ''BLOCKED''"
  by (simp add: get_risk_level_and_action_def)

subsection \<open>Alert buffers\<close>

text \<open>
  C6. Ring-buffer bound. From a state whose buffers are within their capacities (the
  initial state is one), after any sequence of events that inserts more than \<open>capacity\<close>
  elements into a buffer, the buffer's length is its capacity: 1000 for the live feed and
  the fraud-probability history, 100 for the high-risk list, 200 for the suspicious
  alerts. The history then holds exactly the last 1000 probabilities in insertion order,
  and the first element of each newest-first buffer is the element inserted last.
\<close>

theorem ring_buffer_bound:
  assumes "length (live_transactions s) \<le> 1000" and "length (fraud_history s) \<le> 1000"
    and "length (high_risk_transactions s) \<le> 100" and "length (suspicious_alerts s) \<le> 200"
  shows "(1000 < length (concat (map live_entry evs)) \<longrightarrow>
            length (live_transactions (foldl apply_event s evs)) = 1000
          \<and> hd (live_transactions (foldl apply_event s evs)) = last (concat (map live_entry evs))
          \<and> length (fraud_history (foldl apply_event s evs)) = 1000
          \<and> fraud_history (foldl apply_event s evs)
              = drop (length (concat (map live_entry evs)) - 1000)
                  (map fraud_probability (concat (map live_entry evs))))
       \<and> (100 < length (concat (map high_risk_entry evs)) \<longrightarrow>
            length (high_risk_transactions (foldl apply_event s evs)) = 100
          \<and> hd (high_risk_transactions (foldl apply_event s evs))
              = last (concat (map high_risk_entry evs)))
       \<and> (200 < length (concat (map alert_entry evs)) \<longrightarrow>
            length (suspicious_alerts (foldl apply_event s evs)) = 200
          \<and> hd (suspicious_alerts (foldl apply_event s evs))
              = last (concat (map alert_entry evs)))"
proof (intro conjI impI)
  assume n: "1000 < length (concat (map live_entry evs))"
  show "length (live_transactions (foldl apply_event s evs)) = 1000"
    unfolding events_live using assms(1) n by (rule newest_first_full(1)) simp
  show "hd (live_transactions (foldl apply_event s evs)) = last (concat (map live_entry evs))"
    unfolding events_live using assms(1) n by (rule newest_first_full(2)) simp
  have m: "1000 < length (map fraud_probability (concat (map live_entry evs)))"
    using n by simp
  have h: "fraud_history (foldl apply_event s evs)
        = drop (length (map fraud_probability (concat (map live_entry evs))) - 1000)
            (map fraud_probability (concat (map live_entry evs)))"
    unfolding events_history using assms(2) m by (rule fifo_full)
  then show "fraud_history (foldl apply_event s evs)
        = drop (length (concat (map live_entry evs)) - 1000)
            (map fraud_probability (concat (map live_entry evs)))"
    by simp
  show "length (fraud_history (foldl apply_event s evs)) = 1000"
    unfolding h using m by simp
next
  assume n: "100 < length (concat (map high_risk_entry evs))"
  show "length (high_risk_transactions (foldl apply_event s evs)) = 100"
    unfolding events_high_risk using assms(3) n by (rule newest_first_full(1)) simp
  show "hd (high_risk_transactions (foldl apply_event s evs)) = last (concat (map high_risk_entry evs))"
    unfolding events_high_risk using assms(3) n by (rule newest_first_full(2)) simp
next
  assume n: "200 < length (concat (map alert_entry evs))"
  show "length (suspicious_alerts (foldl apply_event s evs)) = 200"
    unfolding events_suspicious using assms(4) n by (rule newest_first_full(1)) simp
  show "hd (suspicious_alerts (foldl apply_event s evs)) = last (concat (map alert_entry evs))"
    unfolding events_suspicious using assms(4) n by (rule newest_first_full(2)) simp
qed

theorem ring_buffer_bound_witness:
  "length (live_transactions (foldl apply_event initial_state
      (replicate 1001 (Queued ''t'' (sample_result 90)) @ replicate 201 (Queued ''t'' (sample_result 70))))) = 1000
   \<and> hd (live_transactions (foldl apply_event initial_state
      (replicate 1001 (Queued ''t'' (sample_result 90)) @ replicate 201 (Queued ''t'' (sample_result 70))))) = sample_result 70
   \<and> length (fraud_history (foldl apply_event initial_state
      (replicate 1001 (Queued ''t'' (sample_result 90)) @ replicate 201 (Queued ''t'' (sample_result 70))))) = 1000
   \<and> length (high_risk_transactions (foldl apply_event initial_state
      (replicate 1001 (Queued ''t'' (sample_result 90)) @ replicate 201 (Queued ''t'' (sample_result 70))))) = 100
   \<and> hd (high_risk_transactions (foldl apply_event initial_state
      (replicate 1001 (Queued ''t'' (sample_result 90)) @ replicate 201 (Queued ''t'' (sample_result 70))))) = Streamed (sample_result 90)
   \<and> length (suspicious_alerts (foldl apply_event initial_state
      (replicate 1001 (Queued ''t'' (sample_result 90)) @ replicate 201 (Queued ''t'' (sample_result 70))))) = 200
   \<and> hd (suspicious_alerts (foldl apply_event initial_state
      (replicate 1001 (Queued ''t'' (sample_result 90)) @ replicate 201 (Queued ''t'' (sample_result 70))))) = stream_alert ''t'' (sample_result 70)"
proof -
  let ?evs = "replicate 1001 (Queued ''t'' (sample_result 90)) @ replicate 201 (Queued ''t'' (sample_result 70))"
  have s90: "tx_risk_score (sample_result 90) = 90" and s70: "tx_risk_score (sample_result 70) = 70"
    by (simp_all add: sample_result_def)
  have live: "concat (map live_entry ?evs) = replicate 1001 (sample_result 90) @ replicate 201 (sample_result 70)"
    by (simp add: concat_replicate_single)
  have high: "concat (map high_risk_entry ?evs) = replicate 1001 (Streamed (sample_result 90))"
    by (simp add: s90 s70 concat_replicate_single concat_replicate_Nil)
  have alerts: "concat (map alert_entry ?evs) = replicate 201 (stream_alert ''t'' (sample_result 70))"
    by (simp add: s90 s70 concat_replicate_single concat_replicate_Nil)
  have init: "length (live_transactions initial_state) \<le> 1000" "length (fraud_history initial_state) \<le> 1000"
    "length (high_risk_transactions initial_state) \<le> 100" "length (suspicious_alerts initial_state) \<le> 200"
    by (simp_all add: initial_state_def)
  from ring_buffer_bound [OF init, of ?evs] show ?thesis
    unfolding live high alerts by simp
qed

subsection \<open>Deduplicator\<close>

text \<open>
  C5. Deduplicator idempotence. A transaction whose hash is in the processed set is
  skipped: the state is unchanged. Processing a transaction a second time changes
  nothing. A transaction with a new hash that is scored has its hash inserted and its
  result queued, and when the queue is then emptied after the transaction was submitted
  twice, the total, the fraud count, the live feed and the history have been updated
  exactly once. A whole iteration of the monitoring loop on a block whose transaction
  was new, run twice, leaves the state of the first run.
\<close>

theorem deduplicator_idempotent:
  "(TxHash tx \<in> processed_tx_hashes s \<longrightarrow> process_tx rt now s tx = s)
 \<and> process_tx rt now' (process_tx rt now s tx) tx = process_tx rt now s tx
 \<and> (TxHash tx \<notin> processed_tx_hashes s \<and> process_transaction_data rt now tx = Some res \<longrightarrow>
      processed_tx_hashes (process_tx rt now s tx) = insert (TxHash tx) (processed_tx_hashes s)
    \<and> transaction_queue (process_tx rt now s tx) = transaction_queue s @ [res]
    \<and> (transaction_queue s = [] \<longrightarrow>
         total_processed (drain_queue now (process_tx rt now' (process_tx rt now s tx) tx))
           = total_processed s + 1
       \<and> total_fraud (drain_queue now (process_tx rt now' (process_tx rt now s tx) tx))
           = total_fraud s + (if tx_label res = ''Fraudulent'' then 1 else 0)
       \<and> live_transactions (drain_queue now (process_tx rt now' (process_tx rt now s tx) tx))
           = insert_newest 1000 res (live_transactions s)
       \<and> fraud_history (drain_queue now (process_tx rt now' (process_tx rt now s tx) tx))
           = append_fifo 1000 (fraud_probability res) (fraud_history s)))
 \<and> (block_transactions b = [raw] \<and> TxHash (make_tx_data b raw) \<notin> processed_tx_hashes s \<longrightarrow>
      monitoring_iteration rt now' [b] (monitoring_iteration rt now [b] s)
        = monitoring_iteration rt now [b] s)"
proof (intro conjI impI)
  assume "TxHash tx \<in> processed_tx_hashes s"
  then show "process_tx rt now s tx = s" by (rule process_tx_seen)
next
  show "process_tx rt now' (process_tx rt now s tx) tx = process_tx rt now s tx"
    by (rule process_tx_idem)
next
  assume a: "TxHash tx \<notin> processed_tx_hashes s \<and> process_transaction_data rt now tx = Some res"
  then have eq: "process_tx rt now s tx = save_transaction_to_db now res
             (s\<lparr>processed_tx_hashes := insert (TxHash tx) (processed_tx_hashes s),
                transaction_queue := transaction_queue s @ [res]\<rparr>)"
    by (simp add: process_tx_new)
  show "processed_tx_hashes (process_tx rt now s tx) = insert (TxHash tx) (processed_tx_hashes s)"
    by (simp add: eq save_fields)
  show "transaction_queue (process_tx rt now s tx) = transaction_queue s @ [res]"
    by (simp add: eq save_fields)
  assume q: "transaction_queue s = []"
  have f: "transaction_queue (process_tx rt now s tx) = [res]"
    "total_processed (process_tx rt now s tx) = total_processed s"
    "total_fraud (process_tx rt now s tx) = total_fraud s"
    "live_transactions (process_tx rt now s tx) = live_transactions s"
    "fraud_history (process_tx rt now s tx) = fraud_history s"
    by (simp_all add: eq save_fields q)
  show "total_processed (drain_queue now (process_tx rt now' (process_tx rt now s tx) tx))
           = total_processed s + 1"
    by (simp add: process_tx_idem drain_queue_fields f)
  show "total_fraud (drain_queue now (process_tx rt now' (process_tx rt now s tx) tx))
           = total_fraud s + (if tx_label res = ''Fraudulent'' then 1 else 0)"
    by (simp add: process_tx_idem drain_queue_fields f)
  show "live_transactions (drain_queue now (process_tx rt now' (process_tx rt now s tx) tx))
           = insert_newest 1000 res (live_transactions s)"
    by (simp add: process_tx_idem drain_queue_fields f)
  show "fraud_history (drain_queue now (process_tx rt now' (process_tx rt now s tx) tx))
           = append_fifo 1000 (fraud_probability res) (fraud_history s)"
    by (simp add: process_tx_idem drain_queue_fields f)
next
  assume "block_transactions b = [raw] \<and> TxHash (make_tx_data b raw) \<notin> processed_tx_hashes s"
  then show "monitoring_iteration rt now' [b] (monitoring_iteration rt now [b] s)
        = monitoring_iteration rt now [b] s"
    by (simp add: iteration_twice)
qed

theorem deduplicator_idempotent_witness:
  "TxHash (make_tx_data sample_block sample_raw) \<notin> processed_tx_hashes initial_state
   \<and> processed_tx_hashes (process_tx sample_runtime ''t'' initial_state (make_tx_data sample_block sample_raw))
        = {''0xab''}
   \<and> total_processed (drain_queue ''t''
         (process_tx sample_runtime ''u''
            (process_tx sample_runtime ''t'' initial_state (make_tx_data sample_block sample_raw))
            (make_tx_data sample_block sample_raw))) = 1
   \<and> total_fraud (drain_queue ''t''
         (process_tx sample_runtime ''u''
            (process_tx sample_runtime ''t'' initial_state (make_tx_data sample_block sample_raw))
            (make_tx_data sample_block sample_raw))) = 0
   \<and> monitoring_iteration sample_runtime ''u'' [sample_block]
         (monitoring_iteration sample_runtime ''t'' [sample_block] initial_state)
        = monitoring_iteration sample_runtime ''t'' [sample_block] initial_state"
proof -
  let ?tx = "make_tx_data sample_block sample_raw"
  have h1: "TxHash ?tx \<notin> processed_tx_hashes initial_state"
    by (simp add: initial_state_def)
  have h2: "transaction_queue initial_state = []" "total_processed initial_state = 0"
    "total_fraud initial_state = 0" "processed_tx_hashes initial_state = {}"
    by (simp_all add: initial_state_def)
  have h3: "block_transactions sample_block = [sample_raw]"
    by (simp add: sample_block_def)
  have h4: "TxHash ?tx = ''0xab''" by (simp add: sample_tx_data)
  note T = deduplicator_idempotent [of ?tx initial_state sample_runtime "''t''" "''u''" sample_scored sample_block sample_raw]
  have h5: "tx_label sample_scored \<noteq> ''Fraudulent''" by (simp add: sample_scored_def)
  from T h1 sample_scoring h2(1) h3
  have R1: "processed_tx_hashes (process_tx sample_runtime ''t'' initial_state ?tx)
              = insert (TxHash ?tx) (processed_tx_hashes initial_state)"
    and R2: "total_processed (drain_queue ''t''
               (process_tx sample_runtime ''u'' (process_tx sample_runtime ''t'' initial_state ?tx) ?tx))
              = total_processed initial_state + 1"
    and R3: "total_fraud (drain_queue ''t''
               (process_tx sample_runtime ''u'' (process_tx sample_runtime ''t'' initial_state ?tx) ?tx))
              = total_fraud initial_state + (if tx_label sample_scored = ''Fraudulent'' then 1 else 0)"
    and R4: "monitoring_iteration sample_runtime ''u'' [sample_block]
               (monitoring_iteration sample_runtime ''t'' [sample_block] initial_state)
              = monitoring_iteration sample_runtime ''t'' [sample_block] initial_state"
    by blast+
  show ?thesis
    by (simp add: R1 R2 R3 R4 h2 h4 h5)
qed

subsection \<open>Privacy hashing\<close>

text \<open>
  C10. Privacy hashing is a function of the table and the list of names (and of the hash
  function), so equal inputs give equal outputs. It keeps the column names, the number of
  rows and their order; in every row a cell changes only under a listed name that is a
  column of the table, where it is replaced by the hashed cell: the text of the first 16
  characters of the SHA-256 hex digest of the cell's string followed by the salt. A name
  listed \<open>n\<close> times has the replacement applied \<open>n\<close> times.
\<close>

theorem privacy_hashing_frame:
  "columns (apply_privacy_hashing rt df cols) = columns df
 \<and> length (rows (apply_privacy_hashing rt df cols)) = length (rows df)
 \<and> rows (apply_privacy_hashing rt df cols)
     = map (\<lambda>r k. if k \<in> set cols \<and> k \<in> set (columns df)
                   then map_option (hash_cell rt ^^ count_list cols k) (r k)
                   else r k)
           (rows df)
 \<and> hash_cell rt x = Text (take 16 (sha256_hexdigest rt (str_cell rt x @ ''chainguard_salt'')))"
proof -
  have r: "rows (apply_privacy_hashing rt df cols)
     = map (\<lambda>r k. if k \<in> set cols \<and> k \<in> set (columns df)
                   then map_option (hash_cell rt ^^ count_list cols k) (r k)
                   else r k)
           (rows df)"
  proof (induction cols rule: rev_induct)
    case Nil
    show ?case by (simp add: apply_privacy_hashing_def)
  next
    case (snoc c cols)
    have step: "apply_privacy_hashing rt df (cols @ [c])
                  = hash_column rt (apply_privacy_hashing rt df cols) c"
      by (simp add: apply_privacy_hashing_def)
    have pt: "(if k = c \<and> c \<in> set (columns df)
               then map_option (hash_cell rt)
                      (if k \<in> set cols \<and> k \<in> set (columns df)
                       then map_option (hash_cell rt ^^ count_list cols k) (r k) else r k)
               else (if k \<in> set cols \<and> k \<in> set (columns df)
                       then map_option (hash_cell rt ^^ count_list cols k) (r k) else r k))
            = (if k \<in> set (cols @ [c]) \<and> k \<in> set (columns df)
               then map_option (hash_cell rt ^^ count_list (cols @ [c]) k) (r k) else r k)"
      for r :: row and k
      by (cases "r k") (auto simp: count_list_0_iff)
    show ?case
      unfolding step hash_column_rows apply_privacy_hashing_columns snoc.IH
      by (simp add: pt o_def)
  qed
  show ?thesis using r
    by (simp add: apply_privacy_hashing_columns hash_cell_def hash_identifier_def chainguard_salt_def)
qed

subsection \<open>Risk score and fraud probability\<close>

text \<open>
  C3, as amended. The integer risk score is the integer part of the product of the fraud
  probability and 100 as the program computes it: the binary64 product, rounded to the
  nearest float, then truncated. For a probability that is not negative this is the floor
  of the rounded product, which is the floor of the exact product or one more. On the
  pattern scorer (\<^verbatim>\<open>backend.predict_with_risk\<close>) this holds for every row of every call
  that returns, one prediction per row, and so for every transaction the streaming loop
  scores; on the ensemble path it holds for every row whose probability is not negative.
\<close>

theorem risk_score_is_floor:
  fixes df :: "'a tx_data_scheme list"
  shows "(predict_with_risk rt df = Some ps \<longrightarrow>
            length ps = length df
          \<and> (\<forall>pr \<in> set ps. risk_score pr = \<lfloor>fmul (p_fraud pr) 100\<rfloor>
                \<and> \<lfloor>p_fraud pr * 100\<rfloor> \<le> risk_score pr
                \<and> risk_score pr \<le> \<lfloor>p_fraud pr * 100\<rfloor> + 1))
       \<and> (process_transaction_data rt now tx = Some res \<longrightarrow>
            tx_risk_score res = \<lfloor>fmul (fraud_probability res) 100\<rfloor>
          \<and> \<lfloor>fraud_probability res * 100\<rfloor> \<le> tx_risk_score res
          \<and> tx_risk_score res \<le> \<lfloor>fraud_probability res * 100\<rfloor> + 1)
       \<and> (ensemble_row rt r is_fraud p = Inr eres \<and> 0 \<le> p \<longrightarrow>
            r_fraud_probability eres = Some p
          \<and> r_risk_score eres = \<lfloor>fmul p 100\<rfloor>
          \<and> (p * 100 < 2 ^ 52 \<longrightarrow>
                \<lfloor>p * 100\<rfloor> \<le> r_risk_score eres \<and> r_risk_score eres \<le> \<lfloor>p * 100\<rfloor> + 1))"
proof (intro conjI impI ballI)
  assume a: "predict_with_risk rt df = Some ps"
  then show "length ps = length df" by (rule predict_with_risk_rows(1))
  fix pr assume "pr \<in> set ps"
  with predict_with_risk_rows(2) [OF a] obtain q where q: "0 \<le> q" "q \<le> 0.95" "pr = predict_row q"
    by blast
  note s = scaled_score [OF q(1,2)]
  from s(1) show "risk_score pr = \<lfloor>fmul (p_fraud pr) 100\<rfloor>" by (simp add: q(3) predict_row_fields)
  from s(2) show "\<lfloor>p_fraud pr * 100\<rfloor> \<le> risk_score pr" by (simp add: q(3) predict_row_fields)
  from s(3) show "risk_score pr \<le> \<lfloor>p_fraud pr * 100\<rfloor> + 1" by (simp add: q(3) predict_row_fields)
next
  assume "process_transaction_data rt now tx = Some res"
  from process_transaction_data_fields [OF this] obtain q where q: "0 \<le> q" "q \<le> 0.95"
    "fraud_probability res = q" "tx_risk_score res = py_int (fmul q 100)" by blast
  note s = scaled_score [OF q(1,2)]
  from s(1) show "tx_risk_score res = \<lfloor>fmul (fraud_probability res) 100\<rfloor>" by (simp add: q)
  from s(2) show "\<lfloor>fraud_probability res * 100\<rfloor> \<le> tx_risk_score res" by (simp add: q)
  from s(3) show "tx_risk_score res \<le> \<lfloor>fraud_probability res * 100\<rfloor> + 1" by (simp add: q)
next
  assume a: "ensemble_row rt r is_fraud p = Inr eres \<and> 0 \<le> p"
  then have e: "ensemble_row rt r is_fraud p = Inr eres" and p0: "0 \<le> p" by simp_all
  from e show "r_fraud_probability eres = Some p" by (rule ensemble_row_fields(3))
  from p0 have "py_int (fmul p 100) = \<lfloor>fmul p 100\<rfloor>"
    by (intro py_int_nonneg fmul_nonneg) simp_all
  then show f: "r_risk_score eres = \<lfloor>fmul p 100\<rfloor>" by (simp add: ensemble_row_fields(1) [OF e])
  assume "p * 100 < 2 ^ 52"
  with p0 have b: "0 \<le> p * 100" "p * 100 < 2 ^ 52" by simp_all
  from floor_fl_bounds [OF b] show "\<lfloor>p * 100\<rfloor> \<le> r_risk_score eres"
    "r_risk_score eres \<le> \<lfloor>p * 100\<rfloor> + 1"
    by (simp_all add: f fmul_def)
qed

theorem risk_score_is_floor_witness:
  "predict_with_risk sample_runtime [make_tx_data sample_block sample_raw]
     = Some [\<lparr>p_fraud = 3602879701896397 / 2 ^ 53, risk_score = 40, label = ''Normal'',
              p_action = ''MEDIUM RISK - Monitor Closely''\<rparr>]
 \<and> (40 :: int) = \<lfloor>fmul (3602879701896397 / 2 ^ 53) 100\<rfloor>
 \<and> process_transaction_data sample_runtime ''t'' (make_tx_data sample_block sample_raw)
     = Some sample_scored
 \<and> tx_risk_score sample_scored = \<lfloor>fmul (fraud_probability sample_scored) 100\<rfloor>
 \<and> analyze_with_ensemble_system sample_runtime sample_ensemble_system sample_fit sample_table
     = Inr [sample_ensemble_result]
 \<and> ensemble_row sample_runtime sample_row True 1 = Inr sample_ensemble_result
 \<and> r_risk_score sample_ensemble_result = \<lfloor>fmul 1 100\<rfloor>"
proof -
  let ?tx = "make_tx_data sample_block sample_raw"
  let ?pr = "\<lparr>p_fraud = 3602879701896397 / 2 ^ 53, risk_score = 40, label = ''Normal'',
              p_action = ''MEDIUM RISK - Monitor Closely''\<rparr>"
  have a: "predict_with_risk sample_runtime [?tx] = Some [?pr]"
    by (simp add: predict_with_risk_def sample_tx_data sample_row_risk predict_row_def
        fmul_def fl_values py_int_def get_fraud_label_def get_action_def)
  have p0: "(0 :: real) \<le> 1" by simp
  note T = risk_score_is_floor [of sample_runtime "[?tx]" "[?pr]" "''t''" ?tx sample_scored
      sample_row True 1 sample_ensemble_result]
  from T a have "\<forall>pr \<in> set [?pr]. risk_score pr = \<lfloor>fmul (p_fraud pr) 100\<rfloor>" by blast
  then have b: "(40 :: int) = \<lfloor>fmul (3602879701896397 / 2 ^ 53) 100\<rfloor>" by simp
  from T sample_scoring
  have c: "tx_risk_score sample_scored = \<lfloor>fmul (fraud_probability sample_scored) 100\<rfloor>" by blast
  from T sample_ensemble(1) [of sample_runtime] p0
  have d: "r_risk_score sample_ensemble_result = \<lfloor>fmul 1 100\<rfloor>" by blast
  from a b sample_scoring c sample_table_ensemble(1) [of sample_runtime sample_fit]
    sample_ensemble(1) [of sample_runtime] d
  show ?thesis by blast
qed

text \<open>
  The claim as stated fails on the pattern scorer. The transfer to oneself of the second
  sample block gets the probability that Python prints as 0.85, the binary64 number
  \<open>7656119366529843 / 2 ^ 53\<close>, and the risk score 85: the float product is 85.0,
  while the product of the probability and 100 is below 85, with floor 84.
\<close>

theorem risk_score_rounding_counterexample:
  "process_transaction_data sample_runtime ''t'' (make_tx_data sample_self_block sample_self_raw)
     = Some sample_self_scored
 \<and> tx_risk_score sample_self_scored = 85
 \<and> \<lfloor>fraud_probability sample_self_scored * 100\<rfloor> = 84"
proof -
  have a: "tx_risk_score sample_self_scored = 85"
    by (simp add: sample_self_scored_def)
  have b: "\<lfloor>fraud_probability sample_self_scored * 100\<rfloor> = 84"
    by (simp add: sample_self_scored_def)
  from sample_self_scoring a b show ?thesis by blast
qed

subsection \<open>A transfer of value 0 to oneself\<close>

text \<open>
  C9, as amended. For a row with value 0 whose sender is its receiver: every result of the
  rule-based analyzer has the flags \<open>Dust Transaction\<close> and \<open>Self Transfer\<close> (not
  \<open>Self Transaction\<close>) and a risk score of at least 45, whatever the two models say. The
  analyzer returns a result exactly when the error flag, the block height and the time
  stamp of the row are not infinite and a positive time stamp is in the range of
  \<^verbatim>\<open>datetime.fromtimestamp\<close>, so always for a row without these three columns;
  otherwise it raises. The ensemble path, when the addresses are not missing, gives a
  result whose flags include \<open>Dust Transaction\<close> and \<open>Self Transaction\<close>, with the
  risk score of the ensemble's probability, which has no lower bound.
\<close>

theorem self_transfer_dust_flags:
  "(r ''Value'' = Some (Number 0) \<and> r ''From'' = Some a \<and> r ''To'' = Some a \<longrightarrow>
      (analyze_row rt side idx r = Inr res \<longrightarrow>
           ''Dust Transaction'' \<in> set (r_flags res)
         \<and> ''Self Transfer'' \<in> set (r_flags res)
         \<and> 45 \<le> r_risk_score res)
    \<and> ((\<exists>res'. analyze_row rt side idx r = Inr res') \<longleftrightarrow>
         (\<exists>e b t. get_is_error rt r = Inr e
                \<and> get_int_field rt r ''BlockHeight'' = Inr b
                \<and> get_int_field rt r ''TimeStamp'' = Inr t
                \<and> (0 < t \<longrightarrow> fromtimestamp_hour rt t \<noteq> None)))
    \<and> (r ''isError'' = None \<and> r ''BlockHeight'' = None \<and> r ''TimeStamp'' = None \<longrightarrow>
         (\<exists>res'. analyze_row rt side idx r = Inr res')))
 \<and> (r ''Value'' = Some (Number 0) \<and> r ''From'' = Some a \<and> r ''To'' = Some a \<and> a \<noteq> Missing
      \<and> ensemble_row rt r is_fraud p = Inr eres \<longrightarrow>
        ''Dust Transaction'' \<in> set (r_flags eres)
      \<and> ''Self Transaction'' \<in> set (r_flags eres)
      \<and> r_risk_score eres = py_int (fmul p 100))"
proof (intro conjI impI)
  assume h: "r ''Value'' = Some (Number 0) \<and> r ''From'' = Some a \<and> r ''To'' = Some a"
  then have amt: "get_amount rt r = Inr (Finite 0)"
    by (simp add: get_amount_def present_def float_cell_def fl_zero)
  from h have ft: "r ''From'' = Some a" "r ''To'' = Some a" by simp_all
  {
    assume "analyze_row rt side idx r = Inr res"
    then obtain e b where res: "res = score_row rt side idx r (Finite 0) e b"
      unfolding analyze_row_Inr amt by auto
    show "''Dust Transaction'' \<in> set (r_flags res)" "''Self Transfer'' \<in> set (r_flags res)"
      "45 \<le> r_risk_score res"
      unfolding res by (rule score_row_self_dust [OF ft])+
  }
  show ex: "(\<exists>res'. analyze_row rt side idx r = Inr res') \<longleftrightarrow>
         (\<exists>e b t. get_is_error rt r = Inr e
                \<and> get_int_field rt r ''BlockHeight'' = Inr b
                \<and> get_int_field rt r ''TimeStamp'' = Inr t
                \<and> (0 < t \<longrightarrow> fromtimestamp_hour rt t \<noteq> None))"
    unfolding analyze_row_Inr amt by auto
  assume "r ''isError'' = None \<and> r ''BlockHeight'' = None \<and> r ''TimeStamp'' = None"
  then have "get_is_error rt r = Inr 0" "get_int_field rt r ''BlockHeight'' = Inr 0"
    "get_int_field rt r ''TimeStamp'' = Inr 0"
    by (simp_all add: get_is_error_def get_int_field_def present_def)
  then show "\<exists>res'. analyze_row rt side idx r = Inr res'"
    unfolding ex by simp
next
  assume h: "r ''Value'' = Some (Number 0) \<and> r ''From'' = Some a \<and> r ''To'' = Some a \<and> a \<noteq> Missing
      \<and> ensemble_row rt r is_fraud p = Inr eres"
  then have e: "ensemble_row rt r is_fraud p = Inr eres" by simp
  from h have v: "ensemble_value rt r = Inr (Finite 0)"
    by (simp add: ensemble_value_def float_cell_def fl_zero)
  from ensemble_row_fields(4) [OF e] v
  have fl: "r_flags eres = ensemble_flags rt r (Finite 0) is_fraud p" by simp
  from h have f: "r ''From'' = Some a" "r ''To'' = Some a" "a \<noteq> Missing" by simp_all
  have "''Dust Transaction'' \<in> set (ensemble_flags rt r (Finite 0) is_fraud p)
       \<and> ''Self Transaction'' \<in> set (ensemble_flags rt r (Finite 0) is_fraud p)"
    by (rule ensemble_flags_self_dust [OF f])
  then show "''Dust Transaction'' \<in> set (r_flags eres)" "''Self Transaction'' \<in> set (r_flags eres)"
    by (simp_all add: fl)
  show "r_risk_score eres = py_int (fmul p 100)" by (rule ensemble_row_fields(1) [OF e])
qed

theorem self_transfer_dust_flags_witness:
  "analyze_row sample_runtime sample_side 0 sample_short_row = Inr sample_fallback_result
 \<and> ''Dust Transaction'' \<in> set (r_flags sample_fallback_result)
 \<and> ''Self Transfer'' \<in> set (r_flags sample_fallback_result)
 \<and> 45 \<le> r_risk_score sample_fallback_result
 \<and> analyze_with_ensemble_system sample_runtime sample_ensemble_system sample_fit sample_table
     = Inr [sample_ensemble_result]
 \<and> ensemble_row sample_runtime sample_row True 1 = Inr sample_ensemble_result
 \<and> ''Dust Transaction'' \<in> set (r_flags sample_ensemble_result)
 \<and> ''Self Transaction'' \<in> set (r_flags sample_ensemble_result)"
proof -
  note T = self_transfer_dust_flags [of sample_short_row "Text ''0x01''" sample_runtime
      sample_side 0 sample_fallback_result True 1 sample_ensemble_result]
  note U = self_transfer_dust_flags [of sample_row "Text ''0x01''" sample_runtime
      sample_side 0 sample_fallback_result True 1 sample_ensemble_result]
  have h: "sample_short_row ''Value'' = Some (Number 0)"
    "sample_short_row ''From'' = Some (Text ''0x01'')"
    "sample_short_row ''To'' = Some (Text ''0x01'')"
    by (simp_all add: sample_short_row_simps)
  have k: "sample_row ''Value'' = Some (Number 0)" "sample_row ''From'' = Some (Text ''0x01'')"
    "sample_row ''To'' = Some (Text ''0x01'')" "Text ''0x01'' \<noteq> Missing"
    by (simp_all add: sample_row_simps)
  from T h sample_fallback [of sample_runtime]
  have a: "''Dust Transaction'' \<in> set (r_flags sample_fallback_result)
         \<and> ''Self Transfer'' \<in> set (r_flags sample_fallback_result)
         \<and> 45 \<le> r_risk_score sample_fallback_result"
    by blast
  from U k sample_ensemble(1) [of sample_runtime]
  have b: "''Dust Transaction'' \<in> set (r_flags sample_ensemble_result)
         \<and> ''Self Transaction'' \<in> set (r_flags sample_ensemble_result)"
    by blast
  from sample_fallback [of sample_runtime] a
    sample_table_ensemble(1) [of sample_runtime sample_fit]
    sample_ensemble(1) [of sample_runtime] b
  show ?thesis by blast
qed

text \<open>
  The claim as stated fails on both paths. The rule-based analyzer's flags for the row of
  the short sample table do not include \<open>Self Transaction\<close>; and the ensemble that gives
  the probability 0 scores the row of the full sample table, of value 0 and sent to
  oneself, with the risk score 0.
\<close>

theorem self_transaction_flag_counterexample:
  "sample_short_row ''Value'' = Some (Number 0)
 \<and> sample_short_row ''From'' = sample_short_row ''To''
 \<and> analyze_transactions sample_runtime sample_fit sample_short_table = Inr [sample_fallback_result]
 \<and> ''Self Transaction'' \<notin> set (r_flags sample_fallback_result)
 \<and> sample_row ''Value'' = Some (Number 0)
 \<and> sample_row ''From'' = sample_row ''To''
 \<and> analyze_with_ensemble_system sample_runtime sample_calm_system sample_fit sample_table
     = Inr [sample_low_result]
 \<and> r_risk_score sample_low_result < 45"
proof -
  have a: "sample_short_row ''Value'' = Some (Number 0)"
    "sample_short_row ''From'' = sample_short_row ''To''"
    by (simp_all add: sample_short_row_simps)
  have b: "''Self Transaction'' \<notin> set (r_flags sample_fallback_result)"
    by (simp add: sample_fallback_result_def)
  have c: "sample_row ''Value'' = Some (Number 0)" "sample_row ''From'' = sample_row ''To''"
    by (simp_all add: sample_row_simps)
  have d: "r_risk_score sample_low_result < 45"
    by (simp add: sample_low_result_def)
  from a sample_short_analysis [of sample_runtime] b c
    sample_table_ensemble(2) [of sample_runtime sample_fit] d
  show ?thesis by blast
qed

subsection \<open>Tier and risk score across the paths\<close>

text \<open>
  C2, as amended. On the ensemble path the reported tier is the classifier's tier of the
  reported risk score. The streaming path labels its risk score with
  \<^verbatim>\<open>backend.get_fraud_label\<close> (Fraudulent from 80, Suspicious from 50, Normal below),
  not with the classifier. Where a reported risk score is routed or counted by the
  streaming loop and the batch endpoint (the high-risk list, the suspicious alerts, the
  tier counts of the report), the routing is the classifier's tier of that score.
\<close>

theorem tier_follows_classifier:
  "(ensemble_row rt r is_fraud p = Inr res \<longrightarrow>
      r_status res = level (get_risk_level_and_action (r_risk_score res)))
 \<and> (process_transaction_data rt now tx = Some sres \<longrightarrow>
      tx_label sres = get_fraud_label (tx_risk_score sres))
 \<and> high_risk_transactions (consume now s qtx) =
      (if level (get_risk_level_and_action (tx_risk_score qtx)) = ''BLOCKED''
       then insert_newest 100 (Streamed qtx) (high_risk_transactions s)
       else high_risk_transactions s)
 \<and> suspicious_alerts (consume now s qtx) =
      (if level (get_risk_level_and_action (tx_risk_score qtx)) = ''SUSPICIOUS''
       then insert_newest 200 (stream_alert now qtx) (suspicious_alerts s)
       else suspicious_alerts s)
 \<and> high_risk_transactions (csv_alerts now s cres) =
      (if level (get_risk_level_and_action (r_risk_score cres)) = ''BLOCKED''
       then insert_newest 100 (Analyzed cres) (high_risk_transactions s)
       else high_risk_transactions s)
 \<and> suspicious_alerts (csv_alerts now s cres) =
      (if level (get_risk_level_and_action (r_risk_score cres)) = ''SUSPICIOUS''
       then insert_newest 200 (csv_alert now cres) (suspicious_alerts s)
       else suspicious_alerts s)
 \<and> rep_blocked (generate_report results) =
      length (filter (\<lambda>x. level (get_risk_level_and_action (r_risk_score x)) = ''BLOCKED'') results)
 \<and> rep_flagged (generate_report results) =
      length (filter (\<lambda>x. level (get_risk_level_and_action (r_risk_score x)) = ''SUSPICIOUS'') results)
 \<and> rep_approved (generate_report results) =
      length (filter (\<lambda>x. level (get_risk_level_and_action (r_risk_score x)) = ''APPROVED'') results)"
proof (intro conjI impI)
  assume "ensemble_row rt r is_fraud p = Inr res"
  then show "r_status res = level (get_risk_level_and_action (r_risk_score res))"
    by (rule ensemble_row_status)
next
  assume "process_transaction_data rt now tx = Some sres"
  then show "tx_label sres = get_fraud_label (tx_risk_score sres)"
    by (rule process_transaction_data_label)
qed (simp_all add: level_iff consume_high_risk consume_suspicious csv_alerts_fields generate_report_def)

theorem tier_follows_classifier_witness:
  "analyze_with_ensemble_system sample_runtime sample_ensemble_system sample_fit sample_table
     = Inr [sample_ensemble_result]
 \<and> ensemble_row sample_runtime sample_row True 1 = Inr sample_ensemble_result
 \<and> r_status sample_ensemble_result = level (get_risk_level_and_action (r_risk_score sample_ensemble_result))
 \<and> process_transaction_data sample_runtime ''t'' (make_tx_data sample_block sample_raw) = Some sample_scored
 \<and> tx_label sample_scored = get_fraud_label (tx_risk_score sample_scored)"
proof -
  note T = tier_follows_classifier [of sample_runtime sample_row True 1 sample_ensemble_result
      "''t''" "make_tx_data sample_block sample_raw" sample_scored]
  from T sample_table_ensemble(1) [of sample_runtime sample_fit]
    sample_ensemble(1) [of sample_runtime] sample_scoring
  show ?thesis by blast
qed

text \<open>
  The claim as stated fails. The streaming labels are not the classifier's tiers under
  any renaming: the scores 50 and 65 get the same label and different tiers. And the
  rule-based batch analyzer reports, for the row of the sample table whose error flag
  says \<open>yes\<close>, the risk score 85 with the tier APPROVED, where the classifier gives
  BLOCKED: it classifies the score before the address-based points are added.
\<close>

theorem tier_disagrees_counterexample:
  "get_fraud_label 50 = get_fraud_label 65
 \<and> level (get_risk_level_and_action (50 :: int)) \<noteq> level (get_risk_level_and_action (65 :: int))
 \<and> analyze_transactions sample_runtime sample_fit sample_flagged_table = Inr [sample_flagged_result]
 \<and> r_risk_score sample_flagged_result = 85
 \<and> r_status sample_flagged_result = ''APPROVED''
 \<and> level (get_risk_level_and_action (85 :: int)) = ''BLOCKED''"
proof -
  have a: "get_fraud_label 50 = get_fraud_label 65"
    by (simp add: get_fraud_label_def)
  have b: "level (get_risk_level_and_action (50 :: int)) \<noteq> level (get_risk_level_and_action (65 :: int))"
    by (simp add: get_risk_level_and_action_def)
  have c: "r_risk_score sample_flagged_result = 85" "r_status sample_flagged_result = ''APPROVED''"
    by (simp_all add: sample_flagged_result_def)
  have d: "level (get_risk_level_and_action (85 :: int)) = ''BLOCKED''"
    by (simp add: get_risk_level_and_action_def)
  from a b sample_flagged_analysis [of sample_runtime] c d show ?thesis by blast
qed

subsection \<open>Address profiles\<close>

text \<open>
  C7, as amended. For an address that is neither empty nor the null address: when the
  address has a profile, the update adds 1 to its transaction count, adds 1 to its fraud
  count exactly when the transaction's label is \<open>Fraudulent\<close>, adds the value, and sets
  the risk score to the formula
  \<open>min(100, 0.4 pct + 0.3 min(100, fraud/10 100) + 0.2 min(100, value/1000 100)
  + 0.1 min(100, count/100 100)) / 100\<close> of the new values, which lies in \<open>[0, 1]\<close> for
  non-negative counts and value; when the address has no profile yet, the new profile
  has the count 1 and the fixed risk score 0.5 for a \<open>Fraudulent\<close> transaction and 0.1
  otherwise. The empty and the null address are skipped; the sender is updated, then the
  receiver. On the streaming path the label is \<open>Fraudulent\<close> exactly when the
  classifier's tier of the risk score is BLOCKED.
\<close>

theorem address_profile_update:
  "(address \<noteq> [] \<and> address \<noteq> null_address \<and> db address = Some row
      \<and> 0 \<le> total_transactions row \<longrightarrow>
      (\<exists>row'. update_address now tx db address = Inr (db(address \<mapsto> row'))
         \<and> total_transactions row' = total_transactions row + 1
         \<and> fraud_transactions row' =
              fraud_transactions row + (if tx_label tx = ''Fraudulent'' then 1 else 0)
         \<and> total_value row' = total_value row + Value tx / 10 ^ 18
         \<and> fraud_percentage row' =
              of_int (fraud_transactions row') / of_int (total_transactions row') * 100
         \<and> node_risk_score row' =
              min 100 (fraud_percentage row' * 0.4
                       + min 100 (of_int (fraud_transactions row') / 10 * 100) * 0.3
                       + min 100 (total_value row' / 1000 * 100) * 0.2
                       + min 100 (of_int (total_transactions row') / 100 * 100) * 0.1) / 100
         \<and> first_seen row' = first_seen row \<and> last_seen row' = now
         \<and> (0 \<le> fraud_transactions row \<and> 0 \<le> total_value row + Value tx / 10 ^ 18 \<longrightarrow>
               0 \<le> node_risk_score row' \<and> node_risk_score row' \<le> 1)))
 \<and> (address \<noteq> [] \<and> address \<noteq> null_address \<and> db address = None \<longrightarrow>
      update_address now tx db address =
        Inr (db(address \<mapsto>
               \<lparr>total_transactions = 1,
                fraud_transactions = (if tx_label tx = ''Fraudulent'' then 1 else 0),
                fraud_percentage = (if tx_label tx = ''Fraudulent'' then 100 else 0),
                total_value = Value tx / 10 ^ 18,
                fraud_value = (if tx_label tx = ''Fraudulent'' then Value tx / 10 ^ 18 else 0),
                node_risk_score = (if tx_label tx = ''Fraudulent'' then 0.5 else 0.1),
                first_seen = now, last_seen = now, is_flagged = False\<rparr>)))
 \<and> (address = [] \<or> address = null_address \<longrightarrow> update_address now tx db address = Inr db)
 \<and> (update_address now tx db (From tx) = Inr db1 \<and> update_address now tx db1 (To tx) = Inr db2 \<longrightarrow>
      update_node_analysis now tx db = db2)
 \<and> (process_transaction_data rt now stx = Some tx \<longrightarrow>
      (tx_label tx = ''Fraudulent'' \<longleftrightarrow>
       level (get_risk_level_and_action (tx_risk_score tx)) = ''BLOCKED''))"
proof (intro conjI impI)
  assume "address \<noteq> [] \<and> address \<noteq> null_address \<and> db address = Some row
      \<and> 0 \<le> total_transactions row"
  then have h: "address \<noteq> []" "address \<noteq> null_address" "db address = Some row"
    "0 \<le> total_transactions row" by simp_all
  from h show "\<exists>row'. update_address now tx db address = Inr (db(address \<mapsto> row'))
         \<and> total_transactions row' = total_transactions row + 1
         \<and> fraud_transactions row' =
              fraud_transactions row + (if tx_label tx = ''Fraudulent'' then 1 else 0)
         \<and> total_value row' = total_value row + Value tx / 10 ^ 18
         \<and> fraud_percentage row' =
              of_int (fraud_transactions row') / of_int (total_transactions row') * 100
         \<and> node_risk_score row' =
              min 100 (fraud_percentage row' * 0.4
                       + min 100 (of_int (fraud_transactions row') / 10 * 100) * 0.3
                       + min 100 (total_value row' / 1000 * 100) * 0.2
                       + min 100 (of_int (total_transactions row') / 100 * 100) * 0.1) / 100
         \<and> first_seen row' = first_seen row \<and> last_seen row' = now
         \<and> (0 \<le> fraud_transactions row \<and> 0 \<le> total_value row + Value tx / 10 ^ 18 \<longrightarrow>
               0 \<le> node_risk_score row' \<and> node_risk_score row' \<le> 1)"
    by (rule update_existing_fields)
next
  assume "address \<noteq> [] \<and> address \<noteq> null_address \<and> db address = None"
  then have h: "address \<noteq> []" "address \<noteq> null_address" "db address = None" by simp_all
  from h show "update_address now tx db address =
        Inr (db(address \<mapsto>
               \<lparr>total_transactions = 1,
                fraud_transactions = (if tx_label tx = ''Fraudulent'' then 1 else 0),
                fraud_percentage = (if tx_label tx = ''Fraudulent'' then 100 else 0),
                total_value = Value tx / 10 ^ 18,
                fraud_value = (if tx_label tx = ''Fraudulent'' then Value tx / 10 ^ 18 else 0),
                node_risk_score = (if tx_label tx = ''Fraudulent'' then 0.5 else 0.1),
                first_seen = now, last_seen = now, is_flagged = False\<rparr>))"
    by (rule update_address_new)
next
  assume "address = [] \<or> address = null_address"
  then show "update_address now tx db address = Inr db" by (rule update_address_skip)
next
  assume "update_address now tx db (From tx) = Inr db1 \<and> update_address now tx db1 (To tx) = Inr db2"
  then show "update_node_analysis now tx db = db2" by (simp add: update_node_analysis_def)
next
  assume "process_transaction_data rt now stx = Some tx"
  then show "tx_label tx = ''Fraudulent'' \<longleftrightarrow>
       level (get_risk_level_and_action (tx_risk_score tx)) = ''BLOCKED''"
    by (rule streaming_label_blocked)
qed

theorem address_profile_update_witness:
  "(\<exists>row'. update_address ''u'' (sample_result 90) [''0x01'' \<mapsto> sample_profile] ''0x01''
             = Inr ([''0x01'' \<mapsto> sample_profile](''0x01'' \<mapsto> row'))
        \<and> total_transactions row' = 2 \<and> fraud_transactions row' = 1
        \<and> 0 \<le> node_risk_score row' \<and> node_risk_score row' \<le> 1)
 \<and> update_address ''u'' (sample_result 90) [''0x01'' \<mapsto> sample_profile] [] = Inr [''0x01'' \<mapsto> sample_profile]
 \<and> process_transaction_data sample_runtime ''t'' (make_tx_data sample_block sample_raw) = Some sample_scored
 \<and> tx_label sample_scored \<noteq> ''Fraudulent''
 \<and> level (get_risk_level_and_action (tx_risk_score sample_scored)) \<noteq> ''BLOCKED''"
proof -
  let ?db = "[''0x01'' \<mapsto> sample_profile]"
  have h: "''0x01'' \<noteq> []" "''0x01'' \<noteq> null_address" "?db ''0x01'' = Some sample_profile"
    "0 \<le> total_transactions sample_profile" "0 \<le> fraud_transactions sample_profile"
    "0 \<le> total_value sample_profile + Value (sample_result 90) / 10 ^ 18"
    by (simp_all add: null_address_def sample_profile_def sample_result_fields)
  have v: "total_transactions sample_profile + 1 = 2"
    "fraud_transactions sample_profile + (if tx_label (sample_result 90) = ''Fraudulent'' then 1 else 0) = 1"
    by (simp_all add: sample_profile_def sample_result_fields)
  note T1 = address_profile_update [of "''0x01''" ?db sample_profile "''u''" "sample_result 90"]
  from T1 h have
    "\<exists>row'. update_address ''u'' (sample_result 90) ?db ''0x01'' = Inr (?db(''0x01'' \<mapsto> row'))
         \<and> total_transactions row' = total_transactions sample_profile + 1
         \<and> fraud_transactions row' =
              fraud_transactions sample_profile + (if tx_label (sample_result 90) = ''Fraudulent'' then 1 else 0)
         \<and> 0 \<le> node_risk_score row' \<and> node_risk_score row' \<le> 1"
    by blast
  then have a: "\<exists>row'. update_address ''u'' (sample_result 90) ?db ''0x01'' = Inr (?db(''0x01'' \<mapsto> row'))
         \<and> total_transactions row' = 2 \<and> fraud_transactions row' = 1
         \<and> 0 \<le> node_risk_score row' \<and> node_risk_score row' \<le> 1"
    unfolding v .
  note T2 = address_profile_update [of "[]" ?db _ "''u''" "sample_result 90"]
  from T2 have b: "update_address ''u'' (sample_result 90) ?db [] = Inr ?db" by blast
  note T3 = address_profile_update [of _ _ _ "''t''" sample_scored _ _ sample_runtime
      "make_tx_data sample_block sample_raw"]
  have c: "tx_label sample_scored \<noteq> ''Fraudulent''" by (simp add: sample_scored_def)
  from T3 sample_scoring c
  have d: "level (get_risk_level_and_action (tx_risk_score sample_scored)) \<noteq> ''BLOCKED''"
    by blast
  from a b sample_scoring c d show ?thesis by blast
qed

text \<open>
  The claim as stated fails at a transaction of risk score 70 (tier SUSPICIOUS, label
  \<open>Suspicious\<close>) for an address seen for the first time: the fraud count of the new
  profile is 0, and its risk score is 0.1 where the formula gives 0.001.
\<close>

theorem address_profile_counterexample:
  "tx_risk_score (sample_result 70) = 70
 \<and> level (get_risk_level_and_action (70 :: int)) \<noteq> ''APPROVED''
 \<and> update_address ''t'' (sample_result 70) Map.empty ''0x01'' = Inr [''0x01'' \<mapsto> sample_profile]
 \<and> fraud_transactions sample_profile = 0
 \<and> node_risk_score sample_profile = 1 / 10
 \<and> min 100 (fraud_percentage sample_profile * 0.4
             + min 100 (of_int (fraud_transactions sample_profile) / 10 * 100) * 0.3
             + min 100 (total_value sample_profile / 1000 * 100) * 0.2
             + min 100 (of_int (total_transactions sample_profile) / 100 * 100) * 0.1) / 100
     = (1 / 1000 :: real)"
proof -
  have a: "tx_risk_score (sample_result 70) = 70" by (simp add: sample_result_fields)
  have b: "level (get_risk_level_and_action (70 :: int)) \<noteq> ''APPROVED''"
    by (simp add: get_risk_level_and_action_def)
  have h: "''0x01'' \<noteq> []" "''0x01'' \<noteq> null_address" "(Map.empty :: string \<rightharpoonup> node_row) ''0x01'' = None"
    by (simp_all add: null_address_def)
  have c: "update_address ''t'' (sample_result 70) Map.empty ''0x01'' = Inr [''0x01'' \<mapsto> sample_profile]"
    unfolding update_address_new [OF h] sample_profile_def
    by (simp add: sample_result_fields)
  have d: "fraud_transactions sample_profile = 0" "node_risk_score sample_profile = 1 / 10"
    by (simp_all add: sample_profile_def)
  have e: "min 100 (fraud_percentage sample_profile * 0.4
             + min 100 (of_int (fraud_transactions sample_profile) / 10 * 100) * 0.3
             + min 100 (total_value sample_profile / 1000 * 100) * 0.2
             + min 100 (of_int (total_transactions sample_profile) / 100 * 100) * 0.1) / 100
     = (1 / 1000 :: real)"
    by (simp add: sample_profile_def)
  from a b c d e show ?thesis by blast
qed

subsection \<open>Range of the fraud probability\<close>




subsection \<open>Validation of a batch upload\<close>

text \<open>
  C8, as amended. The batch page \<open>show_csv_scoring\<close> rejects an uploaded table exactly
  when one of the required columns TxHash, BlockHeight, TimeStamp, From, To, Value is
  missing from it; it then reports exactly the missing required columns, in their order,
  and scores no row. The endpoint \<open>analyze_csv\<close> does not look at the column names. It
  answers with status 400, leaving the monitoring state as it was, when the request has no
  file, the file name is empty or does not end in \<open>.csv\<close>, or the table read from the
  file has no row; with status 500 when the file cannot be read as a table; and for every
  other upload, whatever its columns, with one result per row of the table and their
  report, unless the rule-based analyzer raises on the table, or a result of the ensemble
  in the suspicious range has a transaction id that is not a text, when it answers with
  status 500.
\<close>

theorem batch_validation:
  fixes es :: "'x ensemble_system"
  shows "((\<exists>missing. show_csv_scoring rt df ok n progress clicked = Rejected missing)
            \<longleftrightarrow> \<not> set required_cols \<subseteq> set (columns df))
 \<and> (show_csv_scoring rt df ok n progress clicked = Rejected missing \<longrightarrow>
        missing \<noteq> [] \<and> missing = filter (\<lambda>col. col \<notin> set (columns df)) required_cols)
 \<and> (file = None
      \<or> (\<exists>f. file = Some f
             \<and> (filename f = [] \<or> \<not> suffix ''.csv'' (filename f)
                  \<or> (\<exists>d. content f = Some d \<and> columns d \<noteq> [] \<and> rows d = []))) \<longrightarrow>
        (\<exists>msg. analyze_csv rt es catboost fit now file s = (Failure msg 400, s)))
 \<and> (file = Some f \<and> filename f \<noteq> [] \<and> suffix ''.csv'' (filename f)
      \<and> (content f = None \<or> (\<exists>d. content f = Some d \<and> columns d = [])) \<longrightarrow>
        analyze_csv rt es catboost fit now file s = (Failure ''Analysis failed'' 500, s))
 \<and> (file = Some f \<and> filename f \<noteq> [] \<and> suffix ''.csv'' (filename f)
      \<and> content f = Some d \<and> columns d \<noteq> [] \<and> rows d \<noteq> [] \<longrightarrow>
        (\<exists>rs. analyze_csv rt es catboost fit now file s
                 = (Success rs (generate_report rs), foldl (csv_alerts now) s rs)
              \<and> length rs = length (rows d))
      \<or> (analyze_csv rt es catboost fit now file s = (Failure ''Analysis failed'' 500, s)
           \<and> (\<exists>e. analyze_transactions rt fit d = Inl e))
      \<or> (\<exists>rs bad s'. analyze_csv rt es catboost fit now file s
                         = (Failure ''Analysis failed'' 500, s')
           \<and> is_loaded es \<and> analyze_with_ensemble_system rt es fit d = Inr rs
           \<and> bad \<in> set rs \<and> 65 \<le> r_risk_score bad \<and> r_risk_score bad < 80
           \<and> \<not> is_text (r_TxHash bad)))"
proof (intro conjI impI)
  show "(\<exists>missing. show_csv_scoring rt df ok n progress clicked = Rejected missing)
          \<longleftrightarrow> \<not> set required_cols \<subseteq> set (columns df)"
    by (rule show_csv_scoring_rejects)
next
  assume "show_csv_scoring rt df ok n progress clicked = Rejected missing"
  from show_csv_scoring_missing [OF this]
  show "missing \<noteq> []" "missing = filter (\<lambda>col. col \<notin> set (columns df)) required_cols"
    by blast+
next
  assume "file = None
      \<or> (\<exists>f. file = Some f
             \<and> (filename f = [] \<or> \<not> suffix ''.csv'' (filename f)
                  \<or> (\<exists>d. content f = Some d \<and> columns d \<noteq> [] \<and> rows d = [])))"
  then show "\<exists>msg. analyze_csv rt es catboost fit now file s = (Failure msg 400, s)"
    by (rule analyze_csv_rejects)
next
  assume "file = Some f \<and> filename f \<noteq> [] \<and> suffix ''.csv'' (filename f)
      \<and> (content f = None \<or> (\<exists>d. content f = Some d \<and> columns d = []))"
  then have h: "file = Some f" "filename f \<noteq> []" "suffix ''.csv'' (filename f)"
    "content f = None \<or> (\<exists>d. content f = Some d \<and> columns d = [])"
    by blast+
  show "analyze_csv rt es catboost fit now file s = (Failure ''Analysis failed'' 500, s)"
    by (rule analyze_csv_unreadable [OF h])
next
  assume "file = Some f \<and> filename f \<noteq> [] \<and> suffix ''.csv'' (filename f)
      \<and> content f = Some d \<and> columns d \<noteq> [] \<and> rows d \<noteq> []"
  then have h: "file = Some f" "filename f \<noteq> []" "suffix ''.csv'' (filename f)"
    "content f = Some d" "columns d \<noteq> []" "rows d \<noteq> []"
    by blast+
  show "(\<exists>rs. analyze_csv rt es catboost fit now file s
                 = (Success rs (generate_report rs), foldl (csv_alerts now) s rs)
              \<and> length rs = length (rows d))
      \<or> (analyze_csv rt es catboost fit now file s = (Failure ''Analysis failed'' 500, s)
           \<and> (\<exists>e. analyze_transactions rt fit d = Inl e))
      \<or> (\<exists>rs bad s'. analyze_csv rt es catboost fit now file s
                         = (Failure ''Analysis failed'' 500, s')
           \<and> is_loaded es \<and> analyze_with_ensemble_system rt es fit d = Inr rs
           \<and> bad \<in> set rs \<and> 65 \<le> r_risk_score bad \<and> r_risk_score bad < 80
           \<and> \<not> is_text (r_TxHash bad))"
    by (rule analyze_csv_outcome [OF h])
qed

theorem batch_validation_witness:
  "show_csv_scoring sample_runtime sample_short_table True 500 True True
     = Rejected [''BlockHeight'', ''TimeStamp'']
 \<and> \<not> set required_cols \<subseteq> set (columns sample_short_table)
 \<and> [''BlockHeight'', ''TimeStamp'']
     = filter (\<lambda>col. col \<notin> set (columns sample_short_table)) required_cols
 \<and> (\<exists>msg. analyze_csv sample_runtime sample_ensemble_system False sample_fit ''t''
             None initial_state = (Failure msg 400, initial_state))
 \<and> analyze_csv sample_runtime sample_ensemble_system False sample_fit ''t''
      (Some \<lparr>filename = ''batch.csv'', content = None\<rparr>) initial_state
     = (Failure ''Analysis failed'' 500, initial_state)
 \<and> (\<exists>rs. analyze_csv sample_runtime sample_ensemble_system False sample_fit ''t''
            (Some sample_upload) initial_state
            = (Success rs (generate_report rs), foldl (csv_alerts ''t'') initial_state rs)
         \<and> length rs = length (rows sample_short_table))"
proof -
  let ?bad = "\<lparr>filename = ''batch.csv'', content = None\<rparr>"
  note T = batch_validation [of sample_runtime sample_short_table True 500 True True
      "[''BlockHeight'', ''TimeStamp'']" "Some sample_upload" sample_ensemble_system False
      sample_fit "''t''" initial_state sample_upload sample_short_table]
  note N = batch_validation [of sample_runtime sample_short_table True 500 True True
      "[''BlockHeight'', ''TimeStamp'']" None sample_ensemble_system False
      sample_fit "''t''" initial_state sample_upload sample_short_table]
  note B = batch_validation [of sample_runtime sample_short_table True 500 True True
      "[''BlockHeight'', ''TimeStamp'']" "Some ?bad" sample_ensemble_system False
      sample_fit "''t''" initial_state ?bad sample_short_table]
  have p: "show_csv_scoring sample_runtime sample_short_table True 500 True True
             = Rejected [''BlockHeight'', ''TimeStamp'']"
    by (rule sample_short_page)
  from T p
  have a: "\<not> set required_cols \<subseteq> set (columns sample_short_table)"
    and b: "[''BlockHeight'', ''TimeStamp'']
              = filter (\<lambda>col. col \<notin> set (columns sample_short_table)) required_cols"
    by blast+
  from N
  have c: "\<exists>msg. analyze_csv sample_runtime sample_ensemble_system False sample_fit ''t''
             None initial_state = (Failure msg 400, initial_state)"
    by blast
  have named: "filename ?bad \<noteq> []" "suffix ''.csv'' (filename ?bad)" "content ?bad = None"
    by (simp_all add: suffix_to_prefix)
  from B named
  have d: "analyze_csv sample_runtime sample_ensemble_system False sample_fit ''t''
             (Some ?bad) initial_state = (Failure ''Analysis failed'' 500, initial_state)"
    by blast
  have r: "content sample_upload = Some sample_short_table" "rows sample_short_table \<noteq> []"
    "columns sample_short_table \<noteq> []"
    by (simp_all add: sample_upload_simps)
  have ok: "\<And>s'. analyze_csv sample_runtime sample_ensemble_system False sample_fit ''t''
              (Some sample_upload) initial_state
            \<noteq> (Failure ''Analysis failed'' 500, s')"
    by (simp add: sample_upload_response)
  from T sample_upload_named r ok
  have e: "\<exists>rs. analyze_csv sample_runtime sample_ensemble_system False sample_fit ''t''
            (Some sample_upload) initial_state
            = (Success rs (generate_report rs), foldl (csv_alerts ''t'') initial_state rs)
         \<and> length rs = length (rows sample_short_table)"
    by blast
  from p a b c d e show ?thesis by blast
qed

text \<open>
  The claim as stated fails on the endpoint: the upload \<open>batch.csv\<close> has neither the
  column BlockHeight nor the column TimeStamp, and its row is scored.
\<close>

theorem missing_columns_accepted_counterexample:
  "content sample_upload = Some sample_short_table
 \<and> \<not> set required_cols \<subseteq> set (columns sample_short_table)
 \<and> analyze_csv sample_runtime sample_ensemble_system False sample_fit ''t''
      (Some sample_upload) initial_state
    = (Success [sample_fallback_result]
         \<lparr>rep_total = 1, rep_blocked = 0, rep_flagged = 0, rep_approved = 1\<rparr>, initial_state)"
proof -
  have a: "content sample_upload = Some sample_short_table"
    by (simp add: sample_upload_simps)
  have b: "\<not> set required_cols \<subseteq> set (columns sample_short_table)"
    by (simp add: required_cols_def sample_upload_simps)
  from a b sample_upload_response [of sample_runtime sample_ensemble_system False "''t''" initial_state]
  show ?thesis by blast
qed


end
